theory Spec2Isabelle
  imports Main
begin

section \<open>PredictionMarketV2: a shallow embedding of the market engine\<close>

text \<open>
  The development embeds the contract \<^verbatim>\<open>PredictionMarketV2.sol\<close>. Every external
  function of the contract is a HOL function from the caller's environment and the
  contract's storage to either an error or the new storage. A transaction that reverts
  leaves the storage as it was; that is the reading of \<open>Inl\<close> throughout, made explicit
  by \<open>transact\<close> below.

  Solidity 0.8 arithmetic on \<^verbatim>\<open>uint256\<close> is checked: a result outside
  \<open>0 .. 2^256 - 1\<close> and a division by zero abort the transaction with a panic. The
  model keeps \<^verbatim>\<open>uint256\<close> values as natural numbers and writes every such check out.
\<close>

subsection \<open>Errors and checked arithmetic\<close>

datatype error = Revert string | Panic

type_synonym 'a result = "error + 'a"

definition bindE :: "'a result \<Rightarrow> ('a \<Rightarrow> 'b result) \<Rightarrow> 'b result" where
  "bindE m f = (case m of Inl e \<Rightarrow> Inl e | Inr x \<Rightarrow> f x)"

definition require :: "bool \<Rightarrow> string \<Rightarrow> unit result" where
  "require c msg = (if c then Inr () else Inl (Revert msg))"

definition MAX_UINT256 :: nat where
  "MAX_UINT256 = 2 ^ 256 - 1"

definition add256 :: "nat \<Rightarrow> nat \<Rightarrow> nat result" where
  "add256 a b = (if a + b \<le> MAX_UINT256 then Inr (a + b) else Inl Panic)"

definition sub256 :: "nat \<Rightarrow> nat \<Rightarrow> nat result" where
  "sub256 a b = (if b \<le> a then Inr (a - b) else Inl Panic)"

definition mul256 :: "nat \<Rightarrow> nat \<Rightarrow> nat result" where
  "mul256 a b = (if a * b \<le> MAX_UINT256 then Inr (a * b) else Inl Panic)"

definition div256 :: "nat \<Rightarrow> nat \<Rightarrow> nat result" where
  "div256 a b = (if b = 0 then Inl Panic else Inr (a div b))"

text \<open>
  \<^verbatim>\<open>int256(x)\<close> on a \<^verbatim>\<open>uint256\<close> reinterprets the bits (the conversion itself is
  unchecked); subtraction and addition on \<^verbatim>\<open>int256\<close> are checked.
\<close>

definition int256_of :: "nat \<Rightarrow> int" where
  "int256_of x = (if x < 2 ^ 255 then int x else int x - 2 ^ 256)"

definition in_int256 :: "int \<Rightarrow> bool" where
  "in_int256 i \<longleftrightarrow> - (2 ^ 255) \<le> i \<and> i < 2 ^ 255"

definition addI256 :: "int \<Rightarrow> int \<Rightarrow> int result" where
  "addI256 a b = (if in_int256 (a + b) then Inr (a + b) else Inl Panic)"

definition subI256 :: "int \<Rightarrow> int \<Rightarrow> int result" where
  "subI256 a b = (if in_int256 (a - b) then Inr (a - b) else Inl Panic)"

subsection \<open>Constants\<close>

definition PAYOUT_PER_SHARE :: nat where "PAYOUT_PER_SHARE = 10 ^ 18"
definition MIN_MARKET_DURATION :: nat where "MIN_MARKET_DURATION = 3600"
definition MAX_MARKET_DURATION :: nat where "MAX_MARKET_DURATION = 365 * 86400"
definition MIN_LMSR_B :: nat where "MIN_LMSR_B = 10 ^ 18"
definition MAX_LMSR_B :: nat where "MAX_LMSR_B = 1000000 * 10 ^ 18"
definition WAD :: nat where "WAD = 10 ^ 18"

subsection \<open>Data model\<close>

type_synonym address = nat

datatype MarketCategory = POLITICS | SPORTS | CRYPTO | ENTERTAINMENT | SCIENCE | OTHER

datatype MarketType = STANDARD | FREE

datatype Role =
  DEFAULT_ADMIN_ROLE | QUESTION_CREATOR_ROLE | QUESTION_RESOLVE_ROLE
  | MARKET_CREATOR_ROLE | MARKET_VALIDATOR_ROLE

record Market =
  question :: string
  description :: string
  endTime :: nat
  createdAt :: nat
  category :: MarketCategory
  marketType :: MarketType
  creator :: address
  resolved :: bool
  invalidated :: bool
  disputed :: bool
  validated :: bool
  winningOptionId :: nat
  optionCount :: nat
  totalVolume :: nat
  lmsrB :: nat
  adminInitialLiquidity :: nat
  userLiquidity :: nat
  platformFeesCollected :: nat
  adminLiquidityClaimed :: bool
  earlyResolutionAllowed :: bool
  bettingToken :: address

text \<open>Field names shared between two Solidity structs carry a suffix in the second.\<close>

record Option =
  name :: string
  description_o :: string
  totalShares :: nat
  totalVolume_o :: nat
  currentPrice :: nat
  isActive :: bool

record FreeMarketParams =
  maxFreeParticipants_p :: nat
  tokensPerParticipant_p :: nat

record FreeMarketConfig =
  maxFreeParticipants :: nat
  tokensPerParticipant :: nat
  currentFreeParticipants :: nat
  totalPrizePool :: nat
  remainingPrizePool :: nat
  isActive_c :: bool

record Trade =
  marketId :: nat
  optionId :: nat
  buyer :: address
  seller :: address
  price :: nat
  quantity :: nat
  timestamp :: nat

record UserPortfolio =
  totalInvested :: nat
  totalWinnings :: nat
  unrealizedPnL :: int
  realizedPnL :: int
  tradeCount :: nat

record PricePoint =
  price_pp :: nat
  timestamp_pp :: nat
  volume :: nat

text \<open>
  The storage of the contract. A Solidity mapping is total (an absent key reads as the
  zero value), so each mapping is a total function. The inherited OpenZeppelin state
  (\<open>owner\<close>, \<open>paused\<close>, \<open>roles\<close>) and the contract's own address \<open>this\<close> are fields too.

  Modelled from the spec: the ERC-20 betting tokens are external contracts whose code is
  not part of the repository. The Ledger Interface of the specification (\<open>transfer\<close>
  and \<open>transferFrom\<close>, each atomic and failing loudly on insufficient balance or
  allowance) is modelled by the fields \<open>balances\<close> (token, holder) and \<open>allowances\<close>
  (token, owner, spender) and the two functions \<open>erc20_transfer\<close> and
  \<open>erc20_transferFrom\<close>.
\<close>

record state =
  bettingToken_g :: address
  previousBettingToken :: address
  feeCollector :: address
  freeClaimHandler :: address
  marketCount :: nat
  platformFeeRate :: nat
  globalTradeCount :: nat
  totalPlatformFeesCollected :: nat
  totalLockedPlatformFees :: nat
  totalUnlockedPlatformFees :: nat
  totalWithdrawnPlatformFees :: nat
  whitelistedTokens :: "address \<Rightarrow> bool"
  whitelistedTokenList :: "address list"
  markets :: "nat \<Rightarrow> Market"
  options :: "nat \<Rightarrow> nat \<Rightarrow> Option"
  freeMarketConfigs :: "nat \<Rightarrow> FreeMarketConfig"
  userShares :: "address \<Rightarrow> nat \<Rightarrow> nat \<Rightarrow> nat"
  userCostBasis :: "address \<Rightarrow> nat \<Rightarrow> nat \<Rightarrow> nat"
  hasClaimedWinnings :: "nat \<Rightarrow> address \<Rightarrow> bool"
  hasClaimedFreeTokens :: "nat \<Rightarrow> address \<Rightarrow> bool"
  userPortfolios :: "address \<Rightarrow> UserPortfolio"
  userTradeHistory :: "address \<Rightarrow> Trade list"
  priceHistory :: "nat \<Rightarrow> nat \<Rightarrow> PricePoint list"
  categoryMarkets :: "MarketCategory \<Rightarrow> nat list"
  marketsByType :: "MarketType \<Rightarrow> nat list"
  owner :: address
  paused :: bool
  roles :: "Role \<Rightarrow> address \<Rightarrow> bool"
  this :: address
  balances :: "address \<Rightarrow> address \<Rightarrow> nat"
  allowances :: "address \<Rightarrow> address \<Rightarrow> address \<Rightarrow> nat"

text \<open>The caller's environment: \<^verbatim>\<open>msg.sender\<close> and \<^verbatim>\<open>block.timestamp\<close>.\<close>

record env =
  msg_sender :: address
  block_timestamp :: nat

subsection \<open>Ledger Interface\<close>

definition ledger_move ::
  "(address \<Rightarrow> address \<Rightarrow> nat) \<Rightarrow> address \<Rightarrow> address \<Rightarrow> address \<Rightarrow> nat
     \<Rightarrow> (address \<Rightarrow> address \<Rightarrow> nat)" where
  "ledger_move bal token from to amount =
     (let b1 = (bal token)(from := bal token from - amount)
      in bal(token := b1(to := b1 to + amount)))"

definition erc20_transfer :: "state \<Rightarrow> address \<Rightarrow> address \<Rightarrow> address \<Rightarrow> nat \<Rightarrow> state result" where
  "erc20_transfer s token from to amount =
     (if balances s token from < amount then Inl (Revert ''ERC20InsufficientBalance'')
      else if ledger_move (balances s) token from to amount token to > MAX_UINT256
      then Inl Panic
      else Inr (s\<lparr>balances := ledger_move (balances s) token from to amount\<rparr>))"

definition erc20_transferFrom ::
  "state \<Rightarrow> address \<Rightarrow> address \<Rightarrow> address \<Rightarrow> address \<Rightarrow> nat \<Rightarrow> state result" where
  "erc20_transferFrom s token spender from to amount =
     (if allowances s token from spender < amount
      then Inl (Revert ''ERC20InsufficientAllowance'')
      else erc20_transfer
             (s\<lparr>allowances := (allowances s)(token := (allowances s token)
                  (from := (allowances s token from)
                     (spender := allowances s token from spender - amount)))\<rparr>)
             token from to amount)"

subsection \<open>Pricing Engine\<close>

text \<open>
  The loop of \<^verbatim>\<open>_calculatePrice\<close>: for \<open>i\<close> from \<open>0\<close> to \<open>optionCount - 1\<close>, add
  the hypothetical count \<open>sh\<close> for option \<open>oid\<close> and the stored count for every other
  option; \<^verbatim>\<open>+=\<close> is checked.
\<close>

fun sumShares :: "state \<Rightarrow> nat \<Rightarrow> nat \<Rightarrow> nat \<Rightarrow> nat list \<Rightarrow> nat \<Rightarrow> nat result" where
  "sumShares s mid oid sh [] acc = Inr acc"
| "sumShares s mid oid sh (i # is) acc =
     bindE (add256 acc (if i = oid then sh else totalShares (options s mid i)))
       (\<lambda>acc'. sumShares s mid oid sh is acc')"

definition calculatePrice :: "state \<Rightarrow> nat \<Rightarrow> nat \<Rightarrow> nat \<Rightarrow> nat result" where
  "calculatePrice s mid oid sh =
     bindE (sumShares s mid oid sh [0 ..< optionCount (markets s mid)] 0)
       (\<lambda>totalWeightedShares.
          if totalWeightedShares = 0 then div256 (10 ^ 18) (optionCount (markets s mid))
          else bindE (mul256 sh (10 ^ 18)) (\<lambda>x. div256 x totalWeightedShares))"

definition calculateBuyCost :: "state \<Rightarrow> nat \<Rightarrow> nat \<Rightarrow> nat \<Rightarrow> nat result" where
  "calculateBuyCost s mid oid q =
     (let currentShares = totalShares (options s mid oid) in
      bindE (add256 currentShares q) (\<lambda>newShares.
      bindE (add256 currentShares (q div 2)) (\<lambda>sh.
      bindE (calculatePrice s mid oid sh) (\<lambda>avgPrice.
      bindE (mul256 q avgPrice) (\<lambda>x. div256 x (10 ^ 18))))))"

definition calculateSellProceeds :: "state \<Rightarrow> nat \<Rightarrow> nat \<Rightarrow> nat \<Rightarrow> nat result" where
  "calculateSellProceeds s mid oid q =
     (let currentShares = totalShares (options s mid oid) in
      bindE (require (currentShares \<ge> q) ''Insufficient market shares'') (\<lambda>_.
      bindE (sub256 currentShares (q div 2)) (\<lambda>sh.
      bindE (calculatePrice s mid oid sh) (\<lambda>avgPrice.
      bindE (mul256 q avgPrice) (\<lambda>x. div256 x (10 ^ 18))))))"

definition updatePrice :: "state \<Rightarrow> nat \<Rightarrow> nat \<Rightarrow> state result" where
  "updatePrice s mid oid =
     bindE (calculatePrice s mid oid (totalShares (options s mid oid))) (\<lambda>p.
       Inr (s\<lparr>options := (options s)(mid := (options s mid)
              (oid := (options s mid oid)\<lparr>currentPrice := p\<rparr>))\<rparr>))"

definition calculateLMSRB :: "nat \<Rightarrow> nat \<Rightarrow> nat result" where
  "calculateLMSRB liquidity n =
     bindE (mul256 liquidity (10 ^ 18)) (\<lambda>x.
     bindE (mul256 n (10 ^ 18)) (\<lambda>y.
     bindE (div256 x y) (\<lambda>b.
       let b1 = (if b < MIN_LMSR_B then MIN_LMSR_B else b);
           b2 = (if b1 > MAX_LMSR_B then MAX_LMSR_B else b1)
       in Inr b2)))"

subsection \<open>Modifiers\<close>

definition whenNotPaused :: "state \<Rightarrow> unit result" where
  "whenNotPaused s = require (\<not> paused s) ''EnforcedPause''"

definition whenPaused :: "state \<Rightarrow> unit result" where
  "whenPaused s = require (paused s) ''ExpectedPause''"

definition onlyOwner :: "env \<Rightarrow> state \<Rightarrow> unit result" where
  "onlyOwner e s = require (msg_sender e = owner s) ''OwnableUnauthorizedAccount''"

definition onlyRole :: "Role \<Rightarrow> env \<Rightarrow> state \<Rightarrow> unit result" where
  "onlyRole r e s = require (roles s r (msg_sender e)) ''AccessControlUnauthorizedAccount''"

definition marketExists :: "state \<Rightarrow> nat \<Rightarrow> unit result" where
  "marketExists s mid = require (mid < marketCount s) ''Market does not exist''"

definition marketNotResolved :: "state \<Rightarrow> nat \<Rightarrow> unit result" where
  "marketNotResolved s mid = require (\<not> resolved (markets s mid)) ''Market already resolved''"

definition marketNotInvalidated :: "state \<Rightarrow> nat \<Rightarrow> unit result" where
  "marketNotInvalidated s mid = require (\<not> invalidated (markets s mid)) ''Market invalidated''"

definition marketActive :: "env \<Rightarrow> state \<Rightarrow> nat \<Rightarrow> unit result" where
  "marketActive e s mid =
     require (block_timestamp e < endTime (markets s mid)) ''Market ended''"

definition marketEnded :: "env \<Rightarrow> state \<Rightarrow> nat \<Rightarrow> unit result" where
  "marketEnded e s mid =
     require (block_timestamp e \<ge> endTime (markets s mid)) ''Market not ended''"

subsection \<open>Market Registry\<close>

text \<open>
  The loop of \<^verbatim>\<open>_createMarket\<close> that writes one \<open>Option\<close> per name, from index
  \<open>i\<close> upwards. The two arrays have the same length when the loop runs.
\<close>

fun initOptions ::
  "(nat \<Rightarrow> Option) \<Rightarrow> string list \<Rightarrow> string list \<Rightarrow> nat \<Rightarrow> nat \<Rightarrow> nat \<Rightarrow> (nat \<Rightarrow> Option)" where
  "initOptions os (n # ns) (d # ds) i sharesPerOption p =
     initOptions
       (os(i := \<lparr>name = n, description_o = d, totalShares = sharesPerOption,
                 totalVolume_o = 0, currentPrice = p, isActive = True\<rparr>))
       ns ds (Suc i) sharesPerOption p"
| "initOptions os _ _ i sharesPerOption p = os"

text \<open>The block under \<^verbatim>\<open>// Setup free market if applicable\<close>.\<close>

definition setupFreeMarket :: "state \<Rightarrow> nat \<Rightarrow> MarketType \<Rightarrow> FreeMarketParams \<Rightarrow> state result" where
  "setupFreeMarket s mid mtype freeParams =
     (if mtype = FREE \<and> maxFreeParticipants_p freeParams > 0
      then bindE (mul256 (maxFreeParticipants_p freeParams)
                    (tokensPerParticipant_p freeParams)) (\<lambda>pool.
             Inr (s\<lparr>freeMarketConfigs := (freeMarketConfigs s)(mid :=
                    \<lparr>maxFreeParticipants = maxFreeParticipants_p freeParams,
                      tokensPerParticipant = tokensPerParticipant_p freeParams,
                      currentFreeParticipants = 0, totalPrizePool = pool,
                      remainingPrizePool = pool, isActive_c = True\<rparr>)\<rparr>))
      else Inr s)"

definition createMarket_internal ::
  "env \<Rightarrow> state \<Rightarrow> string \<Rightarrow> string \<Rightarrow> string list \<Rightarrow> string list \<Rightarrow> nat \<Rightarrow> MarketCategory
     \<Rightarrow> MarketType \<Rightarrow> nat \<Rightarrow> bool \<Rightarrow> FreeMarketParams \<Rightarrow> address \<Rightarrow> (nat \<times> state) result" where
  "createMarket_internal e s q_text d_text optionNames optionDescriptions duration cat mtype
       initialLiquidity early freeParams token =
     bindE (require (length q_text > 0) ''Question required'') (\<lambda>_.
     bindE (require (length optionNames \<ge> 2) ''At least 2 options required'') (\<lambda>_.
     bindE (require (length optionNames = length optionDescriptions) ''Options mismatch'') (\<lambda>_.
     bindE (require (duration \<ge> MIN_MARKET_DURATION \<and> duration \<le> MAX_MARKET_DURATION)
              ''Invalid duration'') (\<lambda>_.
     bindE (require (initialLiquidity > 0) ''Initial liquidity required'') (\<lambda>_.
     bindE (require (whitelistedTokens s token) ''Token not whitelisted'') (\<lambda>_.
     let mid = marketCount s in
     bindE (add256 (marketCount s) 1) (\<lambda>mc.
     bindE (add256 (block_timestamp e) duration) (\<lambda>endT.
     bindE (erc20_transferFrom (s\<lparr>marketCount := mc\<rparr>) token (this s) (msg_sender e) (this s)
              initialLiquidity) (\<lambda>s1.
     bindE (calculateLMSRB initialLiquidity (length optionNames)) (\<lambda>b.
     let s2 = s1\<lparr>markets := (markets s1)(mid :=
                \<lparr>question = q_text, description = d_text, endTime = endT,
                  createdAt = block_timestamp e, category = cat, marketType = mtype,
                  creator = msg_sender e, resolved = False, invalidated = False,
                  disputed = False, validated = False, winningOptionId = 0,
                  optionCount = length optionNames, totalVolume = 0, lmsrB = b,
                  adminInitialLiquidity = initialLiquidity, userLiquidity = 0,
                  platformFeesCollected = 0, adminLiquidityClaimed = False,
                  earlyResolutionAllowed = early, bettingToken = token\<rparr>)\<rparr> in
     bindE (div256 initialLiquidity (length optionNames)) (\<lambda>sharesPerOption.
     bindE (div256 (10 ^ 18) (length optionNames)) (\<lambda>p0.
     let s3 = s2\<lparr>options := (options s2)(mid :=
                initOptions (options s2 mid) optionNames optionDescriptions 0
                  sharesPerOption p0)\<rparr> in
     bindE (setupFreeMarket s3 mid mtype freeParams) (\<lambda>s4.
     Inr (mid, s4\<lparr>categoryMarkets := (categoryMarkets s4)(cat := categoryMarkets s4 cat @ [mid]),
                    marketsByType := (marketsByType s4)(mtype := marketsByType s4 mtype @ [mid])\<rparr>
         ))))))))))))))"

definition createMarketWithToken ::
  "env \<Rightarrow> state \<Rightarrow> string \<Rightarrow> string \<Rightarrow> string list \<Rightarrow> string list \<Rightarrow> nat \<Rightarrow> MarketCategory
     \<Rightarrow> MarketType \<Rightarrow> nat \<Rightarrow> bool \<Rightarrow> FreeMarketParams \<Rightarrow> address \<Rightarrow> (nat \<times> state) result" where
  "createMarketWithToken e s q_text d_text optionNames optionDescriptions duration cat mtype
       initialLiquidity early freeParams token =
     bindE (whenNotPaused s) (\<lambda>_.
     bindE (require (whitelistedTokens s token) ''Token not whitelisted'') (\<lambda>_.
     createMarket_internal e s q_text d_text optionNames optionDescriptions duration cat mtype
       initialLiquidity early freeParams token))"

subsection \<open>Trade Executor\<close>

text \<open>
  \<^verbatim>\<open>buyShares\<close> and \<^verbatim>\<open>sellShares\<close> are split at the comments of the source:
  the block under \<^verbatim>\<open>// Update state\<close> and \<^verbatim>\<open>// Update portfolio\<close>, the block under
  \<^verbatim>\<open>// Record trade\<close>, the one under \<^verbatim>\<open>// Record price history\<close> and the one under
  \<^verbatim>\<open>// Track fees\<close>. Every \<^verbatim>\<open>+=\<close>, \<^verbatim>\<open>-=\<close> and \<^verbatim>\<open>++\<close> is checked, in the order
  of the source.
\<close>

definition buy_updateState ::
  "state \<Rightarrow> address \<Rightarrow> nat \<Rightarrow> nat \<Rightarrow> nat \<Rightarrow> nat \<Rightarrow> nat \<Rightarrow> state result" where
  "buy_updateState s u mid oid q totalCost fee =
     (let opt = options s mid oid; m = markets s mid; pf = userPortfolios s u in
      bindE (add256 (totalShares opt) q) (\<lambda>optShares.
      bindE (add256 (totalVolume_o opt) totalCost) (\<lambda>optVol.
      bindE (add256 (totalVolume m) totalCost) (\<lambda>mVol.
      bindE (add256 (platformFeesCollected m) fee) (\<lambda>mFees.
      bindE (add256 (userLiquidity m) totalCost) (\<lambda>mLiq.
      bindE (add256 (userShares s u mid oid) q) (\<lambda>uShares.
      bindE (add256 (userCostBasis s u mid oid) totalCost) (\<lambda>uCost.
      bindE (add256 (totalInvested pf) totalCost) (\<lambda>inv.
      bindE (add256 (tradeCount pf) 1) (\<lambda>tc.
      Inr (s\<lparr>options := (options s)(mid := (options s mid)
                 (oid := opt\<lparr>totalShares := optShares, totalVolume_o := optVol\<rparr>)),
               markets := (markets s)(mid := m\<lparr>totalVolume := mVol,
                 platformFeesCollected := mFees, userLiquidity := mLiq\<rparr>),
               userShares := (userShares s)(u := (userShares s u)
                 (mid := (userShares s u mid)(oid := uShares))),
               userCostBasis := (userCostBasis s)(u := (userCostBasis s u)
                 (mid := (userCostBasis s u mid)(oid := uCost))),
               userPortfolios := (userPortfolios s)
                 (u := pf\<lparr>totalInvested := inv, tradeCount := tc\<rparr>)\<rparr>)))))))))))"

definition recordTrade :: "state \<Rightarrow> address \<Rightarrow> Trade \<Rightarrow> state result" where
  "recordTrade s u trade =
     (let s1 = s\<lparr>userTradeHistory := (userTradeHistory s)(u := userTradeHistory s u @ [trade])\<rparr>
      in bindE (add256 (globalTradeCount s1) 1) (\<lambda>gtc. Inr (s1\<lparr>globalTradeCount := gtc\<rparr>)))"

definition recordPricePoint :: "env \<Rightarrow> state \<Rightarrow> nat \<Rightarrow> nat \<Rightarrow> nat \<Rightarrow> state" where
  "recordPricePoint e s mid oid vol =
     s\<lparr>priceHistory := (priceHistory s)(mid := (priceHistory s mid)
          (oid := priceHistory s mid oid @
             [\<lparr>price_pp = currentPrice (options s mid oid),
               timestamp_pp = block_timestamp e, volume = vol\<rparr>]))\<rparr>"

definition trackFees :: "state \<Rightarrow> nat \<Rightarrow> state result" where
  "trackFees s fee =
     bindE (add256 (totalPlatformFeesCollected s) fee) (\<lambda>col.
     bindE (add256 (totalLockedPlatformFees s) fee) (\<lambda>locked.
     Inr (s\<lparr>totalPlatformFeesCollected := col, totalLockedPlatformFees := locked\<rparr>)))"

definition buyShares :: "env \<Rightarrow> state \<Rightarrow> nat \<Rightarrow> nat \<Rightarrow> nat \<Rightarrow> nat \<Rightarrow> nat \<Rightarrow> state result" where
  "buyShares e s mid oid q maxPricePerShare maxTotalCost =
     bindE (whenNotPaused s) (\<lambda>_.
     bindE (marketExists s mid) (\<lambda>_.
     bindE (marketActive e s mid) (\<lambda>_.
     bindE (marketNotResolved s mid) (\<lambda>_.
     bindE (marketNotInvalidated s mid) (\<lambda>_.
     bindE (require (oid < optionCount (markets s mid)) ''Invalid option'') (\<lambda>_.
     bindE (require (q > 0) ''Quantity must be > 0'') (\<lambda>_.
     bindE (require (isActive (options s mid oid)) ''Option not active'') (\<lambda>_.
     bindE (calculateBuyCost s mid oid q) (\<lambda>totalCost.
     bindE (mul256 totalCost (10 ^ 18)) (\<lambda>x.
     bindE (div256 x q) (\<lambda>pricePerShare.
     bindE (require (pricePerShare \<le> maxPricePerShare) ''Price per share too high'') (\<lambda>_.
     bindE (require (totalCost \<le> maxTotalCost) ''Total cost too high'') (\<lambda>_.
     bindE (mul256 totalCost (platformFeeRate s)) (\<lambda>y.
     bindE (div256 y 1000) (\<lambda>fee.
     bindE (add256 totalCost fee) (\<lambda>totalPayment.
     bindE (erc20_transferFrom s (bettingToken (markets s mid)) (this s) (msg_sender e) (this s)
              totalPayment) (\<lambda>s1.
     bindE (buy_updateState s1 (msg_sender e) mid oid q totalCost fee) (\<lambda>s2.
     bindE (recordTrade s2 (msg_sender e)
              \<lparr>marketId = mid, optionId = oid, buyer = msg_sender e, seller = 0,
                price = pricePerShare, quantity = q, timestamp = block_timestamp e\<rparr>) (\<lambda>s3.
     bindE (updatePrice s3 mid oid) (\<lambda>s4.
     trackFees (recordPricePoint e s4 mid oid totalCost) fee))))))))))))))))))))"

definition sell_updateState ::
  "state \<Rightarrow> address \<Rightarrow> nat \<Rightarrow> nat \<Rightarrow> nat \<Rightarrow> nat \<Rightarrow> nat \<Rightarrow> nat \<Rightarrow> state result" where
  "sell_updateState s u mid oid q totalProceeds fee netProceeds =
     (let opt = options s mid oid; m = markets s mid; pf = userPortfolios s u in
      bindE (sub256 (totalShares opt) q) (\<lambda>optShares.
      bindE (add256 (totalVolume_o opt) totalProceeds) (\<lambda>optVol.
      bindE (add256 (totalVolume m) totalProceeds) (\<lambda>mVol.
      bindE (add256 (platformFeesCollected m) fee) (\<lambda>mFees.
      bindE (sub256 (userShares s u mid oid) q) (\<lambda>uShares.
      bindE (mul256 (userCostBasis s u mid oid) q) (\<lambda>cq.
      bindE (add256 uShares q) (\<lambda>den.
      bindE (div256 cq den) (\<lambda>costReduction.
      bindE (sub256 (userCostBasis s u mid oid) costReduction) (\<lambda>uCost.
      bindE (subI256 (int256_of netProceeds) (int256_of costReduction)) (\<lambda>pnl.
      bindE (addI256 (realizedPnL pf) pnl) (\<lambda>rpnl.
      bindE (add256 (tradeCount pf) 1) (\<lambda>tc.
      Inr (s\<lparr>options := (options s)(mid := (options s mid)
                 (oid := opt\<lparr>totalShares := optShares, totalVolume_o := optVol\<rparr>)),
               markets := (markets s)(mid := m\<lparr>totalVolume := mVol,
                 platformFeesCollected := mFees\<rparr>),
               userShares := (userShares s)(u := (userShares s u)
                 (mid := (userShares s u mid)(oid := uShares))),
               userCostBasis := (userCostBasis s)(u := (userCostBasis s u)
                 (mid := (userCostBasis s u mid)(oid := uCost))),
               userPortfolios := (userPortfolios s)
                 (u := pf\<lparr>realizedPnL := rpnl, tradeCount := tc\<rparr>)\<rparr>))))))))))))))"

definition sellShares :: "env \<Rightarrow> state \<Rightarrow> nat \<Rightarrow> nat \<Rightarrow> nat \<Rightarrow> nat \<Rightarrow> nat \<Rightarrow> state result" where
  "sellShares e s mid oid q minPricePerShare minTotalProceeds =
     bindE (whenNotPaused s) (\<lambda>_.
     bindE (marketExists s mid) (\<lambda>_.
     bindE (marketActive e s mid) (\<lambda>_.
     bindE (marketNotResolved s mid) (\<lambda>_.
     bindE (marketNotInvalidated s mid) (\<lambda>_.
     bindE (require (oid < optionCount (markets s mid)) ''Invalid option'') (\<lambda>_.
     bindE (require (q > 0) ''Quantity must be > 0'') (\<lambda>_.
     bindE (require (userShares s (msg_sender e) mid oid \<ge> q) ''Insufficient shares'') (\<lambda>_.
     bindE (calculateSellProceeds s mid oid q) (\<lambda>totalProceeds.
     bindE (mul256 totalProceeds (10 ^ 18)) (\<lambda>x.
     bindE (div256 x q) (\<lambda>pricePerShare.
     bindE (require (pricePerShare \<ge> minPricePerShare) ''Price per share too low'') (\<lambda>_.
     bindE (require (totalProceeds \<ge> minTotalProceeds) ''Total proceeds too low'') (\<lambda>_.
     bindE (mul256 totalProceeds (platformFeeRate s)) (\<lambda>y.
     bindE (div256 y 1000) (\<lambda>fee.
     bindE (sub256 totalProceeds fee) (\<lambda>netProceeds.
     bindE (sell_updateState s (msg_sender e) mid oid q totalProceeds fee netProceeds) (\<lambda>s1.
     bindE (erc20_transfer s1 (bettingToken (markets s1 mid)) (this s1) (msg_sender e)
              netProceeds) (\<lambda>s2.
     bindE (recordTrade s2 (msg_sender e)
              \<lparr>marketId = mid, optionId = oid, buyer = 0, seller = msg_sender e,
                price = pricePerShare, quantity = q, timestamp = block_timestamp e\<rparr>) (\<lambda>s3.
     bindE (updatePrice s3 mid oid) (\<lambda>s4.
     trackFees (recordPricePoint e s4 mid oid totalProceeds) fee))))))))))))))))))))"

subsection \<open>Lifecycle Controller\<close>

definition resolveMarket :: "env \<Rightarrow> state \<Rightarrow> nat \<Rightarrow> nat \<Rightarrow> state result" where
  "resolveMarket e s mid winning =
     bindE (onlyRole QUESTION_RESOLVE_ROLE e s) (\<lambda>_.
     bindE (marketExists s mid) (\<lambda>_.
     bindE (marketEnded e s mid) (\<lambda>_.
     bindE (marketNotResolved s mid) (\<lambda>_.
     bindE (marketNotInvalidated s mid) (\<lambda>_.
     bindE (require (winning < optionCount (markets s mid)) ''Invalid option'') (\<lambda>_.
     bindE (require (\<not> disputed (markets s mid)) ''Market disputed'') (\<lambda>_.
     let s1 = s\<lparr>markets := (markets s)(mid := (markets s mid)
                    \<lparr>resolved := True, winningOptionId := winning\<rparr>)\<rparr>;
         feesToUnlock = platformFeesCollected (markets s1 mid) in
     bindE (sub256 (totalLockedPlatformFees s1) feesToUnlock) (\<lambda>locked.
     bindE (add256 (totalUnlockedPlatformFees s1) feesToUnlock) (\<lambda>unlocked.
     Inr (s1\<lparr>totalLockedPlatformFees := locked, totalUnlockedPlatformFees := unlocked\<rparr>
         ))))))))))"

definition invalidateMarket :: "env \<Rightarrow> state \<Rightarrow> nat \<Rightarrow> state result" where
  "invalidateMarket e s mid =
     bindE (onlyRole MARKET_VALIDATOR_ROLE e s) (\<lambda>_.
     bindE (marketExists s mid) (\<lambda>_.
     bindE (marketNotResolved s mid) (\<lambda>_.
     let s1 = s\<lparr>markets := (markets s)(mid := (markets s mid)\<lparr>invalidated := True\<rparr>)\<rparr>;
         feesToRefund = platformFeesCollected (markets s1 mid) in
     bindE (sub256 (totalLockedPlatformFees s1) feesToRefund) (\<lambda>locked.
     bindE (sub256 (totalPlatformFeesCollected s1) feesToRefund) (\<lambda>col.
     Inr (s1\<lparr>totalLockedPlatformFees := locked, totalPlatformFeesCollected := col\<rparr>
         ))))))"

definition validateMarket :: "env \<Rightarrow> state \<Rightarrow> nat \<Rightarrow> state result" where
  "validateMarket e s mid =
     bindE (onlyRole MARKET_VALIDATOR_ROLE e s) (\<lambda>_.
     bindE (marketExists s mid) (\<lambda>_.
     bindE (require (\<not> validated (markets s mid)) ''Already validated'') (\<lambda>_.
     Inr (s\<lparr>markets := (markets s)(mid := (markets s mid)\<lparr>validated := True\<rparr>)\<rparr>))))"

definition disputeMarket :: "env \<Rightarrow> state \<Rightarrow> nat \<Rightarrow> string \<Rightarrow> state result" where
  "disputeMarket e s mid reason =
     bindE (marketExists s mid) (\<lambda>_.
     bindE (marketNotResolved s mid) (\<lambda>_.
     bindE (require (userShares s (msg_sender e) mid 0 > 0
                     \<or> userShares s (msg_sender e) mid 1 > 0) ''Must be participant'') (\<lambda>_.
     Inr (s\<lparr>markets := (markets s)(mid := (markets s mid)\<lparr>disputed := True\<rparr>)\<rparr>))))"

subsection \<open>Claim Processor and Free-Market Allocator\<close>

text \<open>
  \<open>claimWinnings_latched\<close> is the storage of \<^verbatim>\<open>claimWinnings\<close> at the point where
  the token transfer is issued: the latch and the portfolio are already written.
\<close>

definition claimWinnings_payout :: "state \<Rightarrow> address \<Rightarrow> nat \<Rightarrow> nat result" where
  "claimWinnings_payout s u mid =
     bindE (mul256 (userShares s u mid (winningOptionId (markets s mid))) PAYOUT_PER_SHARE)
       (\<lambda>x. div256 x (10 ^ 18))"

definition claimWinnings_latched :: "state \<Rightarrow> address \<Rightarrow> nat \<Rightarrow> nat \<Rightarrow> state result" where
  "claimWinnings_latched s u mid payout =
     (let s1 = s\<lparr>hasClaimedWinnings := (hasClaimedWinnings s)
                    (mid := (hasClaimedWinnings s mid)(u := True))\<rparr> in
      bindE (add256 (totalWinnings (userPortfolios s1 u)) payout) (\<lambda>w.
      Inr (s1\<lparr>userPortfolios := (userPortfolios s1)
                 (u := (userPortfolios s1 u)\<lparr>totalWinnings := w\<rparr>)\<rparr>)))"

definition claimWinnings :: "env \<Rightarrow> state \<Rightarrow> nat \<Rightarrow> state result" where
  "claimWinnings e s mid =
     bindE (marketExists s mid) (\<lambda>_.
     bindE (require (resolved (markets s mid)) ''Market not resolved'') (\<lambda>_.
     bindE (require (\<not> invalidated (markets s mid)) ''Market invalidated'') (\<lambda>_.
     bindE (require (\<not> hasClaimedWinnings s mid (msg_sender e)) ''Already claimed'') (\<lambda>_.
     bindE (require (userShares s (msg_sender e) mid (winningOptionId (markets s mid)) > 0)
              ''No winning shares'') (\<lambda>_.
     bindE (claimWinnings_payout s (msg_sender e) mid) (\<lambda>payout.
     bindE (claimWinnings_latched s (msg_sender e) mid payout) (\<lambda>s2.
     erc20_transfer s2 (bettingToken (markets s2 mid)) (this s2) (msg_sender e) payout)))))))"

definition claimFreeTokens :: "env \<Rightarrow> state \<Rightarrow> nat \<Rightarrow> nat \<Rightarrow> state result" where
  "claimFreeTokens e s mid oid =
     bindE (marketExists s mid) (\<lambda>_.
     bindE (marketActive e s mid) (\<lambda>_.
     bindE (marketNotResolved s mid) (\<lambda>_.
     bindE (marketNotInvalidated s mid) (\<lambda>_.
     bindE (require (marketType (markets s mid) = FREE) ''Not a free market'') (\<lambda>_.
     bindE (require (\<not> hasClaimedFreeTokens s mid (msg_sender e)) ''Already claimed'') (\<lambda>_.
     bindE (require (oid < optionCount (markets s mid)) ''Invalid option'') (\<lambda>_.
     let config = freeMarketConfigs s mid; u = msg_sender e in
     bindE (require (isActive_c config) ''Free market not active'') (\<lambda>_.
     bindE (require (currentFreeParticipants config < maxFreeParticipants config)
              ''Max participants reached'') (\<lambda>_.
     bindE (require (remainingPrizePool config \<ge> tokensPerParticipant config)
              ''Insufficient prize pool'') (\<lambda>_.
     bindE (add256 (currentFreeParticipants config) 1) (\<lambda>cnt.
     bindE (sub256 (remainingPrizePool config) (tokensPerParticipant config)) (\<lambda>pool.
     bindE (add256 (userShares s u mid oid) (tokensPerParticipant config)) (\<lambda>uShares.
     bindE (add256 (totalShares (options s mid oid)) (tokensPerParticipant config)) (\<lambda>optShares.
     Inr (s\<lparr>hasClaimedFreeTokens := (hasClaimedFreeTokens s)
                 (mid := (hasClaimedFreeTokens s mid)(u := True)),
              freeMarketConfigs := (freeMarketConfigs s)(mid := config
                 \<lparr>currentFreeParticipants := cnt, remainingPrizePool := pool\<rparr>),
              userShares := (userShares s)(u := (userShares s u)
                 (mid := (userShares s u mid)(oid := uShares))),
              options := (options s)(mid := (options s mid)
                 (oid := (options s mid oid)\<lparr>totalShares := optShares\<rparr>))\<rparr>
         )))))))))))))))"

subsection \<open>Admin and configuration functions\<close>

definition withdrawAdminLiquidity :: "env \<Rightarrow> state \<Rightarrow> nat \<Rightarrow> state result" where
  "withdrawAdminLiquidity e s mid =
     bindE (marketExists s mid) (\<lambda>_.
     bindE (require (msg_sender e = creator (markets s mid)) ''Not creator'') (\<lambda>_.
     bindE (require (resolved (markets s mid) \<or> invalidated (markets s mid))
              ''Market not finalized'') (\<lambda>_.
     bindE (require (\<not> adminLiquidityClaimed (markets s mid)) ''Already claimed'') (\<lambda>_.
     let s1 = s\<lparr>markets := (markets s)(mid := (markets s mid)
                    \<lparr>adminLiquidityClaimed := True\<rparr>)\<rparr> in
     erc20_transfer s1 (bettingToken (markets s1 mid)) (this s1) (msg_sender e)
       (adminInitialLiquidity (markets s1 mid))))))"

definition feeReceiver :: "state \<Rightarrow> address" where
  "feeReceiver s = (if feeCollector s \<noteq> 0 then feeCollector s else owner s)"

definition withdrawPlatformFees :: "env \<Rightarrow> state \<Rightarrow> state result" where
  "withdrawPlatformFees e s =
     bindE (onlyOwner e s) (\<lambda>_.
     bindE (sub256 (totalUnlockedPlatformFees s) (totalWithdrawnPlatformFees s)) (\<lambda>amount.
     bindE (require (amount > 0) ''No fees to withdraw'') (\<lambda>_.
     bindE (add256 (totalWithdrawnPlatformFees s) amount) (\<lambda>w.
     erc20_transfer (s\<lparr>totalWithdrawnPlatformFees := w\<rparr>) (bettingToken_g s) (this s)
       (feeReceiver s) amount))))"

definition withdrawPlatformFeesForToken :: "env \<Rightarrow> state \<Rightarrow> address \<Rightarrow> nat \<Rightarrow> state result" where
  "withdrawPlatformFeesForToken e s token amount =
     bindE (onlyOwner e s) (\<lambda>_.
     bindE (require (whitelistedTokens s token) ''Token not whitelisted'') (\<lambda>_.
     bindE (require (amount > 0) ''Amount must be > 0'') (\<lambda>_.
     erc20_transfer s token (this s) (feeReceiver s) amount)))"

definition emergencyWithdraw :: "env \<Rightarrow> state \<Rightarrow> nat \<Rightarrow> state result" where
  "emergencyWithdraw e s amount =
     bindE (onlyOwner e s) (\<lambda>_. erc20_transfer s (bettingToken_g s) (this s) (owner s) amount)"

definition emergencyWithdrawToken :: "env \<Rightarrow> state \<Rightarrow> address \<Rightarrow> nat \<Rightarrow> state result" where
  "emergencyWithdrawToken e s token amount =
     bindE (onlyOwner e s) (\<lambda>_. erc20_transfer s token (this s) (owner s) amount)"

definition setPlatformFeeRate :: "env \<Rightarrow> state \<Rightarrow> nat \<Rightarrow> state result" where
  "setPlatformFeeRate e s feeRate =
     bindE (onlyOwner e s) (\<lambda>_.
     bindE (require (feeRate \<le> 100) ''Fee rate too high'') (\<lambda>_.
     Inr (s\<lparr>platformFeeRate := feeRate\<rparr>)))"

definition setFeeCollector :: "env \<Rightarrow> state \<Rightarrow> address \<Rightarrow> state result" where
  "setFeeCollector e s c =
     bindE (onlyOwner e s) (\<lambda>_.
     bindE (require (c \<noteq> 0) ''Invalid address'') (\<lambda>_.
     Inr (s\<lparr>feeCollector := c\<rparr>)))"

definition setFreeClaimHandler :: "env \<Rightarrow> state \<Rightarrow> address \<Rightarrow> state result" where
  "setFreeClaimHandler e s h = bindE (onlyOwner e s) (\<lambda>_. Inr (s\<lparr>freeClaimHandler := h\<rparr>))"

definition addWhitelistedToken :: "env \<Rightarrow> state \<Rightarrow> address \<Rightarrow> state result" where
  "addWhitelistedToken e s token =
     bindE (onlyOwner e s) (\<lambda>_.
     bindE (require (token \<noteq> 0) ''Invalid token address'') (\<lambda>_.
     bindE (require (\<not> whitelistedTokens s token) ''Token already whitelisted'') (\<lambda>_.
     Inr (s\<lparr>whitelistedTokens := (whitelistedTokens s)(token := True),
              whitelistedTokenList := whitelistedTokenList s @ [token]\<rparr>))))"

text \<open>
  The removal loop of \<^verbatim>\<open>removeWhitelistedToken\<close>: the first entry equal to the token
  is overwritten by the last entry, and the last entry is popped.
\<close>

function swapPop :: "address list \<Rightarrow> nat \<Rightarrow> address \<Rightarrow> address list" where
  "swapPop xs i token =
     (if i < length xs
      then (if xs ! i = token then butlast (xs[i := last xs])
            else swapPop xs (Suc i) token)
      else xs)"
  by pat_completeness auto
termination
  by (relation "measure (\<lambda>(xs, i, token). length xs - i)") auto

declare swapPop.simps [simp del]

definition removeWhitelistedToken :: "env \<Rightarrow> state \<Rightarrow> address \<Rightarrow> state result" where
  "removeWhitelistedToken e s token =
     bindE (onlyOwner e s) (\<lambda>_.
     bindE (require (whitelistedTokens s token) ''Token not whitelisted'') (\<lambda>_.
     Inr (s\<lparr>whitelistedTokens := (whitelistedTokens s)(token := False),
              whitelistedTokenList := swapPop (whitelistedTokenList s) 0 token\<rparr>)))"

definition pause :: "env \<Rightarrow> state \<Rightarrow> state result" where
  "pause e s = bindE (onlyOwner e s) (\<lambda>_. bindE (whenNotPaused s) (\<lambda>_. Inr (s\<lparr>paused := True\<rparr>)))"

definition unpause :: "env \<Rightarrow> state \<Rightarrow> state result" where
  "unpause e s = bindE (onlyOwner e s) (\<lambda>_. bindE (whenPaused s) (\<lambda>_. Inr (s\<lparr>paused := False\<rparr>)))"

text \<open>
  Modelled from the spec: \<^verbatim>\<open>grantRole\<close> is inherited from OpenZeppelin's AccessControl,
  whose code is not part of the repository. Following the role/capability collaborator
  of the specification it records that the account holds the role; every role is
  administered by \<open>DEFAULT_ADMIN_ROLE\<close>.
\<close>

definition grantRole :: "env \<Rightarrow> state \<Rightarrow> Role \<Rightarrow> address \<Rightarrow> state result" where
  "grantRole e s r account =
     bindE (onlyRole DEFAULT_ADMIN_ROLE e s) (\<lambda>_.
     Inr (s\<lparr>roles := (roles s)(r := (roles s r)(account := True))\<rparr>))"

definition grantQuestionCreatorRole :: "env \<Rightarrow> state \<Rightarrow> address \<Rightarrow> state result" where
  "grantQuestionCreatorRole e s account =
     bindE (onlyRole DEFAULT_ADMIN_ROLE e s) (\<lambda>_. grantRole e s QUESTION_CREATOR_ROLE account)"

definition grantQuestionResolveRole :: "env \<Rightarrow> state \<Rightarrow> address \<Rightarrow> state result" where
  "grantQuestionResolveRole e s account =
     bindE (onlyRole DEFAULT_ADMIN_ROLE e s) (\<lambda>_. grantRole e s QUESTION_RESOLVE_ROLE account)"

definition grantMarketValidatorRole :: "env \<Rightarrow> state \<Rightarrow> address \<Rightarrow> state result" where
  "grantMarketValidatorRole e s account =
     bindE (onlyRole DEFAULT_ADMIN_ROLE e s) (\<lambda>_. grantRole e s MARKET_VALIDATOR_ROLE account)"

subsection \<open>The contract as a transition system\<close>

text \<open>
  One constructor per external state-changing function. The four placeholder functions kept
  for ABI compatibility have empty bodies and share the constructor \<open>Placeholder\<close>.
\<close>

datatype call =
  CreateMarketWithToken string string "string list" "string list" nat MarketCategory
    MarketType nat bool FreeMarketParams address
  | BuyShares nat nat nat nat nat
  | SellShares nat nat nat nat nat
  | ResolveMarket nat nat
  | InvalidateMarket nat
  | ValidateMarket nat
  | DisputeMarket nat string
  | ClaimWinnings nat
  | ClaimFreeTokens nat nat
  | WithdrawAdminLiquidity nat
  | WithdrawPlatformFees
  | WithdrawPlatformFeesForToken address nat
  | EmergencyWithdraw nat
  | EmergencyWithdrawToken address nat
  | SetPlatformFeeRate nat
  | SetFeeCollector address
  | SetFreeClaimHandler address
  | AddWhitelistedToken address
  | RemoveWhitelistedToken address
  | Pause
  | Unpause
  | GrantQuestionCreatorRole address
  | GrantQuestionResolveRole address
  | GrantMarketValidatorRole address
  | Placeholder

fun exec :: "env \<Rightarrow> state \<Rightarrow> call \<Rightarrow> state result" where
  "exec e s (CreateMarketWithToken qt dt ns ds dur cat mt liq early fp token) =
     bindE (createMarketWithToken e s qt dt ns ds dur cat mt liq early fp token)
       (\<lambda>r. Inr (snd r))"
| "exec e s (BuyShares mid oid q maxP maxC) = buyShares e s mid oid q maxP maxC"
| "exec e s (SellShares mid oid q minP minT) = sellShares e s mid oid q minP minT"
| "exec e s (ResolveMarket mid w) = resolveMarket e s mid w"
| "exec e s (InvalidateMarket mid) = invalidateMarket e s mid"
| "exec e s (ValidateMarket mid) = validateMarket e s mid"
| "exec e s (DisputeMarket mid reason) = disputeMarket e s mid reason"
| "exec e s (ClaimWinnings mid) = claimWinnings e s mid"
| "exec e s (ClaimFreeTokens mid oid) = claimFreeTokens e s mid oid"
| "exec e s (WithdrawAdminLiquidity mid) = withdrawAdminLiquidity e s mid"
| "exec e s WithdrawPlatformFees = withdrawPlatformFees e s"
| "exec e s (WithdrawPlatformFeesForToken token amount) =
     withdrawPlatformFeesForToken e s token amount"
| "exec e s (EmergencyWithdraw amount) = emergencyWithdraw e s amount"
| "exec e s (EmergencyWithdrawToken token amount) = emergencyWithdrawToken e s token amount"
| "exec e s (SetPlatformFeeRate r) = setPlatformFeeRate e s r"
| "exec e s (SetFeeCollector c) = setFeeCollector e s c"
| "exec e s (SetFreeClaimHandler h) = setFreeClaimHandler e s h"
| "exec e s (AddWhitelistedToken token) = addWhitelistedToken e s token"
| "exec e s (RemoveWhitelistedToken token) = removeWhitelistedToken e s token"
| "exec e s Pause = pause e s"
| "exec e s Unpause = unpause e s"
| "exec e s (GrantQuestionCreatorRole a) = grantQuestionCreatorRole e s a"
| "exec e s (GrantQuestionResolveRole a) = grantQuestionResolveRole e s a"
| "exec e s (GrantMarketValidatorRole a) = grantMarketValidatorRole e s a"
| "exec e s Placeholder = Inr s"

text \<open>
  A transaction: the new storage on success, the old storage and the error on a revert.
\<close>

definition transact :: "env \<Rightarrow> state \<Rightarrow> call \<Rightarrow> state \<times> error option" where
  "transact e s c = (case exec e s c of Inl err \<Rightarrow> (s, Some err) | Inr s' \<Rightarrow> (s', None))"

text \<open>
  The storage after the constructor, deployed at address \<open>self\<close> by \<open>deployer\<close> for the
  token \<open>token\<close>; the token ledger \<open>bal\<close>, \<open>alw\<close> is whatever it is at deployment.
  The state variable \<^verbatim>\<open>bettingToken\<close> is never assigned and stays the zero address.
\<close>

definition zeroMarket :: Market where
  "zeroMarket = \<lparr>question = [], description = [], endTime = 0, createdAt = 0,
     category = POLITICS, marketType = STANDARD, creator = 0, resolved = False,
     invalidated = False, disputed = False, validated = False, winningOptionId = 0,
     optionCount = 0, totalVolume = 0, lmsrB = 0, adminInitialLiquidity = 0,
     userLiquidity = 0, platformFeesCollected = 0, adminLiquidityClaimed = False,
     earlyResolutionAllowed = False, bettingToken = 0\<rparr>"

definition zeroOption :: Option where
  "zeroOption = \<lparr>name = [], description_o = [], totalShares = 0, totalVolume_o = 0,
     currentPrice = 0, isActive = False\<rparr>"

definition zeroConfig :: FreeMarketConfig where
  "zeroConfig = \<lparr>maxFreeParticipants = 0, tokensPerParticipant = 0,
     currentFreeParticipants = 0, totalPrizePool = 0, remainingPrizePool = 0,
     isActive_c = False\<rparr>"

definition zeroPortfolio :: UserPortfolio where
  "zeroPortfolio = \<lparr>totalInvested = 0, totalWinnings = 0, unrealizedPnL = 0,
     realizedPnL = 0, tradeCount = 0\<rparr>"

definition constructor_state ::
  "address \<Rightarrow> address \<Rightarrow> address \<Rightarrow> (address \<Rightarrow> address \<Rightarrow> nat)
     \<Rightarrow> (address \<Rightarrow> address \<Rightarrow> address \<Rightarrow> nat) \<Rightarrow> state" where
  "constructor_state deployer token self bal alw =
     \<lparr>bettingToken_g = 0, previousBettingToken = 0, feeCollector = deployer,
      freeClaimHandler = 0, marketCount = 0, platformFeeRate = 25, globalTradeCount = 0,
      totalPlatformFeesCollected = 0, totalLockedPlatformFees = 0,
      totalUnlockedPlatformFees = 0, totalWithdrawnPlatformFees = 0,
      whitelistedTokens = (\<lambda>_. False)(token := True), whitelistedTokenList = [token],
      markets = (\<lambda>_. zeroMarket), options = (\<lambda>_ _. zeroOption),
      freeMarketConfigs = (\<lambda>_. zeroConfig), userShares = (\<lambda>_ _ _. 0),
      userCostBasis = (\<lambda>_ _ _. 0), hasClaimedWinnings = (\<lambda>_ _. False),
      hasClaimedFreeTokens = (\<lambda>_ _. False), userPortfolios = (\<lambda>_. zeroPortfolio),
      userTradeHistory = (\<lambda>_. []), priceHistory = (\<lambda>_ _. []),
      categoryMarkets = (\<lambda>_. []), marketsByType = (\<lambda>_. []),
      owner = deployer, paused = False, roles = (\<lambda>_ a. a = deployer),
      this = self, balances = bal, allowances = alw\<rparr>"

definition constructor ::
  "address \<Rightarrow> address \<Rightarrow> address \<Rightarrow> (address \<Rightarrow> address \<Rightarrow> nat)
     \<Rightarrow> (address \<Rightarrow> address \<Rightarrow> address \<Rightarrow> nat) \<Rightarrow> state result" where
  "constructor deployer token self bal alw =
     bindE (require (token \<noteq> 0) ''Invalid token address'') (\<lambda>_.
     Inr (constructor_state deployer token self bal alw))"

text \<open>
  One step of the system is a successful transaction of the contract, or a step of its
  surroundings between two transactions: the token ledger changes (holders of the tokens
  move them and set allowances), or the inherited OpenZeppelin administration functions
  (role grants and revocations, ownership transfer), whose code is not in the repository,
  change \<open>roles\<close> and \<open>owner\<close>. The surroundings never write the contract's own fields.
\<close>

inductive step :: "state \<Rightarrow> state \<Rightarrow> bool" where
  step_call: "exec e s c = Inr s' \<Longrightarrow> step s s'"
| step_ledger: "step s (s\<lparr>balances := bal, allowances := alw\<rparr>)"
| step_access: "step s (s\<lparr>owner := ow, roles := rl\<rparr>)"

inductive reachable :: "state \<Rightarrow> bool" where
  reach_init: "constructor deployer token self bal alw = Inr s \<Longrightarrow> reachable s"
| reach_step: "reachable s \<Longrightarrow> step s s' \<Longrightarrow> reachable s'"

subsection \<open>Read accessors\<close>

definition getMarketExtendedMeta ::
  "state \<Rightarrow> nat \<Rightarrow> (nat \<times> bool \<times> bool \<times> address \<times> bool) result" where
  "getMarketExtendedMeta s mid =
     bindE (marketExists s mid) (\<lambda>_.
     let market = markets s mid in
     Inr (winningOptionId market, disputed market, validated market, creator market,
          earlyResolutionAllowed market))"

definition getMarketOptionUserShares :: "state \<Rightarrow> nat \<Rightarrow> nat \<Rightarrow> address \<Rightarrow> nat" where
  "getMarketOptionUserShares s mid oid user = userShares s user mid oid"

subsection \<open>Properties of the storage\<close>

text \<open>The fee-ledger partition: collected = locked + unlocked.\<close>

definition feePartition :: "state \<Rightarrow> bool" where
  "feePartition s \<longleftrightarrow>
     totalPlatformFeesCollected s = totalLockedPlatformFees s + totalUnlockedPlatformFees s"

text \<open>No position carries a cost basis above its share count.\<close>

definition basisInv :: "state \<Rightarrow> bool" where
  "basisInv s \<longleftrightarrow> (\<forall>u m i. userCostBasis s u m i \<le> userShares s u m i)"

text \<open>
  The storage \<open>s\<close> with the flag \<^verbatim>\<open>earlyResolutionAllowed\<close> of market \<open>mid\<close> set to
  \<open>b\<close> and nothing else changed.
\<close>

definition setEarly :: "nat \<Rightarrow> bool \<Rightarrow> state \<Rightarrow> state" where
  "setEarly mid b s =
     s\<lparr>markets := (markets s)(mid := (markets s mid)\<lparr>earlyResolutionAllowed := b\<rparr>)\<rparr>"

subsection \<open>Concrete runs\<close>

text \<open>
  The addresses and the token ledger of the runs used to exercise the theorems: the
  deployer (who holds every role) and a trader own one million tokens each (in units of
  \<open>10^18\<close>) of the token, and both have approved the contract for all of it.
\<close>

definition deployer :: address where "deployer = 1"
definition trader :: address where "trader = 2"
definition token0 :: address where "token0 = 7"
definition engine :: address where "engine = 9"

definition ledger0 :: "address \<Rightarrow> address \<Rightarrow> nat" where
  "ledger0 t h = (if t = token0 \<and> (h = deployer \<or> h = trader) then 10 ^ 24 else 0)"

definition allow0 :: "address \<Rightarrow> address \<Rightarrow> address \<Rightarrow> nat" where
  "allow0 t h sp = (if t = token0 \<and> sp = engine then 10 ^ 24 else 0)"

definition at_time :: "address \<Rightarrow> nat \<Rightarrow> env" where
  "at_time a t = \<lparr>msg_sender = a, block_timestamp = t\<rparr>"

text \<open>
  Run A (Scenario A of the specification): a two-option market with initial liquidity
  1000 and a duration of one day, created by the deployer at time 1000 with
  \<^verbatim>\<open>earlyResolutionAllowed = true\<close> (\<open>createA\<close>); at time 2000 the trader buys
  100 shares of option 0 (\<open>buyA\<close>); at time 90000, after the end of the market, the
  deployer resolves it for option 0. \<open>stateA1\<close>, \<open>stateA2\<close> and \<open>stateA3\<close> are the
  storage after each of the three transactions (lemmas \<open>run_A1\<close>, \<open>run_A2\<close>,
  \<open>run_A3\<close>).
\<close>

definition stateA0 :: state where
  "stateA0 = constructor_state deployer token0 engine ledger0 allow0"

definition createA :: call where
  "createA = CreateMarketWithToken ''Will it rain tomorrow?'' ''Scenario A''
     [''Yes'', ''No''] [''It rains'', ''It stays dry''] 86400 OTHER STANDARD
     (1000 * 10 ^ 18) True \<lparr>maxFreeParticipants_p = 0, tokensPerParticipant_p = 0\<rparr> token0"

definition stateA1 :: state where
  "stateA1 = stateA0\<lparr>marketCount := 1,
     allowances := allow0(token0 := (allow0 token0)(deployer := (allow0 token0 deployer)
        (engine := 999000 * 10 ^ 18))),
     balances := ledger0(token0 := (ledger0 token0)
        (deployer := 999000 * 10 ^ 18, engine := 1000 * 10 ^ 18)),
     markets := (markets stateA0)(0 :=
        \<lparr>question = ''Will it rain tomorrow?'', description = ''Scenario A'',
          endTime = 87400, createdAt = 1000, category = OTHER, marketType = STANDARD,
          creator = deployer, resolved = False, invalidated = False, disputed = False,
          validated = False, winningOptionId = 0, optionCount = 2, totalVolume = 0,
          lmsrB = 500 * 10 ^ 18, adminInitialLiquidity = 1000 * 10 ^ 18, userLiquidity = 0,
          platformFeesCollected = 0, adminLiquidityClaimed = False,
          earlyResolutionAllowed = True, bettingToken = token0\<rparr>),
     options := (options stateA0)(0 := (options stateA0 0)
        (0 := \<lparr>name = ''Yes'', description_o = ''It rains'', totalShares = 500 * 10 ^ 18,
                totalVolume_o = 0, currentPrice = 5 * 10 ^ 17, isActive = True\<rparr>,
         1 := \<lparr>name = ''No'', description_o = ''It stays dry'', totalShares = 500 * 10 ^ 18,
                totalVolume_o = 0, currentPrice = 5 * 10 ^ 17, isActive = True\<rparr>)),
     categoryMarkets := (categoryMarkets stateA0)(OTHER := [0]),
     marketsByType := (marketsByType stateA0)(STANDARD := [0])\<rparr>"

definition buyA :: call where
  "buyA = BuyShares 0 0 (100 * 10 ^ 18) (10 ^ 18) (100 * 10 ^ 18)"

definition stateA2 :: state where
  "stateA2 = stateA1\<lparr>
     allowances := (allowances stateA1)(token0 := (allowances stateA1 token0)
        (trader := (allowances stateA1 token0 trader)
           (engine := 10 ^ 24 - 53690476190476190422))),
     balances := (balances stateA1)(token0 := (balances stateA1 token0)
        (trader := 10 ^ 24 - 53690476190476190422,
         engine := 1000 * 10 ^ 18 + 53690476190476190422)),
     options := (options stateA1)(0 := (options stateA1 0)(0 := (options stateA1 0 0)
        \<lparr>totalShares := 600 * 10 ^ 18, totalVolume_o := 52380952380952380900,
         currentPrice := 545454545454545454\<rparr>)),
     markets := (markets stateA1)(0 := (markets stateA1 0)
        \<lparr>totalVolume := 52380952380952380900,
         platformFeesCollected := 1309523809523809522,
         userLiquidity := 52380952380952380900\<rparr>),
     userShares := (userShares stateA1)(trader := (userShares stateA1 trader)
        (0 := (userShares stateA1 trader 0)(0 := 100 * 10 ^ 18))),
     userCostBasis := (userCostBasis stateA1)(trader := (userCostBasis stateA1 trader)
        (0 := (userCostBasis stateA1 trader 0)(0 := 52380952380952380900))),
     userPortfolios := (userPortfolios stateA1)(trader := (userPortfolios stateA1 trader)
        \<lparr>totalInvested := 52380952380952380900, tradeCount := 1\<rparr>),
     userTradeHistory := (userTradeHistory stateA1)(trader :=
        [\<lparr>marketId = 0, optionId = 0, buyer = trader, seller = 0,
          price = 523809523809523809, quantity = 100 * 10 ^ 18, timestamp = 2000\<rparr>]),
     globalTradeCount := 1,
     priceHistory := (priceHistory stateA1)(0 := (priceHistory stateA1 0)
        (0 := [\<lparr>price_pp = 545454545454545454, timestamp_pp = 2000,
                volume = 52380952380952380900\<rparr>])),
     totalPlatformFeesCollected := 1309523809523809522,
     totalLockedPlatformFees := 1309523809523809522\<rparr>"

definition stateA3 :: state where
  "stateA3 = stateA2\<lparr>
     markets := (markets stateA2)(0 := (markets stateA2 0)
        \<lparr>resolved := True, winningOptionId := 0\<rparr>),
     totalLockedPlatformFees := 0,
     totalUnlockedPlatformFees := 1309523809523809522\<rparr>"

text \<open>
  Run B: a three-option market with initial liquidity 900 (\<open>createB\<close>, giving
  \<open>stateB1\<close>); the trader then buys 30 shares of option 2 (\<open>buyB\<close>, giving
  \<open>stateB2\<close>) and holds no other position.
\<close>

definition createB :: call where
  "createB = CreateMarketWithToken ''Who wins the cup?'' ''Run B''
     [''Red'', ''Green'', ''Blue''] [''Red wins'', ''Green wins'', ''Blue wins''] 86400 SPORTS
     STANDARD (900 * 10 ^ 18) False \<lparr>maxFreeParticipants_p = 0, tokensPerParticipant_p = 0\<rparr>
     token0"

definition stateB1 :: state where
  "stateB1 = stateA0\<lparr>marketCount := 1,
     allowances := allow0(token0 := (allow0 token0)(deployer := (allow0 token0 deployer)
        (engine := 999100 * 10 ^ 18))),
     balances := ledger0(token0 := (ledger0 token0)
        (deployer := 999100 * 10 ^ 18, engine := 900 * 10 ^ 18)),
     markets := (markets stateA0)(0 :=
        \<lparr>question = ''Who wins the cup?'', description = ''Run B'',
          endTime = 87400, createdAt = 1000, category = SPORTS, marketType = STANDARD,
          creator = deployer, resolved = False, invalidated = False, disputed = False,
          validated = False, winningOptionId = 0, optionCount = 3, totalVolume = 0,
          lmsrB = 300 * 10 ^ 18, adminInitialLiquidity = 900 * 10 ^ 18, userLiquidity = 0,
          platformFeesCollected = 0, adminLiquidityClaimed = False,
          earlyResolutionAllowed = False, bettingToken = token0\<rparr>),
     options := (options stateA0)(0 := (options stateA0 0)
        (0 := \<lparr>name = ''Red'', description_o = ''Red wins'', totalShares = 300 * 10 ^ 18,
                totalVolume_o = 0, currentPrice = 333333333333333333, isActive = True\<rparr>,
         1 := \<lparr>name = ''Green'', description_o = ''Green wins'',
                totalShares = 300 * 10 ^ 18, totalVolume_o = 0,
                currentPrice = 333333333333333333, isActive = True\<rparr>,
         2 := \<lparr>name = ''Blue'', description_o = ''Blue wins'', totalShares = 300 * 10 ^ 18,
                totalVolume_o = 0, currentPrice = 333333333333333333, isActive = True\<rparr>)),
     categoryMarkets := (categoryMarkets stateA0)(SPORTS := [0]),
     marketsByType := (marketsByType stateA0)(STANDARD := [0])\<rparr>"

definition buyB :: call where
  "buyB = BuyShares 0 2 (30 * 10 ^ 18) (10 ^ 18) (30 * 10 ^ 18)"

definition stateB2 :: state where
  "stateB2 = stateB1\<lparr>
     allowances := (allowances stateB1)(token0 := (allowances stateB1 token0)
        (trader := (allowances stateB1 token0 trader)
           (engine := 10 ^ 24 - 10586065573770491799))),
     balances := (balances stateB1)(token0 := (balances stateB1 token0)
        (trader := 10 ^ 24 - 10586065573770491799,
         engine := 900 * 10 ^ 18 + 10586065573770491799)),
     options := (options stateB1)(0 := (options stateB1 0)(2 := (options stateB1 0 2)
        \<lparr>totalShares := 330 * 10 ^ 18, totalVolume_o := 10327868852459016390,
         currentPrice := 354838709677419354\<rparr>)),
     markets := (markets stateB1)(0 := (markets stateB1 0)
        \<lparr>totalVolume := 10327868852459016390,
         platformFeesCollected := 258196721311475409,
         userLiquidity := 10327868852459016390\<rparr>),
     userShares := (userShares stateB1)(trader := (userShares stateB1 trader)
        (0 := (userShares stateB1 trader 0)(2 := 30 * 10 ^ 18))),
     userCostBasis := (userCostBasis stateB1)(trader := (userCostBasis stateB1 trader)
        (0 := (userCostBasis stateB1 trader 0)(2 := 10327868852459016390))),
     userPortfolios := (userPortfolios stateB1)(trader := (userPortfolios stateB1 trader)
        \<lparr>totalInvested := 10327868852459016390, tradeCount := 1\<rparr>),
     userTradeHistory := (userTradeHistory stateB1)(trader :=
        [\<lparr>marketId = 0, optionId = 2, buyer = trader, seller = 0,
          price = 344262295081967213, quantity = 30 * 10 ^ 18, timestamp = 2000\<rparr>]),
     globalTradeCount := 1,
     priceHistory := (priceHistory stateB1)(0 := (priceHistory stateB1 0)
        (2 := [\<lparr>price_pp = 354838709677419354, timestamp_pp = 2000,
                volume = 10327868852459016390\<rparr>])),
     totalPlatformFeesCollected := 258196721311475409,
     totalLockedPlatformFees := 258196721311475409\<rparr>"

text \<open>
  Run C continues run A with a second market: after \<open>stateA2\<close> the deployer creates
  the three-option market of run B as market 1 (\<open>stateC1\<close>), the trader buys 300 shares
  of its option 2 (\<open>buyC\<close>, \<open>stateC2\<close>), and the deployer, who holds
  \<^verbatim>\<open>MARKET_VALIDATOR_ROLE\<close>, calls \<^verbatim>\<open>invalidateMarket(0)\<close> twice (\<open>stateC3\<close>, then
  \<open>stateC4\<close>).
\<close>

definition stateC1 :: state where
  "stateC1 = stateA2\<lparr>marketCount := 2,
     allowances := (allowances stateA2)(token0 := (allowances stateA2 token0)
        (deployer := (allowances stateA2 token0 deployer)(engine := 998100 * 10 ^ 18))),
     balances := (balances stateA2)(token0 := (balances stateA2 token0)
        (deployer := 998100 * 10 ^ 18,
         engine := 1900 * 10 ^ 18 + 53690476190476190422)),
     markets := (markets stateA2)(1 :=
        \<lparr>question = ''Who wins the cup?'', description = ''Run B'',
          endTime = 88500, createdAt = 2100, category = SPORTS, marketType = STANDARD,
          creator = deployer, resolved = False, invalidated = False, disputed = False,
          validated = False, winningOptionId = 0, optionCount = 3, totalVolume = 0,
          lmsrB = 300 * 10 ^ 18, adminInitialLiquidity = 900 * 10 ^ 18, userLiquidity = 0,
          platformFeesCollected = 0, adminLiquidityClaimed = False,
          earlyResolutionAllowed = False, bettingToken = token0\<rparr>),
     options := (options stateA2)(1 := (options stateA2 1)
        (0 := \<lparr>name = ''Red'', description_o = ''Red wins'', totalShares = 300 * 10 ^ 18,
                totalVolume_o = 0, currentPrice = 333333333333333333, isActive = True\<rparr>,
         1 := \<lparr>name = ''Green'', description_o = ''Green wins'',
                totalShares = 300 * 10 ^ 18, totalVolume_o = 0,
                currentPrice = 333333333333333333, isActive = True\<rparr>,
         2 := \<lparr>name = ''Blue'', description_o = ''Blue wins'', totalShares = 300 * 10 ^ 18,
                totalVolume_o = 0, currentPrice = 333333333333333333, isActive = True\<rparr>)),
     categoryMarkets := (categoryMarkets stateA2)(SPORTS := [1]),
     marketsByType := (marketsByType stateA2)(STANDARD := [0, 1])\<rparr>"

definition buyC :: call where
  "buyC = BuyShares 1 2 (300 * 10 ^ 18) (10 ^ 18) (300 * 10 ^ 18)"

definition stateC2 :: state where
  "stateC2 = stateC1\<lparr>
     allowances := (allowances stateC1)(token0 := (allowances stateC1 token0)
        (trader := (allowances stateC1 token0 trader)
           (engine := 999814523809523809523996))),
     balances := (balances stateC1)(token0 := (balances stateC1 token0)
        (trader := 999814523809523809523996,
         engine := 2085476190476190476004)),
     options := (options stateC1)(1 := (options stateC1 1)(2 := (options stateC1 1 2)
        \<lparr>totalShares := 600 * 10 ^ 18, totalVolume_o := 128571428571428571300,
         currentPrice := 5 * 10 ^ 17\<rparr>)),
     markets := (markets stateC1)(1 := (markets stateC1 1)
        \<lparr>totalVolume := 128571428571428571300,
         platformFeesCollected := 3214285714285714282,
         userLiquidity := 128571428571428571300\<rparr>),
     userShares := (userShares stateC1)(trader := (userShares stateC1 trader)
        (1 := (userShares stateC1 trader 1)(2 := 300 * 10 ^ 18))),
     userCostBasis := (userCostBasis stateC1)(trader := (userCostBasis stateC1 trader)
        (1 := (userCostBasis stateC1 trader 1)(2 := 128571428571428571300))),
     userPortfolios := (userPortfolios stateC1)(trader := (userPortfolios stateC1 trader)
        \<lparr>totalInvested := 180952380952380952200, tradeCount := 2\<rparr>),
     userTradeHistory := (userTradeHistory stateC1)(trader :=
        userTradeHistory stateC1 trader @
        [\<lparr>marketId = 1, optionId = 2, buyer = trader, seller = 0,
          price = 428571428571428571, quantity = 300 * 10 ^ 18, timestamp = 2200\<rparr>]),
     globalTradeCount := 2,
     priceHistory := (priceHistory stateC1)(1 := (priceHistory stateC1 1)
        (2 := [\<lparr>price_pp = 5 * 10 ^ 17, timestamp_pp = 2200,
                volume = 128571428571428571300\<rparr>])),
     totalPlatformFeesCollected := 4523809523809523804,
     totalLockedPlatformFees := 4523809523809523804\<rparr>"

definition stateC3 :: state where
  "stateC3 = stateC2\<lparr>
     markets := (markets stateC2)(0 := (markets stateC2 0)\<lparr>invalidated := True\<rparr>),
     totalLockedPlatformFees := 3214285714285714282,
     totalPlatformFeesCollected := 3214285714285714282\<rparr>"

definition stateC4 :: state where
  "stateC4 = stateC3\<lparr>
     totalLockedPlatformFees := 1904761904761904760,
     totalPlatformFeesCollected := 1904761904761904760\<rparr>"




section \<open>Basic facts\<close>

lemma bindE_Inr_iff: "bindE m f = Inr y \<longleftrightarrow> (\<exists>x. m = Inr x \<and> f x = Inr y)"
  by (cases m) (simp_all add: bindE_def)

lemma bindE_simps [simp]: "bindE (Inl e) f = Inl e" "bindE (Inr x) f = f x"
  by (simp_all add: bindE_def)

lemma require_Inr_iff: "require c m = Inr u \<longleftrightarrow> c"
  by (simp add: require_def)

lemma require_simps [simp]: "require True m = Inr ()" "require False m = Inl (Revert m)"
  by (simp_all add: require_def)

lemma add256_Inr_iff: "add256 a b = Inr c \<longleftrightarrow> a + b \<le> MAX_UINT256 \<and> c = a + b"
  by (auto simp: add256_def)

lemma sub256_Inr_iff: "sub256 a b = Inr c \<longleftrightarrow> b \<le> a \<and> c = a - b"
  by (auto simp: sub256_def)

lemma mul256_Inr_iff: "mul256 a b = Inr c \<longleftrightarrow> a * b \<le> MAX_UINT256 \<and> c = a * b"
  by (auto simp: mul256_def)

lemma div256_Inr_iff: "div256 a b = Inr c \<longleftrightarrow> b \<noteq> 0 \<and> c = a div b"
  by (auto simp: div256_def)

lemma addI256_Inr_iff: "addI256 a b = Inr c \<longleftrightarrow> in_int256 (a + b) \<and> c = a + b"
  by (auto simp: addI256_def)

lemma subI256_Inr_iff: "subI256 a b = Inr c \<longleftrightarrow> in_int256 (a - b) \<and> c = a - b"
  by (auto simp: subI256_def)

lemmas res_iffs = bindE_Inr_iff require_Inr_iff add256_Inr_iff sub256_Inr_iff mul256_Inr_iff
  div256_Inr_iff addI256_Inr_iff subI256_Inr_iff

lemmas modifier_defs = whenNotPaused_def whenPaused_def onlyOwner_def onlyRole_def
  marketExists_def marketNotResolved_def marketNotInvalidated_def marketActive_def
  marketEnded_def

lemma updatePrice_Inr:
  "updatePrice s mid oid = Inr s' \<Longrightarrow>
     \<exists>p. calculatePrice s mid oid (totalShares (options s mid oid)) = Inr p \<and>
       s' = s\<lparr>options := (options s)(mid := (options s mid)
              (oid := (options s mid oid)\<lparr>currentPrice := p\<rparr>))\<rparr>"
  by (auto simp: updatePrice_def res_iffs)

subsection \<open>Pricing bounds\<close>

lemma sumShares_ge_acc:
  "sumShares s mid oid sh is acc = Inr t \<Longrightarrow> acc \<le> t"
  by (induction "is" arbitrary: acc) (fastforce simp: res_iffs)+

lemma sumShares_ge:
  "sumShares s mid oid sh is acc = Inr t \<Longrightarrow> oid \<in> set is \<Longrightarrow> acc + sh \<le> t"
proof (induction "is" arbitrary: acc)
  case Nil
  then show ?case by simp
next
  case (Cons i "is")
  from Cons.prems(1) obtain acc' where
    a: "acc' = acc + (if i = oid then sh else totalShares (options s mid i))"
    and r: "sumShares s mid oid sh is acc' = Inr t"
    by (auto simp: res_iffs)
  show ?case
  proof (cases "i = oid")
    case True
    with a r sumShares_ge_acc [OF r] show ?thesis by simp
  next
    case False
    with Cons.prems(2) have "oid \<in> set is" by simp
    from Cons.IH [OF r this] a False show ?thesis by simp
  qed
qed

lemma calculatePrice_le_one:
  assumes "calculatePrice s mid oid sh = Inr p" and "oid < optionCount (markets s mid)"
  shows "p \<le> 10 ^ 18"
proof -
  from assms(1) obtain t where
    t: "sumShares s mid oid sh [0 ..< optionCount (markets s mid)] 0 = Inr t"
    and p: "(if t = 0 then div256 (10 ^ 18) (optionCount (markets s mid))
             else bindE (mul256 sh (10 ^ 18)) (\<lambda>x. div256 x t)) = Inr p"
    by (auto simp: calculatePrice_def res_iffs)
  from assms(2) have "oid \<in> set [0 ..< optionCount (markets s mid)]" by simp
  from sumShares_ge [OF t this] have le: "sh \<le> t" by simp
  show ?thesis
  proof (cases "t = 0")
    case True
    with p have "p = 10 ^ 18 div optionCount (markets s mid)" by (simp add: res_iffs)
    then show ?thesis by (simp add: div_le_dividend)
  next
    case False
    with p have "p = sh * 10 ^ 18 div t" by (auto simp: res_iffs)
    moreover from le have "sh * 10 ^ 18 \<le> 10 ^ 18 * t" by simp
    ultimately show ?thesis using False
      by (metis div_le_mono nonzero_mult_div_cancel_right)
  qed
qed

lemma scaled_le:
  fixes q p :: nat
  assumes "p \<le> 10 ^ 18"
  shows "q * p div 10 ^ 18 \<le> q"
proof -
  from assms have "q * p \<le> q * 10 ^ 18" by simp
  then have "q * p div 10 ^ 18 \<le> q * 10 ^ 18 div 10 ^ 18" by (rule div_le_mono)
  then show ?thesis by simp
qed

lemma calculateBuyCost_le:
  assumes "calculateBuyCost s mid oid q = Inr c" and "oid < optionCount (markets s mid)"
  shows "c \<le> q"
proof -
  from assms(1) obtain sh p where "calculatePrice s mid oid sh = Inr p"
    and c: "c = q * p div 10 ^ 18"
    by (auto simp: calculateBuyCost_def Let_def res_iffs)
  from calculatePrice_le_one [OF this(1) assms(2)] c show ?thesis
    using scaled_le by simp
qed

lemma calculateSellProceeds_le:
  assumes "calculateSellProceeds s mid oid q = Inr c" and "oid < optionCount (markets s mid)"
  shows "c \<le> q"
proof -
  from assms(1) obtain sh p where "calculatePrice s mid oid sh = Inr p"
    and c: "c = q * p div 10 ^ 18"
    by (auto simp: calculateSellProceeds_def Let_def res_iffs)
  from calculatePrice_le_one [OF this(1) assms(2)] c show ?thesis
    using scaled_le by simp
qed

lemma buy_zero: "\<exists>err. buyShares e s mid oid 0 mp mc = Inl err"
  by (cases "buyShares e s mid oid 0 mp mc") (auto simp: buyShares_def res_iffs)

lemma sell_zero: "\<exists>err. sellShares e s mid oid 0 mp mc = Inl err"
  by (cases "sellShares e s mid oid 0 mp mc") (auto simp: sellShares_def res_iffs)

lemma sell_excess:
  assumes "\<not> paused s" "mid < marketCount s" "block_timestamp e < endTime (markets s mid)"
    "\<not> resolved (markets s mid)" "\<not> invalidated (markets s mid)"
    "oid < optionCount (markets s mid)" "userShares s (msg_sender e) mid oid < q"
  shows "sellShares e s mid oid q mp mt = Inl (Revert ''Insufficient shares'')"
  using assms by (simp add: sellShares_def modifier_defs)

lemma sell_excess_fails:
  assumes "userShares s (msg_sender e) mid oid < q"
  shows "\<exists>err. sellShares e s mid oid q mp mt = Inl err"
  using assms by (cases "sellShares e s mid oid q mp mt") (auto simp: sellShares_def res_iffs)

lemma resolve_early:
  assumes "block_timestamp e < endTime (markets s mid)"
  shows "\<exists>err. resolveMarket e s mid w = Inl err"
  using assms by (cases "resolveMarket e s mid w") (auto simp: resolveMarket_def res_iffs modifier_defs)



lemma erc20_transfer_Inr_ex:
  "erc20_transfer s token from to amount = Inr s' \<Longrightarrow>
     amount \<le> balances s token from \<and>
     ledger_move (balances s) token from to amount token to \<le> MAX_UINT256 \<and>
     s' = s\<lparr>balances := ledger_move (balances s) token from to amount\<rparr>"
  by (simp add: erc20_transfer_def split: if_splits)

lemma erc20_transferFrom_Inr_ex:
  assumes "erc20_transferFrom s token sp from to amount = Inr s'"
  shows "amount \<le> balances s token from \<and> amount \<le> allowances s token from sp \<and>
     ledger_move (balances s) token from to amount token to \<le> MAX_UINT256 \<and>
     (\<exists>a. s' = s\<lparr>allowances := a,
            balances := ledger_move (balances s) token from to amount\<rparr>)"
proof -
  let ?a = "(allowances s)(token := (allowances s token)
                  (from := (allowances s token from)
                     (sp := allowances s token from sp - amount)))"
  from assms have alw: "amount \<le> allowances s token from sp"
    and t: "erc20_transfer (s\<lparr>allowances := ?a\<rparr>) token from to amount = Inr s'"
    by (simp_all add: erc20_transferFrom_def split: if_splits)
  from erc20_transfer_Inr_ex [OF t] have
    "amount \<le> balances s token from"
    "ledger_move (balances s) token from to amount token to \<le> MAX_UINT256"
    "s' = s\<lparr>allowances := ?a, balances := ledger_move (balances s) token from to amount\<rparr>"
    by simp_all
  with alw show ?thesis by blast
qed

lemma sumShares_frame:
  "options s' mid = options s mid \<Longrightarrow>
     sumShares s' mid oid sh is acc = sumShares s mid oid sh is acc"
proof (induction "is" arbitrary: acc)
  case Nil
  then show ?case by simp
next
  case (Cons i "is")
  have "bindE r (sumShares s' mid oid sh is) = bindE r (sumShares s mid oid sh is)" for r
    by (cases r) (simp_all add: Cons.IH [OF Cons.prems])
  then show ?case using Cons.prems by simp
qed

lemma calculatePrice_frame:
  assumes "options s' mid = options s mid"
    and "optionCount (markets s' mid) = optionCount (markets s mid)"
  shows "calculatePrice s' mid oid sh = calculatePrice s mid oid sh"
proof -
  have "sumShares s' mid oid sh xs acc = sumShares s mid oid sh xs acc" for xs acc
    by (rule sumShares_frame [OF assms(1)])
  then show ?thesis unfolding calculatePrice_def assms(2) by simp
qed

subsection \<open>Effect of a successful trade\<close>

lemma bindE_InrE:
  assumes "bindE m f = Inr y"
  obtains x where "m = Inr x" "f x = Inr y"
  using assms by (cases m) (simp_all add: bindE_def)

lemma buy_updateState_Inr:
  assumes "buy_updateState s u mid oid q totalCost fee = Inr s'"
  shows "userShares s u mid oid + q \<le> MAX_UINT256 \<and>
     s' = s\<lparr>options := (options s)(mid := (options s mid)(oid := (options s mid oid)
          \<lparr>totalShares := totalShares (options s mid oid) + q,
           totalVolume_o := totalVolume_o (options s mid oid) + totalCost\<rparr>)),
       markets := (markets s)(mid := (markets s mid)
          \<lparr>totalVolume := totalVolume (markets s mid) + totalCost,
           platformFeesCollected := platformFeesCollected (markets s mid) + fee,
           userLiquidity := userLiquidity (markets s mid) + totalCost\<rparr>),
       userShares := (userShares s)(u := (userShares s u)
          (mid := (userShares s u mid)(oid := userShares s u mid oid + q))),
       userCostBasis := (userCostBasis s)(u := (userCostBasis s u)
          (mid := (userCostBasis s u mid)(oid := userCostBasis s u mid oid + totalCost))),
       userPortfolios := (userPortfolios s)(u := (userPortfolios s u)
          \<lparr>totalInvested := totalInvested (userPortfolios s u) + totalCost,
           tradeCount := tradeCount (userPortfolios s u) + 1\<rparr>)\<rparr>"
  using assms unfolding buy_updateState_def Let_def
  by (elim bindE_InrE) (simp add: res_iffs)

lemma sell_updateState_Inr:
  assumes "sell_updateState s u mid oid q proceeds fee net = Inr s'"
  shows "q \<le> totalShares (options s mid oid) \<and> q \<le> userShares s u mid oid \<and>
     userCostBasis s u mid oid * q \<le> MAX_UINT256 \<and>
     userCostBasis s u mid oid * q div userShares s u mid oid \<le> userCostBasis s u mid oid \<and>
     in_int256 (int256_of net - int256_of
        (userCostBasis s u mid oid * q div userShares s u mid oid)) \<and>
     in_int256 (realizedPnL (userPortfolios s u) + (int256_of net - int256_of
        (userCostBasis s u mid oid * q div userShares s u mid oid))) \<and>
     s' = s\<lparr>options := (options s)(mid := (options s mid)(oid := (options s mid oid)
          \<lparr>totalShares := totalShares (options s mid oid) - q,
           totalVolume_o := totalVolume_o (options s mid oid) + proceeds\<rparr>)),
       markets := (markets s)(mid := (markets s mid)
          \<lparr>totalVolume := totalVolume (markets s mid) + proceeds,
           platformFeesCollected := platformFeesCollected (markets s mid) + fee\<rparr>),
       userShares := (userShares s)(u := (userShares s u)
          (mid := (userShares s u mid)(oid := userShares s u mid oid - q))),
       userCostBasis := (userCostBasis s)(u := (userCostBasis s u)
          (mid := (userCostBasis s u mid)(oid := userCostBasis s u mid oid -
             userCostBasis s u mid oid * q div userShares s u mid oid))),
       userPortfolios := (userPortfolios s)(u := (userPortfolios s u)
          \<lparr>realizedPnL := realizedPnL (userPortfolios s u) + (int256_of net - int256_of
             (userCostBasis s u mid oid * q div userShares s u mid oid)),
           tradeCount := tradeCount (userPortfolios s u) + 1\<rparr>)\<rparr>"
  using assms unfolding sell_updateState_def Let_def
  by (elim bindE_InrE) (simp add: res_iffs)

lemma recordTrade_Inr:
  "recordTrade s u trade = Inr s' \<Longrightarrow>
     s' = s\<lparr>userTradeHistory := (userTradeHistory s)(u := userTradeHistory s u @ [trade]),
            globalTradeCount := globalTradeCount s + 1\<rparr>"
  by (auto simp: recordTrade_def Let_def res_iffs)

lemma trackFees_Inr:
  "trackFees s fee = Inr s' \<Longrightarrow>
     s' = s\<lparr>totalPlatformFeesCollected := totalPlatformFeesCollected s + fee,
            totalLockedPlatformFees := totalLockedPlatformFees s + fee\<rparr>"
  by (auto simp: trackFees_def res_iffs)


lemmas arith_iffs = require_Inr_iff add256_Inr_iff sub256_Inr_iff mul256_Inr_iff
  div256_Inr_iff addI256_Inr_iff subI256_Inr_iff

lemma buyShares_Inr:
  assumes "buyShares e s mid oid q mp mc = Inr s'"
  shows "\<exists>cost fee p a.
     \<not> paused s \<and> mid < marketCount s \<and> block_timestamp e < endTime (markets s mid) \<and>
     \<not> resolved (markets s mid) \<and> \<not> invalidated (markets s mid) \<and>
     oid < optionCount (markets s mid) \<and> 0 < q \<and> isActive (options s mid oid) \<and>
     calculateBuyCost s mid oid q = Inr cost \<and> fee = cost * platformFeeRate s div 1000 \<and>
     cost * 10 ^ 18 div q \<le> mp \<and> cost \<le> mc \<and>
     cost + fee \<le> balances s (bettingToken (markets s mid)) (msg_sender e) \<and>
     userShares s (msg_sender e) mid oid + q \<le> MAX_UINT256 \<and>
     p \<le> 10 ^ 18 \<and>
     s' = s\<lparr>
       allowances := a,
       balances := ledger_move (balances s) (bettingToken (markets s mid)) (msg_sender e)
                     (this s) (cost + fee),
       options := (options s)(mid := (options s mid)(oid := (options s mid oid)
          \<lparr>totalShares := totalShares (options s mid oid) + q,
           totalVolume_o := totalVolume_o (options s mid oid) + cost,
           currentPrice := p\<rparr>)),
       markets := (markets s)(mid := (markets s mid)
          \<lparr>totalVolume := totalVolume (markets s mid) + cost,
           platformFeesCollected := platformFeesCollected (markets s mid) + fee,
           userLiquidity := userLiquidity (markets s mid) + cost\<rparr>),
       userShares := (userShares s)(msg_sender e := (userShares s (msg_sender e))
          (mid := (userShares s (msg_sender e) mid)
             (oid := userShares s (msg_sender e) mid oid + q))),
       userCostBasis := (userCostBasis s)(msg_sender e := (userCostBasis s (msg_sender e))
          (mid := (userCostBasis s (msg_sender e) mid)
             (oid := userCostBasis s (msg_sender e) mid oid + cost))),
       userPortfolios := (userPortfolios s)(msg_sender e := (userPortfolios s (msg_sender e))
          \<lparr>totalInvested := totalInvested (userPortfolios s (msg_sender e)) + cost,
           tradeCount := tradeCount (userPortfolios s (msg_sender e)) + 1\<rparr>),
       userTradeHistory := (userTradeHistory s)(msg_sender e :=
          userTradeHistory s (msg_sender e) @
            [\<lparr>marketId = mid, optionId = oid, buyer = msg_sender e, seller = 0,
              price = cost * 10 ^ 18 div q, quantity = q, timestamp = block_timestamp e\<rparr>]),
       globalTradeCount := globalTradeCount s + 1,
       priceHistory := (priceHistory s)(mid := (priceHistory s mid)
          (oid := priceHistory s mid oid @
             [\<lparr>price_pp = p, timestamp_pp = block_timestamp e, volume = cost\<rparr>])),
       totalPlatformFeesCollected := totalPlatformFeesCollected s + fee,
       totalLockedPlatformFees := totalLockedPlatformFees s + fee\<rparr>"
proof -
  define post where "post = (\<lambda>cost fee p a.
     \<not> paused s \<and> mid < marketCount s \<and> block_timestamp e < endTime (markets s mid) \<and>
     \<not> resolved (markets s mid) \<and> \<not> invalidated (markets s mid) \<and>
     oid < optionCount (markets s mid) \<and> 0 < q \<and> isActive (options s mid oid) \<and>
     calculateBuyCost s mid oid q = Inr cost \<and> fee = cost * platformFeeRate s div 1000 \<and>
     cost * 10 ^ 18 div q \<le> mp \<and> cost \<le> mc \<and>
     cost + fee \<le> balances s (bettingToken (markets s mid)) (msg_sender e) \<and>
     userShares s (msg_sender e) mid oid + q \<le> MAX_UINT256 \<and>
     p \<le> 10 ^ 18 \<and>
     s' = s\<lparr>
       allowances := a,
       balances := ledger_move (balances s) (bettingToken (markets s mid)) (msg_sender e)
                     (this s) (cost + fee),
       options := (options s)(mid := (options s mid)(oid := (options s mid oid)
          \<lparr>totalShares := totalShares (options s mid oid) + q,
           totalVolume_o := totalVolume_o (options s mid oid) + cost,
           currentPrice := p\<rparr>)),
       markets := (markets s)(mid := (markets s mid)
          \<lparr>totalVolume := totalVolume (markets s mid) + cost,
           platformFeesCollected := platformFeesCollected (markets s mid) + fee,
           userLiquidity := userLiquidity (markets s mid) + cost\<rparr>),
       userShares := (userShares s)(msg_sender e := (userShares s (msg_sender e))
          (mid := (userShares s (msg_sender e) mid)
             (oid := userShares s (msg_sender e) mid oid + q))),
       userCostBasis := (userCostBasis s)(msg_sender e := (userCostBasis s (msg_sender e))
          (mid := (userCostBasis s (msg_sender e) mid)
             (oid := userCostBasis s (msg_sender e) mid oid + cost))),
       userPortfolios := (userPortfolios s)(msg_sender e := (userPortfolios s (msg_sender e))
          \<lparr>totalInvested := totalInvested (userPortfolios s (msg_sender e)) + cost,
           tradeCount := tradeCount (userPortfolios s (msg_sender e)) + 1\<rparr>),
       userTradeHistory := (userTradeHistory s)(msg_sender e :=
          userTradeHistory s (msg_sender e) @
            [\<lparr>marketId = mid, optionId = oid, buyer = msg_sender e, seller = 0,
              price = cost * 10 ^ 18 div q, quantity = q, timestamp = block_timestamp e\<rparr>]),
       globalTradeCount := globalTradeCount s + 1,
       priceHistory := (priceHistory s)(mid := (priceHistory s mid)
          (oid := priceHistory s mid oid @
             [\<lparr>price_pp = p, timestamp_pp = block_timestamp e, volume = cost\<rparr>])),
       totalPlatformFeesCollected := totalPlatformFeesCollected s + fee,
       totalLockedPlatformFees := totalLockedPlatformFees s + fee\<rparr>)"
  have "\<exists>cost fee p a. post cost fee p a"
    using assms unfolding buyShares_def modifier_defs
    apply (elim bindE_InrE)
    apply (simp (no_asm_use) only: arith_iffs)
    apply (elim conjE)
    apply hypsubst
    apply (drule erc20_transferFrom_Inr_ex, elim exE conjE, hypsubst)
    apply (drule buy_updateState_Inr, elim exE conjE, hypsubst, simp (no_asm_use))
    apply (drule recordTrade_Inr, hypsubst, simp (no_asm_use))
    apply (drule updatePrice_Inr, elim exE conjE, hypsubst, simp (no_asm_use))
    apply (drule trackFees_Inr)
    subgoal for cost a p
      apply (rule exI [of _ cost])
      apply (rule exI [of _ "cost * platformFeeRate s div 1000"])
      apply (rule exI [of _ p])
      apply (rule exI [of _ a])
      apply (frule calculatePrice_le_one)
       apply simp
      apply (simp only: post_def)
      apply (intro conjI)
                     apply (simp_all (no_asm_simp) only: simp_thms)[15]
       apply (simp (no_asm_simp))
      apply (rule state.equality; simp (no_asm) add: recordPricePoint_def)
      done
    done
  then show ?thesis unfolding post_def .
qed

lemma sellShares_Inr:
  assumes "sellShares e s mid oid q mp mt = Inr s'"
  shows "\<exists>proceeds fee net red p.
     \<not> paused s \<and> mid < marketCount s \<and> block_timestamp e < endTime (markets s mid) \<and>
     \<not> resolved (markets s mid) \<and> \<not> invalidated (markets s mid) \<and>
     oid < optionCount (markets s mid) \<and> 0 < q \<and> q \<le> userShares s (msg_sender e) mid oid \<and>
     calculateSellProceeds s mid oid q = Inr proceeds \<and>
     fee = proceeds * platformFeeRate s div 1000 \<and> fee \<le> proceeds \<and> net = proceeds - fee \<and>
     mp \<le> proceeds * 10 ^ 18 div q \<and> mt \<le> proceeds \<and>
     q \<le> totalShares (options s mid oid) \<and>
     userCostBasis s (msg_sender e) mid oid * q \<le> MAX_UINT256 \<and>
     red = userCostBasis s (msg_sender e) mid oid * q div userShares s (msg_sender e) mid oid \<and>
     red \<le> userCostBasis s (msg_sender e) mid oid \<and>
     in_int256 (int256_of net - int256_of red) \<and>
     in_int256 (realizedPnL (userPortfolios s (msg_sender e)) + (int256_of net - int256_of red)) \<and>
     net \<le> balances s (bettingToken (markets s mid)) (this s) \<and>
     p \<le> 10 ^ 18 \<and>
     s' = s\<lparr>
       balances := ledger_move (balances s) (bettingToken (markets s mid)) (this s)
                     (msg_sender e) net,
       options := (options s)(mid := (options s mid)(oid := (options s mid oid)
          \<lparr>totalShares := totalShares (options s mid oid) - q,
           totalVolume_o := totalVolume_o (options s mid oid) + proceeds,
           currentPrice := p\<rparr>)),
       markets := (markets s)(mid := (markets s mid)
          \<lparr>totalVolume := totalVolume (markets s mid) + proceeds,
           platformFeesCollected := platformFeesCollected (markets s mid) + fee\<rparr>),
       userShares := (userShares s)(msg_sender e := (userShares s (msg_sender e))
          (mid := (userShares s (msg_sender e) mid)
             (oid := userShares s (msg_sender e) mid oid - q))),
       userCostBasis := (userCostBasis s)(msg_sender e := (userCostBasis s (msg_sender e))
          (mid := (userCostBasis s (msg_sender e) mid)
             (oid := userCostBasis s (msg_sender e) mid oid - red))),
       userPortfolios := (userPortfolios s)(msg_sender e := (userPortfolios s (msg_sender e))
          \<lparr>realizedPnL := realizedPnL (userPortfolios s (msg_sender e))
                            + (int256_of net - int256_of red),
           tradeCount := tradeCount (userPortfolios s (msg_sender e)) + 1\<rparr>),
       userTradeHistory := (userTradeHistory s)(msg_sender e :=
          userTradeHistory s (msg_sender e) @
            [\<lparr>marketId = mid, optionId = oid, buyer = 0, seller = msg_sender e,
              price = proceeds * 10 ^ 18 div q, quantity = q, timestamp = block_timestamp e\<rparr>]),
       globalTradeCount := globalTradeCount s + 1,
       priceHistory := (priceHistory s)(mid := (priceHistory s mid)
          (oid := priceHistory s mid oid @
             [\<lparr>price_pp = p, timestamp_pp = block_timestamp e, volume = proceeds\<rparr>])),
       totalPlatformFeesCollected := totalPlatformFeesCollected s + fee,
       totalLockedPlatformFees := totalLockedPlatformFees s + fee\<rparr>"
proof -
  define post where "post = (\<lambda>proceeds fee net red p.
     \<not> paused s \<and> mid < marketCount s \<and> block_timestamp e < endTime (markets s mid) \<and>
     \<not> resolved (markets s mid) \<and> \<not> invalidated (markets s mid) \<and>
     oid < optionCount (markets s mid) \<and> 0 < q \<and> q \<le> userShares s (msg_sender e) mid oid \<and>
     calculateSellProceeds s mid oid q = Inr proceeds \<and>
     fee = proceeds * platformFeeRate s div 1000 \<and> fee \<le> proceeds \<and> net = proceeds - fee \<and>
     mp \<le> proceeds * 10 ^ 18 div q \<and> mt \<le> proceeds \<and>
     q \<le> totalShares (options s mid oid) \<and>
     userCostBasis s (msg_sender e) mid oid * q \<le> MAX_UINT256 \<and>
     red = userCostBasis s (msg_sender e) mid oid * q div userShares s (msg_sender e) mid oid \<and>
     red \<le> userCostBasis s (msg_sender e) mid oid \<and>
     in_int256 (int256_of net - int256_of red) \<and>
     in_int256 (realizedPnL (userPortfolios s (msg_sender e)) + (int256_of net - int256_of red)) \<and>
     net \<le> balances s (bettingToken (markets s mid)) (this s) \<and>
     p \<le> 10 ^ 18 \<and>
     s' = s\<lparr>
       balances := ledger_move (balances s) (bettingToken (markets s mid)) (this s)
                     (msg_sender e) net,
       options := (options s)(mid := (options s mid)(oid := (options s mid oid)
          \<lparr>totalShares := totalShares (options s mid oid) - q,
           totalVolume_o := totalVolume_o (options s mid oid) + proceeds,
           currentPrice := p\<rparr>)),
       markets := (markets s)(mid := (markets s mid)
          \<lparr>totalVolume := totalVolume (markets s mid) + proceeds,
           platformFeesCollected := platformFeesCollected (markets s mid) + fee\<rparr>),
       userShares := (userShares s)(msg_sender e := (userShares s (msg_sender e))
          (mid := (userShares s (msg_sender e) mid)
             (oid := userShares s (msg_sender e) mid oid - q))),
       userCostBasis := (userCostBasis s)(msg_sender e := (userCostBasis s (msg_sender e))
          (mid := (userCostBasis s (msg_sender e) mid)
             (oid := userCostBasis s (msg_sender e) mid oid - red))),
       userPortfolios := (userPortfolios s)(msg_sender e := (userPortfolios s (msg_sender e))
          \<lparr>realizedPnL := realizedPnL (userPortfolios s (msg_sender e))
                            + (int256_of net - int256_of red),
           tradeCount := tradeCount (userPortfolios s (msg_sender e)) + 1\<rparr>),
       userTradeHistory := (userTradeHistory s)(msg_sender e :=
          userTradeHistory s (msg_sender e) @
            [\<lparr>marketId = mid, optionId = oid, buyer = 0, seller = msg_sender e,
              price = proceeds * 10 ^ 18 div q, quantity = q, timestamp = block_timestamp e\<rparr>]),
       globalTradeCount := globalTradeCount s + 1,
       priceHistory := (priceHistory s)(mid := (priceHistory s mid)
          (oid := priceHistory s mid oid @
             [\<lparr>price_pp = p, timestamp_pp = block_timestamp e, volume = proceeds\<rparr>])),
       totalPlatformFeesCollected := totalPlatformFeesCollected s + fee,
       totalLockedPlatformFees := totalLockedPlatformFees s + fee\<rparr>)"
  have "\<exists>proceeds fee net red p. post proceeds fee net red p"
    using assms unfolding sellShares_def modifier_defs
    apply (elim bindE_InrE)
    apply (simp (no_asm_use) only: arith_iffs)
    apply (elim conjE)
    apply hypsubst
    apply (drule sell_updateState_Inr, elim exE conjE, hypsubst)
    apply (drule erc20_transfer_Inr_ex, elim exE conjE, hypsubst, simp (no_asm_use))
    apply (drule recordTrade_Inr, hypsubst, simp (no_asm_use))
    apply (drule updatePrice_Inr, elim exE conjE, hypsubst, simp (no_asm_use))
    apply (drule trackFees_Inr)
    subgoal for proceeds p
      apply (rule exI [of _ proceeds])
      apply (rule exI [of _ "proceeds * platformFeeRate s div 1000"])
      apply (rule exI [of _ "proceeds - proceeds * platformFeeRate s div 1000"])
      apply (rule exI [of _ "userCostBasis s (msg_sender e) mid oid * q div userShares s (msg_sender e) mid oid"])
      apply (rule exI [of _ p])
      apply (frule calculatePrice_le_one)
       apply simp
      apply (simp only: post_def)
      apply (intro conjI)
                     apply (simp_all (no_asm_simp) only: simp_thms)[22]
       apply (simp (no_asm_simp))
      apply (rule state.equality; simp (no_asm) add: recordPricePoint_def)
      done
    done
  then show ?thesis unfolding post_def .
qed

subsection \<open>Effect of a successful market creation\<close>

lemma setupFreeMarket_Inr:
  "setupFreeMarket s mid mtype fp = Inr s' \<Longrightarrow> \<exists>fc. s' = s\<lparr>freeMarketConfigs := fc\<rparr>"
  by (auto simp: setupFreeMarket_def res_iffs split: if_splits intro: exI [of _ "freeMarketConfigs s"])

lemma createMarket_internal_Inr:
  assumes "createMarket_internal e s qt dt ns ds dur cat mt liq early fp token = Inr (mid, s')"
  shows "\<exists>a fc b.
     mid = marketCount s \<and> marketCount s + 1 \<le> MAX_UINT256 \<and>
     2 \<le> length ns \<and> 0 < liq \<and> whitelistedTokens s token \<and>
     liq \<le> balances s token (msg_sender e) \<and>
     s' = s\<lparr>marketCount := marketCount s + 1,
            allowances := a,
            balances := ledger_move (balances s) token (msg_sender e) (this s) liq,
            markets := (markets s)(marketCount s :=
               \<lparr>question = qt, description = dt, endTime = block_timestamp e + dur,
                 createdAt = block_timestamp e, category = cat, marketType = mt,
                 creator = msg_sender e, resolved = False, invalidated = False,
                 disputed = False, validated = False, winningOptionId = 0,
                 optionCount = length ns, totalVolume = 0, lmsrB = b,
                 adminInitialLiquidity = liq, userLiquidity = 0,
                 platformFeesCollected = 0, adminLiquidityClaimed = False,
                 earlyResolutionAllowed = early, bettingToken = token\<rparr>),
            options := (options s)(marketCount s :=
               initOptions (options s (marketCount s)) ns ds 0 (liq div length ns)
                 (10 ^ 18 div length ns)),
            freeMarketConfigs := fc,
            categoryMarkets := (categoryMarkets s)(cat := categoryMarkets s cat @ [marketCount s]),
            marketsByType := (marketsByType s)(mt := marketsByType s mt @ [marketCount s])\<rparr>"
  using assms unfolding createMarket_internal_def Let_def
  apply (elim bindE_InrE)
  apply (simp (no_asm_use) only: arith_iffs calculateLMSRB_def Let_def)
  apply (elim bindE_InrE conjE)
  apply (simp (no_asm_use) only: arith_iffs)
  apply (elim conjE)
  apply hypsubst
  apply (drule erc20_transferFrom_Inr_ex, elim exE conjE, hypsubst, simp (no_asm_use))
  apply (drule setupFreeMarket_Inr, elim exE conjE)
  subgoal for b s4 a fc
    apply (intro conjI)
          apply (simp_all (no_asm_simp))[6]
    apply (rule exI [of _ a], rule exI [of _ fc], rule exI [of _ b])
    apply (drule sym [of _ s'])
    apply hypsubst
    apply (rule state.equality; simp (no_asm))
    done
  done

subsection \<open>Effect of the other operations\<close>

lemma createMarketWithToken_Inr:
  assumes "createMarketWithToken e s qt dt ns ds dur cat mt liq early fp token = Inr r"
  shows "\<not> paused s \<and>
     createMarket_internal e s qt dt ns ds dur cat mt liq early fp token = Inr (fst r, snd r)"
  using assms by (simp add: createMarketWithToken_def res_iffs modifier_defs)

lemmas small_op_defs = resolveMarket_def invalidateMarket_def validateMarket_def
  disputeMarket_def withdrawAdminLiquidity_def withdrawPlatformFees_def
  withdrawPlatformFeesForToken_def emergencyWithdraw_def emergencyWithdrawToken_def
  setPlatformFeeRate_def setFeeCollector_def setFreeClaimHandler_def addWhitelistedToken_def
  removeWhitelistedToken_def pause_def unpause_def grantRole_def grantQuestionCreatorRole_def
  grantQuestionResolveRole_def grantMarketValidatorRole_def Let_def

lemma claimWinnings_Inr:
  assumes "claimWinnings e s mid = Inr s'"
  shows "mid < marketCount s \<and> resolved (markets s mid) \<and> \<not> invalidated (markets s mid) \<and>
     \<not> hasClaimedWinnings s mid (msg_sender e) \<and>
     0 < userShares s (msg_sender e) mid (winningOptionId (markets s mid)) \<and>
     userShares s (msg_sender e) mid (winningOptionId (markets s mid)) * PAYOUT_PER_SHARE
        \<le> MAX_UINT256 \<and>
     (\<exists>payout s1.
        payout = userShares s (msg_sender e) mid (winningOptionId (markets s mid))
                   * PAYOUT_PER_SHARE div 10 ^ 18 \<and>
        claimWinnings_latched s (msg_sender e) mid payout = Inr s1 \<and>
        s1 = s\<lparr>hasClaimedWinnings := (hasClaimedWinnings s)
                   (mid := (hasClaimedWinnings s mid)(msg_sender e := True)),
                userPortfolios := (userPortfolios s)(msg_sender e :=
                   (userPortfolios s (msg_sender e))
                   \<lparr>totalWinnings := totalWinnings (userPortfolios s (msg_sender e)) + payout\<rparr>)\<rparr> \<and>
        erc20_transfer s1 (bettingToken (markets s mid)) (this s) (msg_sender e) payout = Inr s' \<and>
        payout \<le> balances s (bettingToken (markets s mid)) (this s) \<and>
        s' = s1\<lparr>balances := ledger_move (balances s) (bettingToken (markets s mid)) (this s)
                     (msg_sender e) payout\<rparr>)"
  using assms unfolding claimWinnings_def modifier_defs
  apply (elim bindE_InrE)
  apply (simp (no_asm_use) only: arith_iffs)
  apply (frule erc20_transfer_Inr_ex)
  apply (clarsimp simp: claimWinnings_payout_def claimWinnings_latched_def Let_def res_iffs)
  done

lemma claimFreeTokens_Inr:
  assumes "claimFreeTokens e s mid oid = Inr s'"
  shows "mid < marketCount s \<and> \<not> resolved (markets s mid) \<and> \<not> invalidated (markets s mid) \<and>
     (\<exists>fc h. s' = s\<lparr>hasClaimedFreeTokens := h, freeMarketConfigs := fc,
        userShares := (userShares s)(msg_sender e := (userShares s (msg_sender e))
           (mid := (userShares s (msg_sender e) mid)(oid := userShares s (msg_sender e) mid oid
               + tokensPerParticipant (freeMarketConfigs s mid)))),
        options := (options s)(mid := (options s mid)(oid := (options s mid oid)
           \<lparr>totalShares := totalShares (options s mid oid)
               + tokensPerParticipant (freeMarketConfigs s mid)\<rparr>))\<rparr>)"
  using assms unfolding claimFreeTokens_def modifier_defs Let_def
  apply (elim bindE_InrE)
  apply (simp (no_asm_use) only: arith_iffs)
  apply clarsimp
  apply (rule exI, rule exI)
  apply (rule state.equality; simp (no_asm))
  done


lemmas effect_dests = buyShares_Inr sellShares_Inr createMarketWithToken_Inr
  createMarket_internal_Inr claimWinnings_Inr claimFreeTokens_Inr

lemma exec_marketCount_mono:
  assumes "exec e s c = Inr s'"
  shows "marketCount s \<le> marketCount s'"
  using assms
  by (cases c)
     (auto simp: small_op_defs res_iffs modifier_defs
           dest!: effect_dests erc20_transfer_Inr_ex)

lemma exec_flags_permanent:
  assumes "exec e s c = Inr s'" and "mid < marketCount s"
  shows "(resolved (markets s mid) \<longrightarrow> resolved (markets s' mid)) \<and>
         (invalidated (markets s mid) \<longrightarrow> invalidated (markets s' mid))"
  using assms
  by (cases c)
     (auto simp: small_op_defs res_iffs modifier_defs
           dest!: effect_dests erc20_transfer_Inr_ex)

lemma exec_exclusive:
  assumes "exec e s c = Inr s'"
    and "\<not> (resolved (markets s mid) \<and> invalidated (markets s mid))"
  shows "\<not> (resolved (markets s' mid) \<and> invalidated (markets s' mid))"
  using assms
  by (cases c)
     (auto simp: small_op_defs res_iffs modifier_defs
           dest!: effect_dests erc20_transfer_Inr_ex split: if_splits)

lemma exec_latch:
  assumes "exec e s c = Inr s'" and "hasClaimedWinnings s mid u"
  shows "hasClaimedWinnings s' mid u"
  using assms
  by (cases c)
     (auto simp: small_op_defs res_iffs modifier_defs
           dest!: effect_dests erc20_transfer_Inr_ex)

lemma exec_feePartition:
  assumes "exec e s c = Inr s'" and "feePartition s"
  shows "feePartition s'"
  using assms
  by (cases c)
     (auto simp: small_op_defs res_iffs modifier_defs feePartition_def
           dest!: effect_dests erc20_transfer_Inr_ex)

lemma basis_step:
  fixes c q sh :: nat
  assumes "c \<le> sh" "q \<le> sh"
  shows "c - c * q div sh \<le> sh - q"
proof (cases "sh = 0")
  case True
  with assms show ?thesis by simp
next
  case False
  obtain a where a: "sh = c + a" using assms(1) le_Suc_ex by blast
  obtain b where b: "sh = q + b" using assms(2) le_Suc_ex by blast
  have "(c - b) * sh \<le> c * q"
  proof (cases "b \<le> c")
    case True
    then obtain d where d: "c = b + d" using le_Suc_ex by blast
    have "q = d + a" using a b d by simp
    then show ?thesis using d a by (simp add: algebra_simps)
  next
    case False
    then show ?thesis by simp
  qed
  then have "c - b \<le> c * q div sh"
    using False by (simp add: less_eq_div_iff_mult_less_eq)
  then show ?thesis using b by simp
qed

lemma exec_basisInv:
  assumes "exec e s c = Inr s'" and "basisInv s"
  shows "basisInv s'"
proof (cases c)
  case (BuyShares mid oid q mp mc)
  with assms(1) have "buyShares e s mid oid q mp mc = Inr s'" by simp
  from buyShares_Inr [OF this] obtain cost fee p a where
    *: "oid < optionCount (markets s mid)" "calculateBuyCost s mid oid q = Inr cost"
    and u: "userCostBasis s' = (userCostBasis s)(msg_sender e := (userCostBasis s (msg_sender e))
          (mid := (userCostBasis s (msg_sender e) mid)
             (oid := userCostBasis s (msg_sender e) mid oid + cost)))"
     "userShares s' = (userShares s)(msg_sender e := (userShares s (msg_sender e))
          (mid := (userShares s (msg_sender e) mid)
             (oid := userShares s (msg_sender e) mid oid + q)))"
    by auto
  from calculateBuyCost_le [OF *(2,1)] have "cost \<le> q" .
  with assms(2) show ?thesis
    unfolding basisInv_def u by (auto simp: add_mono)
next
  case (SellShares mid oid q mp mt)
  with assms(1) have "sellShares e s mid oid q mp mt = Inr s'" by simp
  from sellShares_Inr [OF this] obtain red where
    *: "q \<le> userShares s (msg_sender e) mid oid"
       "red = userCostBasis s (msg_sender e) mid oid * q div userShares s (msg_sender e) mid oid"
    and u: "userCostBasis s' = (userCostBasis s)(msg_sender e := (userCostBasis s (msg_sender e))
          (mid := (userCostBasis s (msg_sender e) mid)
             (oid := userCostBasis s (msg_sender e) mid oid - red)))"
     "userShares s' = (userShares s)(msg_sender e := (userShares s (msg_sender e))
          (mid := (userShares s (msg_sender e) mid)
             (oid := userShares s (msg_sender e) mid oid - q)))"
    by auto
  from assms(2) have "userCostBasis s (msg_sender e) mid oid \<le> userShares s (msg_sender e) mid oid"
    by (simp add: basisInv_def)
  from basis_step [OF this *(1)] *(2)
  have "userCostBasis s (msg_sender e) mid oid - red \<le> userShares s (msg_sender e) mid oid - q"
    by simp
  with assms(2) show ?thesis
    unfolding basisInv_def u by auto
next
  case (ClaimFreeTokens mid oid)
  with assms show ?thesis
    by (auto simp: basisInv_def dest!: claimFreeTokens_Inr) (meson trans_le_add1)
qed (use assms in \<open>auto simp: small_op_defs res_iffs modifier_defs basisInv_def
           dest!: effect_dests erc20_transfer_Inr_ex\<close>)

section \<open>The concrete runs\<close>

lemmas run_defs = deployer_def trader_def token0_def engine_def ledger0_def allow0_def
  at_time_def stateA0_def stateA1_def stateA2_def stateA3_def stateB1_def stateB2_def
  createA_def buyA_def createB_def buyB_def constructor_state_def
  zeroMarket_def zeroOption_def zeroConfig_def zeroPortfolio_def

lemmas eval_defs = createMarketWithToken_def createMarket_internal_def setupFreeMarket_def
  calculateLMSRB_def erc20_transferFrom_def erc20_transfer_def ledger_move_def
  buyShares_def sellShares_def buy_updateState_def sell_updateState_def recordTrade_def
  recordPricePoint_def trackFees_def updatePrice_def calculateBuyCost_def
  calculateSellProceeds_def calculatePrice_def modifier_defs small_op_defs
  claimWinnings_def claimWinnings_payout_def claimWinnings_latched_def claimFreeTokens_def
  add256_def sub256_def mul256_def div256_def addI256_def subI256_def int256_of_def
  in_int256_def MAX_UINT256_def MIN_LMSR_B_def MAX_LMSR_B_def MIN_MARKET_DURATION_def
  MAX_MARKET_DURATION_def PAYOUT_PER_SHARE_def

lemma upt_2: "[0..<2] = [0, 1]" by (simp add: upt_rec)
lemma upt_3: "[0..<3] = [0, 1, 2]" by (simp add: upt_rec)

lemma run_A0: "constructor deployer token0 engine ledger0 allow0 = Inr stateA0"
  by (simp add: constructor_def stateA0_def token0_def)

lemma run_A1: "exec (at_time deployer 1000) stateA0 createA = Inr stateA1"
  by (simp add: run_defs eval_defs numeral_2_eq_2 [symmetric])

lemma run_A2: "exec (at_time trader 2000) stateA1 buyA = Inr stateA2"
  by (simp add: run_defs eval_defs upt_2)

lemma run_A3: "exec (at_time deployer 90000) stateA2 (ResolveMarket 0 0) = Inr stateA3"
  by (simp add: run_defs eval_defs)

lemma run_B1: "exec (at_time deployer 1000) stateA0 createB = Inr stateB1"
  by (simp add: run_defs eval_defs numeral_3_eq_3 [symmetric] numeral_2_eq_2 [symmetric])

lemma run_B2: "exec (at_time trader 2000) stateB1 buyB = Inr stateB2"
  by (simp add: run_defs eval_defs upt_3)


lemma reachable_A0: "reachable stateA0"
  by (rule reach_init [OF run_A0])

lemma reachable_A1: "reachable stateA1"
  by (rule reach_step [OF reachable_A0 step_call [OF run_A1]])

lemma reachable_A2: "reachable stateA2"
  by (rule reach_step [OF reachable_A1 step_call [OF run_A2]])

lemma reachable_A3: "reachable stateA3"
  by (rule reach_step [OF reachable_A2 step_call [OF run_A3]])

lemma reachable_B1: "reachable stateB1"
  by (rule reach_step [OF reachable_A0 step_call [OF run_B1]])

lemma reachable_B2: "reachable stateB2"
  by (rule reach_step [OF reachable_B1 step_call [OF run_B2]])

lemma transact_Inl: "exec e s c = Inl err \<Longrightarrow> transact e s c = (s, Some err)"
  by (simp add: transact_def)

lemma transact_Inr: "exec e s c = Inr s' \<Longrightarrow> transact e s c = (s', None)"
  by (simp add: transact_def)

subsection \<open>Invariants of the transition system\<close>

lemma step_marketCount_mono: "step s s' \<Longrightarrow> marketCount s \<le> marketCount s'"
  by (induction rule: step.induct) (auto dest: exec_marketCount_mono)

lemma step_flags_permanent:
  "step s s' \<Longrightarrow> mid < marketCount s \<Longrightarrow>
     (resolved (markets s mid) \<longrightarrow> resolved (markets s' mid)) \<and>
     (invalidated (markets s mid) \<longrightarrow> invalidated (markets s' mid))"
  by (induction rule: step.induct) (auto dest: exec_flags_permanent)

lemma step_exclusive:
  "step s s' \<Longrightarrow> \<not> (resolved (markets s mid) \<and> invalidated (markets s mid)) \<Longrightarrow>
     \<not> (resolved (markets s' mid) \<and> invalidated (markets s' mid))"
  by (induction rule: step.induct) (auto dest: exec_exclusive)

lemma step_latch:
  "step s s' \<Longrightarrow> hasClaimedWinnings s mid u \<Longrightarrow> hasClaimedWinnings s' mid u"
  by (induction rule: step.induct) (auto dest: exec_latch)

lemma step_feePartition: "step s s' \<Longrightarrow> feePartition s \<Longrightarrow> feePartition s'"
  by (induction rule: step.induct) (auto dest: exec_feePartition simp: feePartition_def)

lemma step_basisInv: "step s s' \<Longrightarrow> basisInv s \<Longrightarrow> basisInv s'"
  by (induction rule: step.induct) (auto dest: exec_basisInv simp: basisInv_def)

lemma constructor_Inr:
  "constructor d t self bal alw = Inr s \<Longrightarrow> s = constructor_state d t self bal alw"
  by (auto simp: constructor_def res_iffs)

lemma reachable_exclusive:
  "reachable s \<Longrightarrow> \<not> (resolved (markets s mid) \<and> invalidated (markets s mid))"
proof (induction rule: reachable.induct)
  case (reach_init deployer token self bal alw s)
  then show ?case
    by (auto dest!: constructor_Inr simp: constructor_state_def zeroMarket_def)
next
  case (reach_step s s')
  then show ?case using step_exclusive by blast
qed

lemma reachable_feePartition: "reachable s \<Longrightarrow> feePartition s"
proof (induction rule: reachable.induct)
  case (reach_init deployer token self bal alw s)
  then show ?case
    by (auto dest!: constructor_Inr simp: constructor_state_def feePartition_def)
next
  case (reach_step s s')
  then show ?case using step_feePartition by blast
qed

lemma reachable_basisInv: "reachable s \<Longrightarrow> basisInv s"
proof (induction rule: reachable.induct)
  case (reach_init deployer token self bal alw s)
  then show ?case
    by (auto dest!: constructor_Inr simp: constructor_state_def basisInv_def)
next
  case (reach_step s s')
  then show ?case using step_basisInv by blast
qed

lemma steps_reachable: "step\<^sup>*\<^sup>* s s' \<Longrightarrow> reachable s \<Longrightarrow> reachable s'"
  by (induction rule: rtranclp_induct) (auto intro: reach_step)

lemma steps_marketCount_mono: "step\<^sup>*\<^sup>* s s' \<Longrightarrow> marketCount s \<le> marketCount s'"
  by (induction rule: rtranclp_induct) (auto dest: step_marketCount_mono)

lemma steps_flags_permanent:
  "step\<^sup>*\<^sup>* s s' \<Longrightarrow> mid < marketCount s \<Longrightarrow>
     (resolved (markets s mid) \<longrightarrow> resolved (markets s' mid)) \<and>
     (invalidated (markets s mid) \<longrightarrow> invalidated (markets s' mid))"
proof (induction rule: rtranclp_induct)
  case base
  then show ?case by simp
next
  case (step y z)
  from steps_marketCount_mono [OF step.hyps(1)] step.prems have "mid < marketCount y" by simp
  from step_flags_permanent [OF step.hyps(2) this] step.IH [OF step.prems]
  show ?case by blast
qed

lemma steps_latch:
  "step\<^sup>*\<^sup>* s s' \<Longrightarrow> hasClaimedWinnings s mid u \<Longrightarrow> hasClaimedWinnings s' mid u"
  by (induction rule: rtranclp_induct) (auto dest: step_latch)

subsection \<open>Facts for the claim processor\<close>

lemma ledger_move_other:
  "from \<noteq> to \<Longrightarrow> ledger_move bal token from to amount token to = bal token to + amount"
  "from \<noteq> to \<Longrightarrow> ledger_move bal token from to amount token from = bal token from - amount"
  by (simp_all add: ledger_move_def Let_def)

lemma claimWinnings_after_claim:
  assumes "mid < marketCount s" "resolved (markets s mid)" "\<not> invalidated (markets s mid)"
    "hasClaimedWinnings s mid (msg_sender e)"
  shows "claimWinnings e s mid = Inl (Revert ''Already claimed'')"
  using assms by (simp add: claimWinnings_def modifier_defs)

lemma steps_exclusive:
  "step\<^sup>*\<^sup>* s s' \<Longrightarrow> \<not> (resolved (markets s mid) \<and> invalidated (markets s mid)) \<Longrightarrow>
     \<not> (resolved (markets s' mid) \<and> invalidated (markets s' mid))"
  by (induction rule: rtranclp_induct) (auto dest: step_exclusive)

subsection \<open>The run with a repeated invalidation\<close>

lemmas runC_defs = stateC1_def stateC2_def stateC3_def stateC4_def buyC_def createB_def
  at_time_def

lemma addr_distinct:
  "deployer \<noteq> trader" "trader \<noteq> deployer" "deployer \<noteq> engine" "engine \<noteq> deployer"
  "trader \<noteq> engine" "engine \<noteq> trader"
  by (simp_all add: deployer_def trader_def engine_def)

lemma stateA1_facts:
  "paused stateA1 = False" "whitelistedTokens stateA1 token0" "marketCount stateA1 = 1"
  "this stateA1 = engine" "platformFeeRate stateA1 = 25"
  "allowances stateA1 token0 deployer engine = 999000 * 10 ^ 18"
  "balances stateA1 token0 deployer = 999000 * 10 ^ 18"
  "categoryMarkets stateA1 SPORTS = []" "marketsByType stateA1 STANDARD = [0]"
  "userShares stateA1 trader (Suc 0) 2 = 0" "userCostBasis stateA1 trader (Suc 0) 2 = 0"
  "priceHistory stateA1 (Suc 0) 2 = []"
  "roles stateA1 MARKET_VALIDATOR_ROLE deployer" "roles stateA1 QUESTION_RESOLVE_ROLE deployer"
  "resolved (markets stateA1 0) = False" "invalidated (markets stateA1 0) = False"
  by (simp_all add: run_defs)

lemma stateA2_facts:
  "paused stateA2 = False" "whitelistedTokens stateA2 token0" "marketCount stateA2 = 1"
  "this stateA2 = engine" "platformFeeRate stateA2 = 25" "globalTradeCount stateA2 = 1"
  "allowances stateA2 token0 deployer engine = 999000 * 10 ^ 18"
  "balances stateA2 token0 deployer = 999000 * 10 ^ 18"
  "balances stateA2 token0 engine = 1000 * 10 ^ 18 + 53690476190476190422"
  "allowances stateA2 token0 trader engine = 10 ^ 24 - 53690476190476190422"
  "balances stateA2 token0 trader = 10 ^ 24 - 53690476190476190422"
  "categoryMarkets stateA2 SPORTS = []" "marketsByType stateA2 STANDARD = [0]"
  "userShares stateA2 trader (Suc 0) 2 = 0" "userCostBasis stateA2 trader (Suc 0) 2 = 0"
  "totalInvested (userPortfolios stateA2 trader) = 52380952380952380900"
  "tradeCount (userPortfolios stateA2 trader) = 1"
  "priceHistory stateA2 (Suc 0) 2 = []"
  "totalPlatformFeesCollected stateA2 = 1309523809523809522"
  "totalLockedPlatformFees stateA2 = 1309523809523809522"
  "roles stateA2 MARKET_VALIDATOR_ROLE deployer" "roles stateA2 QUESTION_RESOLVE_ROLE deployer"
  "resolved (markets stateA2 0) = False" "invalidated (markets stateA2 0) = False"
  "platformFeesCollected (markets stateA2 0) = 1309523809523809522"
  by (simp_all add: stateA2_def stateA1_facts addr_distinct)

lemma run_C1: "exec (at_time deployer 2100) stateA2 createB = Inr stateC1"
  by (simp add: runC_defs stateA2_facts addr_distinct eval_defs numeral_3_eq_3 [symmetric]
        numeral_2_eq_2 [symmetric])

lemma stateC1_facts:
  "paused stateC1 = False" "marketCount stateC1 = 2"
  "this stateC1 = engine" "platformFeeRate stateC1 = 25" "globalTradeCount stateC1 = 1"
  "balances stateC1 token0 engine = 1900 * 10 ^ 18 + 53690476190476190422"
  "allowances stateC1 token0 trader engine = 10 ^ 24 - 53690476190476190422"
  "balances stateC1 token0 trader = 10 ^ 24 - 53690476190476190422"
  "userShares stateC1 trader (Suc 0) 2 = 0" "userCostBasis stateC1 trader (Suc 0) 2 = 0"
  "totalInvested (userPortfolios stateC1 trader) = 52380952380952380900"
  "tradeCount (userPortfolios stateC1 trader) = 1"
  "priceHistory stateC1 (Suc 0) 2 = []"
  "totalPlatformFeesCollected stateC1 = 1309523809523809522"
  "totalLockedPlatformFees stateC1 = 1309523809523809522"
  "roles stateC1 MARKET_VALIDATOR_ROLE deployer" "roles stateC1 QUESTION_RESOLVE_ROLE deployer"
  "resolved (markets stateC1 0) = False" "invalidated (markets stateC1 0) = False"
  "platformFeesCollected (markets stateC1 0) = 1309523809523809522"
  "endTime (markets stateC1 (Suc 0)) = 88500" "optionCount (markets stateC1 (Suc 0)) = 3"
  "resolved (markets stateC1 (Suc 0)) = False" "invalidated (markets stateC1 (Suc 0)) = False"
  "disputed (markets stateC1 (Suc 0)) = False"
  "bettingToken (markets stateC1 (Suc 0)) = token0"
  "platformFeesCollected (markets stateC1 (Suc 0)) = 0"
  "totalVolume (markets stateC1 (Suc 0)) = 0" "userLiquidity (markets stateC1 (Suc 0)) = 0"
  "totalShares (options stateC1 (Suc 0) 0) = 300 * 10 ^ 18"
  "totalShares (options stateC1 (Suc 0) (Suc 0)) = 300 * 10 ^ 18"
  "totalShares (options stateC1 (Suc 0) 2) = 300 * 10 ^ 18"
  "totalVolume_o (options stateC1 (Suc 0) 2) = 0"
  "isActive (options stateC1 (Suc 0) 2)"
  by (simp_all add: stateC1_def stateA2_facts addr_distinct)

lemma run_C2: "exec (at_time trader 2200) stateC1 buyC = Inr stateC2"
  by (simp add: stateC2_def buyC_def at_time_def stateC1_facts addr_distinct eval_defs upt_3
        numeral_2_eq_2 [symmetric])

lemma stateC2_facts:
  "marketCount stateC2 = 2"
  "totalPlatformFeesCollected stateC2 = 4523809523809523804"
  "totalLockedPlatformFees stateC2 = 4523809523809523804"
  "roles stateC2 MARKET_VALIDATOR_ROLE deployer" "roles stateC2 QUESTION_RESOLVE_ROLE deployer"
  "resolved (markets stateC2 0) = False" "invalidated (markets stateC2 0) = False"
  "platformFeesCollected (markets stateC2 0) = 1309523809523809522"
  "endTime (markets stateC2 (Suc 0)) = 88500" "optionCount (markets stateC2 (Suc 0)) = 3"
  "resolved (markets stateC2 (Suc 0)) = False" "invalidated (markets stateC2 (Suc 0)) = False"
  "disputed (markets stateC2 (Suc 0)) = False"
  "platformFeesCollected (markets stateC2 (Suc 0)) = 3214285714285714282"
  by (simp_all add: stateC2_def stateC1_facts)

lemma run_C3: "exec (at_time deployer 2300) stateC2 (InvalidateMarket 0) = Inr stateC3"
  by (simp add: stateC3_def at_time_def stateC2_facts invalidateMarket_def modifier_defs
        sub256_def)

lemma stateC3_facts:
  "marketCount stateC3 = 2"
  "totalPlatformFeesCollected stateC3 = 3214285714285714282"
  "totalLockedPlatformFees stateC3 = 3214285714285714282"
  "roles stateC3 MARKET_VALIDATOR_ROLE deployer" "roles stateC3 QUESTION_RESOLVE_ROLE deployer"
  "resolved (markets stateC3 0) = False" "invalidated (markets stateC3 0) = True"
  "platformFeesCollected (markets stateC3 0) = 1309523809523809522"
  "endTime (markets stateC3 (Suc 0)) = 88500" "optionCount (markets stateC3 (Suc 0)) = 3"
  "resolved (markets stateC3 (Suc 0)) = False" "invalidated (markets stateC3 (Suc 0)) = False"
  "disputed (markets stateC3 (Suc 0)) = False"
  "platformFeesCollected (markets stateC3 (Suc 0)) = 3214285714285714282"
  by (simp_all add: stateC3_def stateC2_facts)

lemma run_C4: "exec (at_time deployer 2400) stateC3 (InvalidateMarket 0) = Inr stateC4"
  by (simp add: stateC4_def stateC3_def at_time_def stateC3_facts stateC2_facts
      invalidateMarket_def modifier_defs sub256_def)

lemma stateC4_facts:
  "marketCount stateC4 = 2"
  "totalPlatformFeesCollected stateC4 = 1904761904761904760"
  "totalLockedPlatformFees stateC4 = 1904761904761904760"
  "roles stateC4 MARKET_VALIDATOR_ROLE deployer" "roles stateC4 QUESTION_RESOLVE_ROLE deployer"
  "endTime (markets stateC4 (Suc 0)) = 88500" "optionCount (markets stateC4 (Suc 0)) = 3"
  "resolved (markets stateC4 (Suc 0)) = False" "invalidated (markets stateC4 (Suc 0)) = False"
  "disputed (markets stateC4 (Suc 0)) = False"
  "platformFeesCollected (markets stateC4 (Suc 0)) = 3214285714285714282"
  by (simp_all add: stateC4_def stateC3_facts)

lemma reachable_C1: "reachable stateC1"
  by (rule reach_step [OF reachable_A2 step_call [OF run_C1]])

lemma reachable_C2: "reachable stateC2"
  by (rule reach_step [OF reachable_C1 step_call [OF run_C2]])

lemma reachable_C3: "reachable stateC3"
  by (rule reach_step [OF reachable_C2 step_call [OF run_C3]])

lemma reachable_C4: "reachable stateC4"
  by (rule reach_step [OF reachable_C3 step_call [OF run_C4]])

subsection \<open>Facts for the sell of a position\<close>

lemma int256_of_small: "x < 2 ^ 255 \<Longrightarrow> int256_of x = int x"
  by (simp add: int256_of_def)

lemma calculateSellProceeds_small:
  assumes "calculateSellProceeds s mid oid q = Inr c"
  shows "c < 2 ^ 255"
proof -
  from assms obtain x where x: "x \<le> MAX_UINT256" "c = x div 10 ^ 18"
    by (auto simp: calculateSellProceeds_def res_iffs Let_def split: if_splits)
  have "x div 10 ^ 18 \<le> MAX_UINT256 div 10 ^ 18"
    using x(1) by (rule div_le_mono)
  also have "\<dots> < 2 ^ 255" by (simp add: MAX_UINT256_def)
  finally show ?thesis using x(2) by simp
qed

lemma reduction_small:
  fixes c q sh :: nat
  assumes "c \<le> sh" "0 < q" "q \<le> sh" "c * q \<le> MAX_UINT256"
  shows "c * q div sh < 2 ^ 255"
proof (cases "q = 1")
  case True
  have "c div sh \<le> sh div sh" using assms(1) by (rule div_le_mono)
  also have "\<dots> \<le> 1" by (cases "sh = 0") simp_all
  finally show ?thesis using True by simp
next
  case False
  with assms(2) have "2 \<le> q" by simp
  then have "c * 2 \<le> c * q" by (rule mult_le_mono2)
  then have "c * 2 \<le> MAX_UINT256" using assms(4) by (rule le_trans)
  then have c: "c < 2 ^ 255" by (simp add: MAX_UINT256_def)
  have "sh \<noteq> 0" using assms by simp
  have "c * q div sh \<le> c * sh div sh"
    using assms(3) by (intro div_le_mono mult_le_mono2)
  also have "\<dots> = c" using \<open>sh \<noteq> 0\<close> by simp
  finally show ?thesis using c by simp
qed

lemma stateA1_market:
  "endTime (markets stateA1 0) = 87400" "optionCount (markets stateA1 0) = 2"
  "bettingToken (markets stateA1 0) = token0" "disputed (markets stateA1 0) = False"
  "totalShares (options stateA1 0 0) = 500 * 10 ^ 18"
  "totalShares (options stateA1 0 (Suc 0)) = 500 * 10 ^ 18"
  "isActive (options stateA1 0 0)" "isActive (options stateA1 0 (Suc 0))"
  "currentPrice (options stateA1 0 0) = 5 * 10 ^ 17"
  "currentPrice (options stateA1 0 (Suc 0)) = 5 * 10 ^ 17"
  "realizedPnL (userPortfolios stateA1 trader) = 0"
  "userShares stateA1 trader 0 (Suc 0) = 0"
  "adminInitialLiquidity (markets stateA1 0) = 1000 * 10 ^ 18"
  by (simp_all add: run_defs)

lemma stateA2_market:
  "endTime (markets stateA2 0) = 87400" "optionCount (markets stateA2 0) = 2"
  "bettingToken (markets stateA2 0) = token0" "disputed (markets stateA2 0) = False"
  "totalShares (options stateA2 0 0) = 600 * 10 ^ 18"
  "totalShares (options stateA2 0 (Suc 0)) = 500 * 10 ^ 18"
  "isActive (options stateA2 0 0)" "isActive (options stateA2 0 (Suc 0))"
  "currentPrice (options stateA2 0 0) = 545454545454545454"
  "currentPrice (options stateA2 0 (Suc 0)) = 5 * 10 ^ 17"
  "realizedPnL (userPortfolios stateA2 trader) = 0"
  "userShares stateA2 trader 0 0 = 100 * 10 ^ 18"
  "userShares stateA2 trader 0 (Suc 0) = 0"
  "userCostBasis stateA2 trader 0 0 = 52380952380952380900"
  "totalVolume_o (options stateA2 0 0) = 52380952380952380900"
  "totalVolume (markets stateA2 0) = 52380952380952380900"
  "userLiquidity (markets stateA2 0) = 52380952380952380900"
  "adminInitialLiquidity (markets stateA2 0) = 1000 * 10 ^ 18"
  by (simp_all add: stateA2_def stateA1_facts stateA1_market addr_distinct)

lemma sellShares_effect:
  assumes "sellShares e s mid oid q mp mt = Inr s'"
  shows "\<exists>proceeds fee net red.
     calculateSellProceeds s mid oid q = Inr proceeds \<and>
     fee = proceeds * platformFeeRate s div 1000 \<and> fee \<le> proceeds \<and> net = proceeds - fee \<and>
     0 < q \<and> q \<le> userShares s (msg_sender e) mid oid \<and>
     userCostBasis s (msg_sender e) mid oid * q \<le> MAX_UINT256 \<and>
     red = userCostBasis s (msg_sender e) mid oid * q div userShares s (msg_sender e) mid oid \<and>
     red \<le> userCostBasis s (msg_sender e) mid oid \<and>
     net \<le> balances s (bettingToken (markets s mid)) (this s) \<and>
     userCostBasis s' (msg_sender e) mid oid = userCostBasis s (msg_sender e) mid oid - red \<and>
     userShares s' (msg_sender e) mid oid = userShares s (msg_sender e) mid oid - q \<and>
     realizedPnL (userPortfolios s' (msg_sender e)) =
       realizedPnL (userPortfolios s (msg_sender e)) + (int256_of net - int256_of red) \<and>
     balances s' = ledger_move (balances s) (bettingToken (markets s mid)) (this s)
                     (msg_sender e) net"
  using sellShares_Inr [OF assms]
  apply (elim exE conjE)
  subgoal for proceeds fee net red p
    apply (rule exI [of _ proceeds], rule exI [of _ fee], rule exI [of _ net],
        rule exI [of _ red])
    apply (simp (no_asm_simp))
    done
  done

subsection \<open>Facts about run B\<close>

lemma stateB1_facts:
  "marketCount stateB1 = 1" "resolved (markets stateB1 0) = False"
  "optionCount (markets stateB1 0) = 3"
  "userShares stateB1 trader 0 0 = 0" "userShares stateB1 trader 0 (Suc 0) = 0"
  by (simp_all add: run_defs)

lemma stateB2_facts:
  "marketCount stateB2 = 1" "resolved (markets stateB2 0) = False"
  "optionCount (markets stateB2 0) = 3"
  "userShares stateB2 trader 0 0 = 0" "userShares stateB2 trader 0 (Suc 0) = 0"
  "userShares stateB2 trader 0 2 = 30 * 10 ^ 18"
  by (simp_all add: stateB2_def stateB1_facts)

subsection \<open>The flow of tokens through a trade\<close>







subsection \<open>The flag earlyResolutionAllowed is never read\<close>

lemma map_sum_bindE: "map_sum id g (bindE m f) = bindE m (\<lambda>x. map_sum id g (f x))"
  by (cases m) simp_all

lemma bindE_map_sum: "bindE (map_sum id g m) f = bindE m (\<lambda>x. f (g x))"
  by (cases m) simp_all

lemma bindE_cong_eq: "(\<And>x. f x = g x) \<Longrightarrow> bindE m f = bindE m g"
  by (cases m) simp_all

lemma setEarly_fields:
  "bettingToken_g (setEarly m b s) = bettingToken_g s" "previousBettingToken (setEarly m b s) = previousBettingToken s"
  "feeCollector (setEarly m b s) = feeCollector s" "freeClaimHandler (setEarly m b s) = freeClaimHandler s"
  "marketCount (setEarly m b s) = marketCount s" "platformFeeRate (setEarly m b s) = platformFeeRate s"
  "globalTradeCount (setEarly m b s) = globalTradeCount s" "totalPlatformFeesCollected (setEarly m b s) = totalPlatformFeesCollected s"
  "totalLockedPlatformFees (setEarly m b s) = totalLockedPlatformFees s" "totalUnlockedPlatformFees (setEarly m b s) = totalUnlockedPlatformFees s"
  "totalWithdrawnPlatformFees (setEarly m b s) = totalWithdrawnPlatformFees s" "whitelistedTokens (setEarly m b s) = whitelistedTokens s"
  "whitelistedTokenList (setEarly m b s) = whitelistedTokenList s" "options (setEarly m b s) = options s"
  "freeMarketConfigs (setEarly m b s) = freeMarketConfigs s" "userShares (setEarly m b s) = userShares s"
  "userCostBasis (setEarly m b s) = userCostBasis s" "hasClaimedWinnings (setEarly m b s) = hasClaimedWinnings s"
  "hasClaimedFreeTokens (setEarly m b s) = hasClaimedFreeTokens s" "userPortfolios (setEarly m b s) = userPortfolios s"
  "userTradeHistory (setEarly m b s) = userTradeHistory s" "priceHistory (setEarly m b s) = priceHistory s"
  "categoryMarkets (setEarly m b s) = categoryMarkets s" "marketsByType (setEarly m b s) = marketsByType s"
  "owner (setEarly m b s) = owner s" "paused (setEarly m b s) = paused s"
  "roles (setEarly m b s) = roles s" "this (setEarly m b s) = this s"
  "balances (setEarly m b s) = balances s" "allowances (setEarly m b s) = allowances s"
  by (simp_all add: setEarly_def)

lemma setEarly_market_fields:
  "question (markets (setEarly m b s) k) = question (markets s k)"
  "description (markets (setEarly m b s) k) = description (markets s k)"
  "endTime (markets (setEarly m b s) k) = endTime (markets s k)"
  "createdAt (markets (setEarly m b s) k) = createdAt (markets s k)"
  "category (markets (setEarly m b s) k) = category (markets s k)"
  "marketType (markets (setEarly m b s) k) = marketType (markets s k)"
  "creator (markets (setEarly m b s) k) = creator (markets s k)"
  "resolved (markets (setEarly m b s) k) = resolved (markets s k)"
  "invalidated (markets (setEarly m b s) k) = invalidated (markets s k)"
  "disputed (markets (setEarly m b s) k) = disputed (markets s k)"
  "validated (markets (setEarly m b s) k) = validated (markets s k)"
  "winningOptionId (markets (setEarly m b s) k) = winningOptionId (markets s k)"
  "optionCount (markets (setEarly m b s) k) = optionCount (markets s k)"
  "totalVolume (markets (setEarly m b s) k) = totalVolume (markets s k)"
  "lmsrB (markets (setEarly m b s) k) = lmsrB (markets s k)"
  "adminInitialLiquidity (markets (setEarly m b s) k) = adminInitialLiquidity (markets s k)"
  "userLiquidity (markets (setEarly m b s) k) = userLiquidity (markets s k)"
  "platformFeesCollected (markets (setEarly m b s) k) = platformFeesCollected (markets s k)"
  "adminLiquidityClaimed (markets (setEarly m b s) k) = adminLiquidityClaimed (markets s k)"
  "bettingToken (markets (setEarly m b s) k) = bettingToken (markets s k)"
  by (simp_all add: setEarly_def)

lemma setEarly_update:
  "bettingToken_g_update g1 (setEarly m b s) = setEarly m b (bettingToken_g_update g1 s)"
  "previousBettingToken_update g2 (setEarly m b s) = setEarly m b (previousBettingToken_update g2 s)"
  "feeCollector_update g3 (setEarly m b s) = setEarly m b (feeCollector_update g3 s)"
  "freeClaimHandler_update g4 (setEarly m b s) = setEarly m b (freeClaimHandler_update g4 s)"
  "marketCount_update g5 (setEarly m b s) = setEarly m b (marketCount_update g5 s)"
  "platformFeeRate_update g6 (setEarly m b s) = setEarly m b (platformFeeRate_update g6 s)"
  "globalTradeCount_update g7 (setEarly m b s) = setEarly m b (globalTradeCount_update g7 s)"
  "totalPlatformFeesCollected_update g8 (setEarly m b s) = setEarly m b (totalPlatformFeesCollected_update g8 s)"
  "totalLockedPlatformFees_update g9 (setEarly m b s) = setEarly m b (totalLockedPlatformFees_update g9 s)"
  "totalUnlockedPlatformFees_update g10 (setEarly m b s) = setEarly m b (totalUnlockedPlatformFees_update g10 s)"
  "totalWithdrawnPlatformFees_update g11 (setEarly m b s) = setEarly m b (totalWithdrawnPlatformFees_update g11 s)"
  "whitelistedTokens_update g12 (setEarly m b s) = setEarly m b (whitelistedTokens_update g12 s)"
  "whitelistedTokenList_update g13 (setEarly m b s) = setEarly m b (whitelistedTokenList_update g13 s)"
  "options_update g14 (setEarly m b s) = setEarly m b (options_update g14 s)"
  "freeMarketConfigs_update g15 (setEarly m b s) = setEarly m b (freeMarketConfigs_update g15 s)"
  "userShares_update g16 (setEarly m b s) = setEarly m b (userShares_update g16 s)"
  "userCostBasis_update g17 (setEarly m b s) = setEarly m b (userCostBasis_update g17 s)"
  "hasClaimedWinnings_update g18 (setEarly m b s) = setEarly m b (hasClaimedWinnings_update g18 s)"
  "hasClaimedFreeTokens_update g19 (setEarly m b s) = setEarly m b (hasClaimedFreeTokens_update g19 s)"
  "userPortfolios_update g20 (setEarly m b s) = setEarly m b (userPortfolios_update g20 s)"
  "userTradeHistory_update g21 (setEarly m b s) = setEarly m b (userTradeHistory_update g21 s)"
  "priceHistory_update g22 (setEarly m b s) = setEarly m b (priceHistory_update g22 s)"
  "categoryMarkets_update g23 (setEarly m b s) = setEarly m b (categoryMarkets_update g23 s)"
  "marketsByType_update g24 (setEarly m b s) = setEarly m b (marketsByType_update g24 s)"
  "owner_update g25 (setEarly m b s) = setEarly m b (owner_update g25 s)"
  "paused_update g26 (setEarly m b s) = setEarly m b (paused_update g26 s)"
  "roles_update g27 (setEarly m b s) = setEarly m b (roles_update g27 s)"
  "this_update g28 (setEarly m b s) = setEarly m b (this_update g28 s)"
  "balances_update g29 (setEarly m b s) = setEarly m b (balances_update g29 s)"
  "allowances_update g30 (setEarly m b s) = setEarly m b (allowances_update g30 s)"
  by (simp_all add: setEarly_def)

lemma setEarly_flag: "earlyResolutionAllowed (markets (setEarly m b s) m) = b"
  by (simp add: setEarly_def)

lemma map_sum_if:
  "map_sum f g (if c then x else y) = (if c then map_sum f g x else map_sum f g y)"
  by simp

lemma setEarly_markets_update:
  assumes "\<And>M. h (M\<lparr>earlyResolutionAllowed := b\<rparr>) = (h M)\<lparr>earlyResolutionAllowed := b\<rparr>"
  shows "(setEarly m b s')\<lparr>markets := (markets (setEarly m b s0))
             (k := h (markets (setEarly m b s0) k))\<rparr>
         = setEarly m b (s'\<lparr>markets := (markets s0)(k := h (markets s0 k))\<rparr>)"
proof (cases "k = m")
  case True
  then show ?thesis by (simp add: setEarly_def assms)
next
  case False
  then show ?thesis by (simp add: setEarly_def fun_upd_twist)
qed

lemma setEarly_markets_new:
  assumes "j \<noteq> m"
  shows "(setEarly m b s')\<lparr>markets := (markets (setEarly m b s0))(j := M)\<rparr>
         = setEarly m b (s'\<lparr>markets := (markets s0)(j := M)\<rparr>)"
  using assms by (simp add: setEarly_def fun_upd_twist)

lemma setEarly_markets_resolved:
  "(setEarly m b s')\<lparr>markets := (markets (setEarly m b s0))
      (k := (markets (setEarly m b s0) k)\<lparr>resolved := r, winningOptionId := w\<rparr>)\<rparr>
   = setEarly m b (s'\<lparr>markets := (markets s0)(k := (markets s0 k)\<lparr>resolved := r, winningOptionId := w\<rparr>)\<rparr>)"
  by (rule setEarly_markets_update [where h = "\<lambda>M. M\<lparr>resolved := r, winningOptionId := w\<rparr>"])
     (rule Market.equality; simp)

lemma setEarly_markets_invalidated:
  "(setEarly m b s')\<lparr>markets := (markets (setEarly m b s0))
      (k := (markets (setEarly m b s0) k)\<lparr>invalidated := r\<rparr>)\<rparr>
   = setEarly m b (s'\<lparr>markets := (markets s0)(k := (markets s0 k)\<lparr>invalidated := r\<rparr>)\<rparr>)"
  by (rule setEarly_markets_update [where h = "\<lambda>M. M\<lparr>invalidated := r\<rparr>"])
     (rule Market.equality; simp)

lemma setEarly_markets_validated:
  "(setEarly m b s')\<lparr>markets := (markets (setEarly m b s0))
      (k := (markets (setEarly m b s0) k)\<lparr>validated := r\<rparr>)\<rparr>
   = setEarly m b (s'\<lparr>markets := (markets s0)(k := (markets s0 k)\<lparr>validated := r\<rparr>)\<rparr>)"
  by (rule setEarly_markets_update [where h = "\<lambda>M. M\<lparr>validated := r\<rparr>"])
     (rule Market.equality; simp)

lemma setEarly_markets_disputed:
  "(setEarly m b s')\<lparr>markets := (markets (setEarly m b s0))
      (k := (markets (setEarly m b s0) k)\<lparr>disputed := r\<rparr>)\<rparr>
   = setEarly m b (s'\<lparr>markets := (markets s0)(k := (markets s0 k)\<lparr>disputed := r\<rparr>)\<rparr>)"
  by (rule setEarly_markets_update [where h = "\<lambda>M. M\<lparr>disputed := r\<rparr>"])
     (rule Market.equality; simp)

lemma setEarly_markets_claimed:
  "(setEarly m b s')\<lparr>markets := (markets (setEarly m b s0))
      (k := (markets (setEarly m b s0) k)\<lparr>adminLiquidityClaimed := r\<rparr>)\<rparr>
   = setEarly m b (s'\<lparr>markets := (markets s0)(k := (markets s0 k)\<lparr>adminLiquidityClaimed := r\<rparr>)\<rparr>)"
  by (rule setEarly_markets_update [where h = "\<lambda>M. M\<lparr>adminLiquidityClaimed := r\<rparr>"])
     (rule Market.equality; simp)

lemma setEarly_markets_buy:
  "(setEarly m b s')\<lparr>markets := (markets (setEarly m b s0))
      (k := (markets (setEarly m b s0) k)\<lparr>totalVolume := v, platformFeesCollected := f, userLiquidity := l\<rparr>)\<rparr>
   = setEarly m b (s'\<lparr>markets := (markets s0)(k := (markets s0 k)\<lparr>totalVolume := v, platformFeesCollected := f, userLiquidity := l\<rparr>)\<rparr>)"
  by (rule setEarly_markets_update [where h = "\<lambda>M. M\<lparr>totalVolume := v, platformFeesCollected := f, userLiquidity := l\<rparr>"])
     (rule Market.equality; simp)

lemma setEarly_markets_sell:
  "(setEarly m b s')\<lparr>markets := (markets (setEarly m b s0))
      (k := (markets (setEarly m b s0) k)\<lparr>totalVolume := v, platformFeesCollected := f\<rparr>)\<rparr>
   = setEarly m b (s'\<lparr>markets := (markets s0)(k := (markets s0 k)\<lparr>totalVolume := v, platformFeesCollected := f\<rparr>)\<rparr>)"
  by (rule setEarly_markets_update [where h = "\<lambda>M. M\<lparr>totalVolume := v, platformFeesCollected := f\<rparr>"])
     (rule Market.equality; simp)

lemmas setEarly_markets_updates = setEarly_markets_resolved setEarly_markets_invalidated setEarly_markets_validated setEarly_markets_disputed setEarly_markets_claimed setEarly_markets_buy setEarly_markets_sell

lemmas setEarly_simps = map_sum_bindE bindE_map_sum map_sum_if setEarly_fields
  setEarly_market_fields setEarly_update setEarly_markets_updates Let_def modifier_defs

lemma erc20_transfer_setEarly:
  "erc20_transfer (setEarly m b s) token from to amount
     = map_sum id (setEarly m b) (erc20_transfer s token from to amount)"
  by (simp add: erc20_transfer_def setEarly_simps split del: if_split cong del: if_weak_cong)

lemma erc20_transferFrom_setEarly:
  "erc20_transferFrom (setEarly m b s) token spender from to amount
     = map_sum id (setEarly m b) (erc20_transferFrom s token spender from to amount)"
  by (simp add: erc20_transferFrom_def erc20_transfer_setEarly setEarly_simps
      split del: if_split cong del: if_weak_cong)

lemma calculatePrice_setEarly:
  "calculatePrice (setEarly m b s) k oid sh = calculatePrice s k oid sh"
  by (rule calculatePrice_frame) (simp_all add: setEarly_fields setEarly_market_fields)

lemma calculateBuyCost_setEarly:
  "calculateBuyCost (setEarly m b s) k oid q = calculateBuyCost s k oid q"
  by (simp add: calculateBuyCost_def calculatePrice_setEarly setEarly_simps split del: if_split cong del: if_weak_cong)

lemma calculateSellProceeds_setEarly:
  "calculateSellProceeds (setEarly m b s) k oid q = calculateSellProceeds s k oid q"
  by (simp add: calculateSellProceeds_def calculatePrice_setEarly setEarly_simps
      split del: if_split cong del: if_weak_cong)

lemma updatePrice_setEarly:
  "updatePrice (setEarly m b s) k oid = map_sum id (setEarly m b) (updatePrice s k oid)"
  by (simp add: updatePrice_def calculatePrice_setEarly setEarly_simps split del: if_split cong del: if_weak_cong)

lemma setupFreeMarket_setEarly:
  "setupFreeMarket (setEarly m b s) k mt fp = map_sum id (setEarly m b) (setupFreeMarket s k mt fp)"
  by (simp add: setupFreeMarket_def setEarly_simps split del: if_split cong del: if_weak_cong)

lemma buy_updateState_setEarly:
  "buy_updateState (setEarly m b s) u k oid q c f
     = map_sum id (setEarly m b) (buy_updateState s u k oid q c f)"
  by (simp add: buy_updateState_def setEarly_simps split del: if_split cong del: if_weak_cong)

lemma sell_updateState_setEarly:
  "sell_updateState (setEarly m b s) u k oid q p f n
     = map_sum id (setEarly m b) (sell_updateState s u k oid q p f n)"
  by (simp add: sell_updateState_def setEarly_simps split del: if_split cong del: if_weak_cong)

lemma recordTrade_setEarly:
  "recordTrade (setEarly m b s) u tr = map_sum id (setEarly m b) (recordTrade s u tr)"
  by (simp add: recordTrade_def setEarly_simps split del: if_split cong del: if_weak_cong)

lemma recordPricePoint_setEarly:
  "recordPricePoint e (setEarly m b s) k oid v = setEarly m b (recordPricePoint e s k oid v)"
  by (simp add: recordPricePoint_def setEarly_simps split del: if_split cong del: if_weak_cong)

lemma trackFees_setEarly:
  "trackFees (setEarly m b s) f = map_sum id (setEarly m b) (trackFees s f)"
  by (simp add: trackFees_def setEarly_simps split del: if_split cong del: if_weak_cong)

lemmas setEarly_phases = erc20_transfer_setEarly erc20_transferFrom_setEarly
  calculatePrice_setEarly calculateBuyCost_setEarly calculateSellProceeds_setEarly
  updatePrice_setEarly setupFreeMarket_setEarly buy_updateState_setEarly
  sell_updateState_setEarly recordTrade_setEarly recordPricePoint_setEarly trackFees_setEarly

lemma buyShares_setEarly:
  "buyShares e (setEarly m b s) k oid q mp mc
     = map_sum id (setEarly m b) (buyShares e s k oid q mp mc)"
  by (simp add: buyShares_def setEarly_phases setEarly_simps split del: if_split cong del: if_weak_cong)

lemma sellShares_setEarly:
  "sellShares e (setEarly m b s) k oid q mp mt
     = map_sum id (setEarly m b) (sellShares e s k oid q mp mt)"
  by (simp add: sellShares_def setEarly_phases setEarly_simps split del: if_split cong del: if_weak_cong)

lemma createMarket_internal_setEarly:
  assumes "m < marketCount s"
  shows "createMarket_internal e (setEarly m b s) qt dt ns ds dur cat mt liq early fp token
     = map_sum id (map_prod id (setEarly m b))
         (createMarket_internal e s qt dt ns ds dur cat mt liq early fp token)"
proof -
  have n: "marketCount s \<noteq> m" using assms by simp
  show ?thesis
    by (simp add: createMarket_internal_def setEarly_phases setEarly_simps
        setEarly_markets_new [OF n] split del: if_split cong del: if_weak_cong)
qed

lemma createMarketWithToken_setEarly:
  assumes "m < marketCount s"
  shows "createMarketWithToken e (setEarly m b s) qt dt ns ds dur cat mt liq early fp token
     = map_sum id (map_prod id (setEarly m b))
         (createMarketWithToken e s qt dt ns ds dur cat mt liq early fp token)"
  by (simp add: createMarketWithToken_def createMarket_internal_setEarly [OF assms]
      setEarly_simps split del: if_split cong del: if_weak_cong)

lemma resolveMarket_setEarly:
  "resolveMarket e (setEarly m b s) k w = map_sum id (setEarly m b) (resolveMarket e s k w)"
  by (simp add: resolveMarket_def setEarly_simps split del: if_split cong del: if_weak_cong)

lemma invalidateMarket_setEarly:
  "invalidateMarket e (setEarly m b s) k = map_sum id (setEarly m b) (invalidateMarket e s k)"
  by (simp add: invalidateMarket_def setEarly_simps split del: if_split cong del: if_weak_cong)

lemma validateMarket_setEarly:
  "validateMarket e (setEarly m b s) k = map_sum id (setEarly m b) (validateMarket e s k)"
  by (simp add: validateMarket_def setEarly_simps split del: if_split cong del: if_weak_cong)

lemma disputeMarket_setEarly:
  "disputeMarket e (setEarly m b s) k r = map_sum id (setEarly m b) (disputeMarket e s k r)"
  by (simp add: disputeMarket_def setEarly_simps split del: if_split cong del: if_weak_cong)

lemma claimWinnings_setEarly:
  "claimWinnings e (setEarly m b s) k = map_sum id (setEarly m b) (claimWinnings e s k)"
proof -
  have l: "claimWinnings_latched (setEarly m b s) u k p
      = map_sum id (setEarly m b) (claimWinnings_latched s u k p)" for s u p
    by (simp add: claimWinnings_latched_def setEarly_simps split del: if_split cong del: if_weak_cong)
  show ?thesis
    by (simp add: claimWinnings_def claimWinnings_payout_def l setEarly_phases setEarly_simps
        split del: if_split cong del: if_weak_cong)
qed

lemma claimFreeTokens_setEarly:
  "claimFreeTokens e (setEarly m b s) k oid
     = map_sum id (setEarly m b) (claimFreeTokens e s k oid)"
  by (simp add: claimFreeTokens_def setEarly_simps split del: if_split cong del: if_weak_cong)

lemma withdrawAdminLiquidity_setEarly:
  "withdrawAdminLiquidity e (setEarly m b s) k
     = map_sum id (setEarly m b) (withdrawAdminLiquidity e s k)"
  by (simp add: withdrawAdminLiquidity_def setEarly_phases setEarly_simps split del: if_split cong del: if_weak_cong)

lemma admin_setEarly:
  "withdrawPlatformFees e (setEarly m b s) = map_sum id (setEarly m b) (withdrawPlatformFees e s)"
  "withdrawPlatformFeesForToken e (setEarly m b s) token amount
     = map_sum id (setEarly m b) (withdrawPlatformFeesForToken e s token amount)"
  "emergencyWithdraw e (setEarly m b s) amount
     = map_sum id (setEarly m b) (emergencyWithdraw e s amount)"
  "emergencyWithdrawToken e (setEarly m b s) token amount
     = map_sum id (setEarly m b) (emergencyWithdrawToken e s token amount)"
  "setPlatformFeeRate e (setEarly m b s) r = map_sum id (setEarly m b) (setPlatformFeeRate e s r)"
  "setFeeCollector e (setEarly m b s) c = map_sum id (setEarly m b) (setFeeCollector e s c)"
  "setFreeClaimHandler e (setEarly m b s) h
     = map_sum id (setEarly m b) (setFreeClaimHandler e s h)"
  "addWhitelistedToken e (setEarly m b s) token
     = map_sum id (setEarly m b) (addWhitelistedToken e s token)"
  "removeWhitelistedToken e (setEarly m b s) token
     = map_sum id (setEarly m b) (removeWhitelistedToken e s token)"
  "pause e (setEarly m b s) = map_sum id (setEarly m b) (pause e s)"
  "unpause e (setEarly m b s) = map_sum id (setEarly m b) (unpause e s)"
  "grantQuestionCreatorRole e (setEarly m b s) a
     = map_sum id (setEarly m b) (grantQuestionCreatorRole e s a)"
  "grantQuestionResolveRole e (setEarly m b s) a
     = map_sum id (setEarly m b) (grantQuestionResolveRole e s a)"
  "grantMarketValidatorRole e (setEarly m b s) a
     = map_sum id (setEarly m b) (grantMarketValidatorRole e s a)"
  by (simp_all add: withdrawPlatformFees_def withdrawPlatformFeesForToken_def
      emergencyWithdraw_def emergencyWithdrawToken_def setPlatformFeeRate_def
      setFeeCollector_def setFreeClaimHandler_def addWhitelistedToken_def
      removeWhitelistedToken_def pause_def unpause_def grantRole_def
      grantQuestionCreatorRole_def grantQuestionResolveRole_def grantMarketValidatorRole_def
      feeReceiver_def setEarly_phases setEarly_simps split del: if_split cong del: if_weak_cong)

lemma exec_setEarly:
  assumes "m < marketCount s"
  shows "exec e (setEarly m b s) c = map_sum id (setEarly m b) (exec e s c)"
  by (cases c)
     (simp_all add: createMarketWithToken_setEarly [OF assms] buyShares_setEarly
       sellShares_setEarly resolveMarket_setEarly invalidateMarket_setEarly
       validateMarket_setEarly disputeMarket_setEarly claimWinnings_setEarly
       claimFreeTokens_setEarly withdrawAdminLiquidity_setEarly admin_setEarly
       map_sum_bindE bindE_map_sum)

lemma createMarketWithToken_stores_flag:
  assumes "createMarketWithToken e s qt dt ns ds dur cat mt liq early fp token = Inr (k, s')"
  shows "earlyResolutionAllowed (markets s' k) = early"
proof -
  from createMarketWithToken_Inr [OF assms]
  have "createMarket_internal e s qt dt ns ds dur cat mt liq early fp token = Inr (k, s')"
    by simp
  from createMarket_internal_Inr [OF this] show ?thesis
    by (elim exE conjE) simp
qed

section \<open>Claims\<close>

text \<open>
  C8. A trade of quantity zero is rejected, by the guard of \<^verbatim>\<open>buyShares\<close> and
  \<^verbatim>\<open>sellShares\<close> through which alone the pricing functions are reached (with the
  message \<^verbatim>\<open>Quantity must be > 0\<close> when the market is open for trading); quantities are
  unsigned, so none is negative. For an option of the market, every price that
  \<^verbatim>\<open>_calculatePrice\<close> returns, at any hypothetical share count, is at most
  \<open>10^18\<close>; the cost of a buy and the proceeds of a sell lie between \<open>0\<close> and the
  quantity; and the price stored by a successful buy or sell is at most \<open>10^18\<close>.
\<close>

theorem pricing_rejects_zero_and_bounds:
  "(\<exists>err. buyShares e s mid oid 0 mp mc = Inl err) \<and>
   (\<exists>err. sellShares e s mid oid 0 mp mc = Inl err) \<and>
   (\<not> paused s \<and> mid < marketCount s \<and> block_timestamp e < endTime (markets s mid) \<and>
    \<not> resolved (markets s mid) \<and> \<not> invalidated (markets s mid) \<and>
    oid < optionCount (markets s mid) \<longrightarrow>
      buyShares e s mid oid 0 mp mc = Inl (Revert ''Quantity must be > 0'') \<and>
      sellShares e s mid oid 0 mp mc = Inl (Revert ''Quantity must be > 0'')) \<and>
   (oid < optionCount (markets s mid) \<longrightarrow>
      (\<forall>sh p. calculatePrice s mid oid sh = Inr p \<longrightarrow> 0 \<le> p \<and> p \<le> 10 ^ 18) \<and>
      (\<forall>q c. calculateBuyCost s mid oid q = Inr c \<longrightarrow> 0 \<le> c \<and> c \<le> q) \<and>
      (\<forall>q c. calculateSellProceeds s mid oid q = Inr c \<longrightarrow> 0 \<le> c \<and> c \<le> q)) \<and>
   (\<forall>q s'. buyShares e s mid oid q mp mc = Inr s' \<or> sellShares e s mid oid q mp mc = Inr s'
      \<longrightarrow> currentPrice (options s' mid oid) \<le> 10 ^ 18)"
proof -
  have stored: "currentPrice (options s' mid oid) \<le> 10 ^ 18"
    if "buyShares e s mid oid q mp mc = Inr s' \<or> sellShares e s mid oid q mp mc = Inr s'"
    for q s'
    using that
  proof
    assume "buyShares e s mid oid q mp mc = Inr s'"
    from buyShares_Inr [OF this] show ?thesis by auto
  next
    assume "sellShares e s mid oid q mp mc = Inr s'"
    from sellShares_Inr [OF this] show ?thesis by auto
  qed
  have active: "buyShares e s mid oid 0 mp mc = Inl (Revert ''Quantity must be > 0'') \<and>
      sellShares e s mid oid 0 mp mc = Inl (Revert ''Quantity must be > 0'')"
    if "\<not> paused s \<and> mid < marketCount s \<and> block_timestamp e < endTime (markets s mid) \<and>
    \<not> resolved (markets s mid) \<and> \<not> invalidated (markets s mid) \<and>
    oid < optionCount (markets s mid)"
    using that by (simp add: buyShares_def sellShares_def modifier_defs)
  show ?thesis
    using buy_zero [of e s mid oid mp mc] sell_zero [of e s mid oid mp mc] active stored
      calculatePrice_le_one [of s mid oid] calculateBuyCost_le [of s mid oid]
      calculateSellProceeds_le [of s mid oid]
    by blast
qed

theorem pricing_rejects_zero_and_bounds_witness:
  "buyShares (at_time trader 2000) stateA1 0 0 0 (10 ^ 18) (100 * 10 ^ 18)
     = Inl (Revert ''Quantity must be > 0'') \<and>
   calculatePrice stateA1 0 0 (550 * 10 ^ 18) = Inr 523809523809523809 \<and>
   (523809523809523809 :: nat) \<le> 10 ^ 18 \<and>
   calculateBuyCost stateA1 0 0 (100 * 10 ^ 18) = Inr 52380952380952380900 \<and>
   (52380952380952380900 :: nat) \<le> 100 * 10 ^ 18 \<and>
   buyShares (at_time trader 2000) stateA1 0 0 (100 * 10 ^ 18) (10 ^ 18) (100 * 10 ^ 18)
     = Inr stateA2 \<and>
   currentPrice (options stateA2 0 0) \<le> 10 ^ 18"
proof -
  have g: "\<not> paused stateA1 \<and> 0 < marketCount stateA1 \<and>
      block_timestamp (at_time trader 2000) < endTime (markets stateA1 0) \<and>
      \<not> resolved (markets stateA1 0) \<and> \<not> invalidated (markets stateA1 0) \<and>
      0 < optionCount (markets stateA1 0)"
    by (simp add: run_defs)
  have p: "calculatePrice stateA1 0 0 (550 * 10 ^ 18) = Inr 523809523809523809"
    by (simp add: run_defs eval_defs upt_2)
  have c: "calculateBuyCost stateA1 0 0 (100 * 10 ^ 18) = Inr 52380952380952380900"
    by (simp add: run_defs eval_defs upt_2)
  have b: "buyShares (at_time trader 2000) stateA1 0 0 (100 * 10 ^ 18) (10 ^ 18) (100 * 10 ^ 18)
     = Inr stateA2"
    using run_A2 by (simp add: buyA_def)
  have v: "0 < optionCount (markets stateA1 0)"
    using g by simp
  note T = pricing_rejects_zero_and_bounds
             [of "at_time trader 2000" stateA1 0 0 "10 ^ 18" "100 * 10 ^ 18"]
  note T3 = T [THEN conjunct2, THEN conjunct2, THEN conjunct1, THEN mp, OF g]
  note T4 = T [THEN conjunct2, THEN conjunct2, THEN conjunct2, THEN conjunct1, THEN mp, OF v]
  note T5 = T [THEN conjunct2, THEN conjunct2, THEN conjunct2, THEN conjunct2]
  from T4 p have "(523809523809523809 :: nat) \<le> 10 ^ 18" by blast
  moreover from T4 c have "(52380952380952380900 :: nat) \<le> 100 * 10 ^ 18" by blast
  moreover from T5 b have "currentPrice (options stateA2 0 0) \<le> 10 ^ 18" by blast
  ultimately show ?thesis using T3 p c b by blast
qed

text \<open>
  C9. A sell of more shares than the caller holds never succeeds: the transaction
  reverts and the whole storage, token ledger included, is what it was. When the market
  is open for trading (contract not paused, market existing, before its end, neither
  resolved nor invalidated) and the option index is valid, the error is
  \<^verbatim>\<open>Insufficient shares\<close>.
\<close>

theorem sell_excess_reverts:
  assumes "userShares s (msg_sender e) mid oid < q"
  shows "fst (transact e s (SellShares mid oid q mp mt)) = s \<and>
    snd (transact e s (SellShares mid oid q mp mt)) \<noteq> None \<and>
    (\<not> paused s \<and> mid < marketCount s \<and> block_timestamp e < endTime (markets s mid) \<and>
     \<not> resolved (markets s mid) \<and> \<not> invalidated (markets s mid) \<and>
     oid < optionCount (markets s mid) \<longrightarrow>
       transact e s (SellShares mid oid q mp mt) = (s, Some (Revert ''Insufficient shares'')))"
proof -
  from sell_excess_fails [OF assms] obtain err where
    "exec e s (SellShares mid oid q mp mt) = Inl err" by auto
  then have "transact e s (SellShares mid oid q mp mt) = (s, Some err)"
    by (rule transact_Inl)
  moreover have "transact e s (SellShares mid oid q mp mt) = (s, Some (Revert ''Insufficient shares''))"
    if "\<not> paused s \<and> mid < marketCount s \<and> block_timestamp e < endTime (markets s mid) \<and>
     \<not> resolved (markets s mid) \<and> \<not> invalidated (markets s mid) \<and>
     oid < optionCount (markets s mid)"
    using that assms by (intro transact_Inl) (simp add: sell_excess)
  ultimately show ?thesis by simp
qed

theorem sell_excess_reverts_witness:
  "transact (at_time trader 2500) stateA2 (SellShares 0 0 (200 * 10 ^ 18) 0 0)
     = (stateA2, Some (Revert ''Insufficient shares''))"
proof -
  have h: "userShares stateA2 (msg_sender (at_time trader 2500)) 0 0 < 200 * 10 ^ 18"
    by (simp add: run_defs)
  have g: "\<not> paused stateA2 \<and> 0 < marketCount stateA2 \<and>
      block_timestamp (at_time trader 2500) < endTime (markets stateA2 0) \<and>
      \<not> resolved (markets stateA2 0) \<and> \<not> invalidated (markets stateA2 0) \<and>
      0 < optionCount (markets stateA2 0)"
    by (simp add: run_defs)
  from sell_excess_reverts [OF h, of 0 0] g show ?thesis by blast
qed

text \<open>
  C4. In every reachable state no market is both resolved and invalidated, and for an
  existing market each of the two flags is permanent: over any sequence of further steps
  a resolved market stays resolved and never becomes invalidated, and an invalidated
  market stays invalidated and never becomes resolved.
\<close>

theorem lifecycle_exclusive_and_permanent:
  assumes "reachable s" and "step\<^sup>*\<^sup>* s s'" and "mid < marketCount s"
  shows "(\<forall>m. \<not> (resolved (markets s m) \<and> invalidated (markets s m))) \<and>
    (resolved (markets s mid) \<longrightarrow> resolved (markets s' mid) \<and> \<not> invalidated (markets s' mid)) \<and>
    (invalidated (markets s mid) \<longrightarrow> invalidated (markets s' mid) \<and> \<not> resolved (markets s' mid))"
proof -
  have r': "reachable s'" using steps_reachable [OF assms(2,1)] .
  note p = steps_flags_permanent [OF assms(2,3)]
  from reachable_exclusive [OF assms(1)] reachable_exclusive [OF r', of mid] p
  show ?thesis by blast
qed

theorem lifecycle_exclusive_and_permanent_witness:
  "resolved (markets stateA3 0) \<and> \<not> invalidated (markets stateA3 0) \<and>
   \<not> (resolved (markets stateA2 0) \<and> invalidated (markets stateA2 0))"
proof -
  have s: "step\<^sup>*\<^sup>* stateA2 stateA3"
    using step_call [OF run_A3] by blast
  have m: "0 < marketCount stateA2" "0 < marketCount stateA3" by (simp_all add: run_defs)
  have r: "resolved (markets stateA3 0)" by (simp add: run_defs)
  from lifecycle_exclusive_and_permanent [OF reachable_A2 s m(1)]
    lifecycle_exclusive_and_permanent [OF reachable_A3 rtranclp.rtrancl_refl m(2)] r
  show ?thesis by blast
qed

text \<open>
  C2. The partition \<open>collected = locked + unlocked\<close> is an invariant of every reachable state
  (\<open>reachable_feePartition\<close>), but the second half of the claim fails in the code:
  \<^verbatim>\<open>invalidateMarket\<close> carries only the modifiers \<^verbatim>\<open>marketExists\<close> and \<^verbatim>\<open>marketNotResolved\<close>,
  it has no \<^verbatim>\<open>marketNotInvalidated\<close>, and it leaves the market's \<^verbatim>\<open>platformFeesCollected\<close>
  as it was.  A second invalidation of the same market therefore succeeds and subtracts that
  market's fees once more, so that more than the market's contribution leaves the locked and
  collected totals.  The run below continues run A (market 0 holds a fee of
  1309523809523809522): the deployer creates a second market, the trader buys 300 shares of its
  option 2 (fee 3214285714285714282), and the validator invalidates market 0 twice.  Both calls
  succeed; after the second one the totals are 1904761904761904760, less than the fee still
  recorded for the untouched market 1, whose resolution then fails with an arithmetic panic.
  All four states of the run are reachable (\<open>reachable_C1\<close> to \<open>reachable_C4\<close>).
\<close>

theorem invalidateMarket_twice_voids_other_fees:
  "createMarketWithToken (at_time deployer 2100) stateA2 ''Who wins the cup?'' ''Run B''
     [''Red'', ''Green'', ''Blue''] [''Red wins'', ''Green wins'', ''Blue wins''] 86400 SPORTS
     STANDARD (900 * 10 ^ 18) False \<lparr>maxFreeParticipants_p = 0, tokensPerParticipant_p = 0\<rparr>
     token0 = Inr (1, stateC1) \<and>
   buyShares (at_time trader 2200) stateC1 1 2 (300 * 10 ^ 18) (10 ^ 18) (300 * 10 ^ 18)
     = Inr stateC2 \<and>
   platformFeesCollected (markets stateC2 0) = 1309523809523809522 \<and>
   platformFeesCollected (markets stateC2 1) = 3214285714285714282 \<and>
   totalLockedPlatformFees stateC2 = 1309523809523809522 + 3214285714285714282 \<and>
   totalPlatformFeesCollected stateC2 = 1309523809523809522 + 3214285714285714282 \<and>
   invalidateMarket (at_time deployer 2300) stateC2 0 = Inr stateC3 \<and>
   totalLockedPlatformFees stateC3 = 3214285714285714282 \<and>
   totalPlatformFeesCollected stateC3 = 3214285714285714282 \<and>
   invalidated (markets stateC3 0) \<and>
   platformFeesCollected (markets stateC3 0) = 1309523809523809522 \<and>
   invalidateMarket (at_time deployer 2400) stateC3 0 = Inr stateC4 \<and>
   totalLockedPlatformFees stateC4 = 3214285714285714282 - 1309523809523809522 \<and>
   totalPlatformFeesCollected stateC4 = 3214285714285714282 - 1309523809523809522 \<and>
   platformFeesCollected (markets stateC4 1) = 3214285714285714282 \<and>
   \<not> resolved (markets stateC4 1) \<and> \<not> invalidated (markets stateC4 1) \<and>
   resolveMarket (at_time deployer 90000) stateC4 1 2 = Inl Panic \<and>
   invalidateMarket (at_time deployer 90000) stateC4 1 = Inl Panic"
proof -
  have c: "createMarketWithToken (at_time deployer 2100) stateA2 ''Who wins the cup?'' ''Run B''
     [''Red'', ''Green'', ''Blue''] [''Red wins'', ''Green wins'', ''Blue wins''] 86400 SPORTS
     STANDARD (900 * 10 ^ 18) False \<lparr>maxFreeParticipants_p = 0, tokensPerParticipant_p = 0\<rparr>
     token0 = Inr (1, stateC1)"
    by (simp add: runC_defs stateA2_facts addr_distinct eval_defs numeral_3_eq_3 [symmetric]
        numeral_2_eq_2 [symmetric])
  have b: "buyShares (at_time trader 2200) stateC1 1 2 (300 * 10 ^ 18) (10 ^ 18) (300 * 10 ^ 18)
     = Inr stateC2"
    using run_C2 by (simp add: buyC_def)
  have i1: "invalidateMarket (at_time deployer 2300) stateC2 0 = Inr stateC3"
    using run_C3 by simp
  have i2: "invalidateMarket (at_time deployer 2400) stateC3 0 = Inr stateC4"
    using run_C4 by simp
  have r: "resolveMarket (at_time deployer 90000) stateC4 1 2 = Inl Panic"
    by (simp add: at_time_def stateC4_facts resolveMarket_def modifier_defs sub256_def)
  have r': "invalidateMarket (at_time deployer 90000) stateC4 1 = Inl Panic"
    by (simp add: at_time_def stateC4_facts invalidateMarket_def modifier_defs sub256_def)
  have v: "platformFeesCollected (markets stateC2 0) = 1309523809523809522"
   "platformFeesCollected (markets stateC2 1) = 3214285714285714282"
   "totalLockedPlatformFees stateC2 = 1309523809523809522 + 3214285714285714282"
   "totalPlatformFeesCollected stateC2 = 1309523809523809522 + 3214285714285714282"
   "totalLockedPlatformFees stateC3 = 3214285714285714282"
   "totalPlatformFeesCollected stateC3 = 3214285714285714282"
   "invalidated (markets stateC3 0)"
   "platformFeesCollected (markets stateC3 0) = 1309523809523809522"
   "totalLockedPlatformFees stateC4 = 3214285714285714282 - 1309523809523809522"
   "totalPlatformFeesCollected stateC4 = 3214285714285714282 - 1309523809523809522"
   "platformFeesCollected (markets stateC4 1) = 3214285714285714282"
   "\<not> resolved (markets stateC4 1)" "\<not> invalidated (markets stateC4 1)"
    by (simp_all add: stateC2_facts stateC3_facts stateC4_facts)
  show ?thesis
    by (intro conjI c b i1 i2 r r' v)
qed

text \<open>
  C5. A successful \<^verbatim>\<open>claimWinnings\<close> is the caller's first for that market; it pays
  \<open>shares * PAYOUT_PER_SHARE / 10^18\<close>, which is the number of winning-option shares
  the caller holds; the token transfer is issued on a storage in which the claim latch is
  already set and the portfolio already credited; and after it, whatever steps the system
  takes, every further \<^verbatim>\<open>claimWinnings\<close> of the same caller for the same market fails
  with \<^verbatim>\<open>Already claimed\<close>. So the caller is paid at most once, and never more than
  \<open>shares * PAYOUT_PER_SHARE\<close>.
\<close>

theorem claimWinnings_at_most_once:
  assumes "claimWinnings e s mid = Inr s1" and "step\<^sup>*\<^sup>* s1 s2"
    and "msg_sender e' = msg_sender e"
  shows "\<not> hasClaimedWinnings s mid (msg_sender e) \<and>
    (\<exists>payout latched.
       payout = userShares s (msg_sender e) mid (winningOptionId (markets s mid))
                  * PAYOUT_PER_SHARE div 10 ^ 18 \<and>
       payout = userShares s (msg_sender e) mid (winningOptionId (markets s mid)) \<and>
       payout \<le> userShares s (msg_sender e) mid (winningOptionId (markets s mid))
                  * PAYOUT_PER_SHARE \<and>
       claimWinnings_latched s (msg_sender e) mid payout = Inr latched \<and>
       hasClaimedWinnings latched mid (msg_sender e) \<and>
       balances latched = balances s \<and>
       erc20_transfer latched (bettingToken (markets s mid)) (this s) (msg_sender e) payout
         = Inr s1 \<and>
       balances s1 = ledger_move (balances s) (bettingToken (markets s mid)) (this s)
                       (msg_sender e) payout \<and>
       (msg_sender e \<noteq> this s \<longrightarrow>
          balances s1 (bettingToken (markets s mid)) (msg_sender e)
            = balances s (bettingToken (markets s mid)) (msg_sender e) + payout) \<and>
       totalWinnings (userPortfolios s1 (msg_sender e))
         = totalWinnings (userPortfolios s (msg_sender e)) + payout) \<and>
    hasClaimedWinnings s1 mid (msg_sender e) \<and>
    claimWinnings e' s2 mid = Inl (Revert ''Already claimed'')"
proof -
  let ?u = "msg_sender e"
  let ?w = "winningOptionId (markets s mid)"
  let ?tok = "bettingToken (markets s mid)"
  from claimWinnings_Inr [OF assms(1)] obtain payout latched where
    g: "mid < marketCount s" "resolved (markets s mid)" "\<not> invalidated (markets s mid)"
       "\<not> hasClaimedWinnings s mid ?u"
    and p: "payout = userShares s ?u mid ?w * PAYOUT_PER_SHARE div 10 ^ 18"
    and l: "claimWinnings_latched s ?u mid payout = Inr latched"
    and le: "latched = s\<lparr>hasClaimedWinnings := (hasClaimedWinnings s)
                   (mid := (hasClaimedWinnings s mid)(?u := True)),
                userPortfolios := (userPortfolios s)(?u :=
                   (userPortfolios s ?u)
                   \<lparr>totalWinnings := totalWinnings (userPortfolios s ?u) + payout\<rparr>)\<rparr>"
    and t: "erc20_transfer latched ?tok (this s) ?u payout = Inr s1"
    and s1: "s1 = latched\<lparr>balances := ledger_move (balances s) ?tok (this s) ?u payout\<rparr>"
    by blast
  have p1: "payout = userShares s ?u mid ?w"
    using p by (simp add: PAYOUT_PER_SHARE_def)
  have p2: "payout \<le> userShares s ?u mid ?w * PAYOUT_PER_SHARE"
    using p1 by (simp add: PAYOUT_PER_SHARE_def)
  have f1: "mid < marketCount s1" "resolved (markets s1 mid)" "\<not> invalidated (markets s1 mid)"
    "hasClaimedWinnings s1 mid ?u"
    using g by (simp_all add: s1 le)
  have "mid < marketCount s2"
    using steps_marketCount_mono [OF assms(2)] f1(1) by simp
  moreover have "resolved (markets s2 mid)"
    using steps_flags_permanent [OF assms(2) f1(1)] f1(2) by simp
  moreover have "\<not> invalidated (markets s2 mid)"
    using steps_exclusive [OF assms(2), of mid] f1(3) \<open>resolved (markets s2 mid)\<close> by blast
  moreover have "hasClaimedWinnings s2 mid (msg_sender e')"
    using steps_latch [OF assms(2) f1(4)] assms(3) by simp
  ultimately have again: "claimWinnings e' s2 mid = Inl (Revert ''Already claimed'')"
    by (rule claimWinnings_after_claim)
  have b: "balances s1 = ledger_move (balances s) ?tok (this s) ?u payout"
    "balances latched = balances s" "hasClaimedWinnings latched mid ?u"
    "totalWinnings (userPortfolios s1 ?u) = totalWinnings (userPortfolios s ?u) + payout"
    by (simp_all add: s1 le)
  have c: "?u \<noteq> this s \<longrightarrow> balances s1 ?tok ?u = balances s ?tok ?u + payout"
    using b(1) by (simp add: ledger_move_other)
  show ?thesis
    using g(4) p p1 p2 l t b c f1(4) again by blast
qed

theorem claimWinnings_at_most_once_witness:
  "\<exists>s1. claimWinnings (at_time trader 95000) stateA3 0 = Inr s1 \<and>
     balances s1 token0 trader = balances stateA3 token0 trader + 100 * 10 ^ 18 \<and>
     hasClaimedWinnings s1 0 trader \<and>
     claimWinnings (at_time trader 96000) s1 0 = Inl (Revert ''Already claimed'')"
proof -
  obtain s1 where c: "claimWinnings (at_time trader 95000) stateA3 0 = Inr s1"
    by (simp add: run_defs eval_defs)
  have v: "userShares stateA3 (msg_sender (at_time trader 95000)) 0
             (winningOptionId (markets stateA3 0)) = 100 * 10 ^ 18"
    "bettingToken (markets stateA3 0) = token0" "msg_sender (at_time trader 95000) = trader"
    "msg_sender (at_time trader 95000) \<noteq> this stateA3"
    "msg_sender (at_time trader 96000) = msg_sender (at_time trader 95000)"
    by (simp_all add: run_defs)
  from claimWinnings_at_most_once [OF c rtranclp.rtrancl_refl v(5)] v
  have "balances s1 token0 trader = balances stateA3 token0 trader + 100 * 10 ^ 18 \<and>
     hasClaimedWinnings s1 0 trader \<and>
     claimWinnings (at_time trader 96000) s1 0 = Inl (Revert ''Already claimed'')"
    by auto
  with c show ?thesis by blast
qed

text \<open>
  C7. In a reachable state, a successful sell of \<open>q\<close> shares by a caller holding
  \<open>shares \<ge> q\<close> of the option with cost basis \<open>basis\<close> lowers the cost basis by
  \<open>basis * q div shares\<close> (integer division, the share count before the sell as
  denominator), adds \<open>net - reduction\<close> to the caller's \<open>realizedPnL\<close> (as a signed
  number, no cast wraps), and moves \<open>net = proceeds - fee\<close> tokens of the market's betting
  token from the engine to the caller, where \<open>fee = proceeds * platformFeeRate div 1000\<close>.
\<close>

theorem sell_reduces_basis_proportionally:
  assumes "reachable s" and "sellShares e s mid oid q mp mt = Inr s'"
  shows "\<exists>proceeds fee net reduction.
     calculateSellProceeds s mid oid q = Inr proceeds \<and>
     fee = proceeds * platformFeeRate s div 1000 \<and> net = proceeds - fee \<and> fee \<le> proceeds \<and>
     0 < q \<and> q \<le> userShares s (msg_sender e) mid oid \<and>
     reduction = userCostBasis s (msg_sender e) mid oid * q
                   div userShares s (msg_sender e) mid oid \<and>
     reduction \<le> userCostBasis s (msg_sender e) mid oid \<and>
     userCostBasis s' (msg_sender e) mid oid =
       userCostBasis s (msg_sender e) mid oid - reduction \<and>
     userShares s' (msg_sender e) mid oid = userShares s (msg_sender e) mid oid - q \<and>
     realizedPnL (userPortfolios s' (msg_sender e)) =
       realizedPnL (userPortfolios s (msg_sender e)) + (int net - int reduction) \<and>
     net \<le> balances s (bettingToken (markets s mid)) (this s) \<and>
     balances s' = ledger_move (balances s) (bettingToken (markets s mid)) (this s)
                     (msg_sender e) net \<and>
     (msg_sender e \<noteq> this s \<longrightarrow>
        balances s' (bettingToken (markets s mid)) (msg_sender e) =
          balances s (bettingToken (markets s mid)) (msg_sender e) + net \<and>
        balances s' (bettingToken (markets s mid)) (this s) =
          balances s (bettingToken (markets s mid)) (this s) - net)"
proof -
  from sellShares_effect [OF assms(2)] obtain proceeds fee net red where
    p: "calculateSellProceeds s mid oid q = Inr proceeds"
    and f: "fee = proceeds * platformFeeRate s div 1000" "fee \<le> proceeds" "net = proceeds - fee"
    and q: "0 < q" "q \<le> userShares s (msg_sender e) mid oid"
    and m: "userCostBasis s (msg_sender e) mid oid * q \<le> MAX_UINT256"
    and r: "red = userCostBasis s (msg_sender e) mid oid * q
                    div userShares s (msg_sender e) mid oid"
      "red \<le> userCostBasis s (msg_sender e) mid oid"
    and n: "net \<le> balances s (bettingToken (markets s mid)) (this s)"
    and e: "userCostBasis s' (msg_sender e) mid oid =
              userCostBasis s (msg_sender e) mid oid - red"
      "userShares s' (msg_sender e) mid oid = userShares s (msg_sender e) mid oid - q"
      "realizedPnL (userPortfolios s' (msg_sender e)) =
         realizedPnL (userPortfolios s (msg_sender e)) + (int256_of net - int256_of red)"
    and b: "balances s' = ledger_move (balances s) (bettingToken (markets s mid)) (this s)
                     (msg_sender e) net"
    by (elim exE conjE)
  have "basisInv s" using assms(1) by (rule reachable_basisInv)
  then have c: "userCostBasis s (msg_sender e) mid oid \<le> userShares s (msg_sender e) mid oid"
    by (simp add: basisInv_def)
  have "proceeds < 2 ^ 255" using p by (rule calculateSellProceeds_small)
  then have "net < 2 ^ 255" using f(3) by simp
  then have i1: "int256_of net = int net" by (rule int256_of_small)
  have "red < 2 ^ 255" unfolding r(1) using c q m by (rule reduction_small)
  then have i2: "int256_of red = int red" by (rule int256_of_small)
  have l: "msg_sender e \<noteq> this s \<longrightarrow>
        balances s' (bettingToken (markets s mid)) (msg_sender e) =
          balances s (bettingToken (markets s mid)) (msg_sender e) + net \<and>
        balances s' (bettingToken (markets s mid)) (this s) =
          balances s (bettingToken (markets s mid)) (this s) - net"
    unfolding b using ledger_move_other [of "this s" "msg_sender e"] by simp
  show ?thesis
    apply (rule exI [of _ proceeds], rule exI [of _ fee], rule exI [of _ net],
        rule exI [of _ red])
    using p f q r n e b l unfolding i1 i2 by (intro conjI)
qed

theorem sell_reduces_basis_proportionally_witness:
  "\<exists>s'. sellShares (at_time trader 3000) stateA2 0 0 (40 * 10 ^ 18) 0 0 = Inr s' \<and>
     userCostBasis s' trader 0 0 = 52380952380952380900 - 20952380952380952360 \<and>
     userShares s' trader 0 0 = 60 * 10 ^ 18 \<and>
     realizedPnL (userPortfolios s' trader) = 20944444444444444443 - 20952380952380952360 \<and>
     balances s' token0 trader = balances stateA2 token0 trader + 20944444444444444443"
proof -
  obtain s' where s: "sellShares (at_time trader 3000) stateA2 0 0 (40 * 10 ^ 18) 0 0 = Inr s'"
    by (simp add: at_time_def stateA2_facts stateA2_market addr_distinct eval_defs upt_2)
  have v: "calculateSellProceeds stateA2 0 0 (40 * 10 ^ 18) = Inr 21481481481481481480"
    "platformFeeRate stateA2 = 25" "msg_sender (at_time trader 3000) = trader"
    "userCostBasis stateA2 trader 0 0 = 52380952380952380900"
    "userShares stateA2 trader 0 0 = 100 * 10 ^ 18"
    "realizedPnL (userPortfolios stateA2 trader) = 0"
    "bettingToken (markets stateA2 0) = token0" "this stateA2 = engine" "trader \<noteq> engine"
    by (simp_all add: at_time_def stateA2_facts stateA2_market addr_distinct eval_defs upt_2)
  from sell_reduces_basis_proportionally [OF reachable_A2 s]
  show ?thesis
    unfolding v using s v(9) by (intro exI [of _ s']) auto
qed

text \<open>
  C3. \<^verbatim>\<open>_updatePrice\<close> is called by \<^verbatim>\<open>buyShares\<close> and \<^verbatim>\<open>sellShares\<close> for the traded option
  only, so the stored \<^verbatim>\<open>currentPrice\<close> of every other option of the market keeps the value
  it had before the trade.  In Scenario A of the specification (run A) both options start at
  \<open>0.5\<close>; after the purchase of 100 shares of option 0 the stored price of option 0 is
  \<open>0.545454545454545454\<close> and the stored price of option 1 is still \<open>0.5\<close>, not below
  it; the two stored prices sum to \<open>1.045454545454545454\<close>.  The price that
  \<^verbatim>\<open>_calculatePrice\<close> computes for option 1 in that state is \<open>0.454545454545454545\<close>.
\<close>

theorem buy_leaves_other_price_stale:
  "currentPrice (options stateA1 0 0) = 5 * 10 ^ 17 \<and>
   currentPrice (options stateA1 0 1) = 5 * 10 ^ 17 \<and>
   buyShares (at_time trader 2000) stateA1 0 0 (100 * 10 ^ 18) (10 ^ 18) (100 * 10 ^ 18)
     = Inr stateA2 \<and>
   currentPrice (options stateA2 0 0) = 545454545454545454 \<and>
   currentPrice (options stateA2 0 1) = 5 * 10 ^ 17 \<and>
   currentPrice (options stateA2 0 0) + currentPrice (options stateA2 0 1)
     = 10 ^ 18 + 45454545454545454 \<and>
   calculatePrice stateA2 0 1 (totalShares (options stateA2 0 1)) = Inr 454545454545454545"
proof -
  have b: "buyShares (at_time trader 2000) stateA1 0 0 (100 * 10 ^ 18) (10 ^ 18) (100 * 10 ^ 18)
     = Inr stateA2"
    using run_A2 by (simp add: buyA_def)
  have c: "calculatePrice stateA2 0 1 (totalShares (options stateA2 0 1)) = Inr 454545454545454545"
    by (simp add: stateA2_market calculatePrice_def upt_2 add256_def mul256_def div256_def
        MAX_UINT256_def Let_def)
  have v: "currentPrice (options stateA1 0 0) = 5 * 10 ^ 17"
    "currentPrice (options stateA1 0 1) = 5 * 10 ^ 17"
    "currentPrice (options stateA2 0 0) = 545454545454545454"
    "currentPrice (options stateA2 0 1) = 5 * 10 ^ 17"
    "currentPrice (options stateA2 0 0) + currentPrice (options stateA2 0 1)
       = 10 ^ 18 + 45454545454545454"
    by (simp_all add: stateA1_market stateA2_market)
  show ?thesis
    by (intro conjI b c v)
qed

text \<open>
  C6. \<^verbatim>\<open>disputeMarket\<close> tests the caller's shares of options 0 and 1 only, whatever the
  number of options of the market.  In run B the market has three options and the trader
  holds 30 shares of option 2 and nothing else: the trader is a participant of the market,
  which exists and is not resolved, and the call fails with \<^verbatim>\<open>Must be participant\<close>.
\<close>

theorem dispute_ignores_options_above_one:
  "buyShares (at_time trader 2000) stateB1 0 2 (30 * 10 ^ 18) (10 ^ 18) (30 * 10 ^ 18)
     = Inr stateB2 \<and>
   marketCount stateB2 = 1 \<and> \<not> resolved (markets stateB2 0) \<and>
   optionCount (markets stateB2 0) = 3 \<and>
   userShares stateB2 trader 0 2 = 30 * 10 ^ 18 \<and>
   disputeMarket (at_time trader 3000) stateB2 0 ''Wrong outcome''
     = Inl (Revert ''Must be participant'')"
proof -
  have b: "buyShares (at_time trader 2000) stateB1 0 2 (30 * 10 ^ 18) (10 ^ 18) (30 * 10 ^ 18)
     = Inr stateB2"
    using run_B2 by (simp add: buyB_def)
  have d: "disputeMarket (at_time trader 3000) stateB2 0 ''Wrong outcome''
     = Inl (Revert ''Must be participant'')"
    by (simp add: disputeMarket_def modifier_defs at_time_def stateB2_facts)
  have v: "marketCount stateB2 = 1" "\<not> resolved (markets stateB2 0)"
    "optionCount (markets stateB2 0) = 3" "userShares stateB2 trader 0 2 = 30 * 10 ^ 18"
    by (simp_all add: stateB2_facts)
  show ?thesis
    by (intro conjI b d v)
qed




text \<open>
  C10. \<^verbatim>\<open>resolveMarket\<close> carries the modifier \<^verbatim>\<open>marketEnded\<close> unconditionally: before the
  end time of the market it fails, also when the market's \<^verbatim>\<open>earlyResolutionAllowed\<close> is
  true (with \<^verbatim>\<open>Market not ended\<close> when the caller holds the resolver role and the market
  exists).  The flag is stored by the creation of the market and returned by
  \<^verbatim>\<open>getMarketExtendedMeta\<close>.  No state-changing function reads it: for every call of the
  contract, running it on the storage with the flag of an existing market set to any value
  \<open>b\<close> gives the same error, or the same new storage with that flag set to \<open>b\<close>.
\<close>

theorem early_resolution_flag_ignored:
  "(block_timestamp e < endTime (markets s mid) \<longrightarrow>
      earlyResolutionAllowed (markets (setEarly mid True s) mid) \<and>
      (\<exists>err. resolveMarket e (setEarly mid True s) mid w = Inl err)) \<and>
   (mid < marketCount s \<and> roles s QUESTION_RESOLVE_ROLE (msg_sender e) \<and>
    block_timestamp e < endTime (markets s mid) \<longrightarrow>
      resolveMarket e (setEarly mid True s) mid w = Inl (Revert ''Market not ended'')) \<and>
   (createMarketWithToken e s qt dt ns ds dur cat mt liq early fp token = Inr (k, s') \<longrightarrow>
      earlyResolutionAllowed (markets s' k) = early) \<and>
   (mid < marketCount s \<longrightarrow>
      (\<exists>win d v cr. getMarketExtendedMeta s mid
          = Inr (win, d, v, cr, earlyResolutionAllowed (markets s mid)))) \<and>
   (mid < marketCount s \<longrightarrow>
      exec e (setEarly mid b s) c = map_sum id (setEarly mid b) (exec e s c))"
proof (intro conjI impI)
  assume a: "block_timestamp e < endTime (markets s mid)"
  then have "block_timestamp e < endTime (markets (setEarly mid True s) mid)"
    by (simp add: setEarly_market_fields)
  then show "\<exists>err. resolveMarket e (setEarly mid True s) mid w = Inl err"
    by (rule resolve_early)
  show "earlyResolutionAllowed (markets (setEarly mid True s) mid)"
    by (simp add: setEarly_flag)
next
  assume "mid < marketCount s \<and> roles s QUESTION_RESOLVE_ROLE (msg_sender e) \<and>
    block_timestamp e < endTime (markets s mid)"
  then show "resolveMarket e (setEarly mid True s) mid w = Inl (Revert ''Market not ended'')"
    by (simp add: resolveMarket_def modifier_defs setEarly_fields setEarly_market_fields)
next
  assume "createMarketWithToken e s qt dt ns ds dur cat mt liq early fp token = Inr (k, s')"
  then show "earlyResolutionAllowed (markets s' k) = early"
    by (rule createMarketWithToken_stores_flag)
next
  assume "mid < marketCount s"
  then show "\<exists>win d v cr. getMarketExtendedMeta s mid
          = Inr (win, d, v, cr, earlyResolutionAllowed (markets s mid))"
    by (simp add: getMarketExtendedMeta_def modifier_defs Let_def)
next
  assume "mid < marketCount s"
  then show "exec e (setEarly mid b s) c = map_sum id (setEarly mid b) (exec e s c)"
    by (rule exec_setEarly)
qed

theorem early_resolution_flag_ignored_witness:
  "earlyResolutionAllowed (markets (setEarly 0 True stateA2) 0) \<and>
   (\<exists>err. resolveMarket (at_time deployer 3000) (setEarly 0 True stateA2) 0 0 = Inl err) \<and>
   resolveMarket (at_time deployer 3000) (setEarly 0 True stateA2) 0 0
     = Inl (Revert ''Market not ended'') \<and>
   earlyResolutionAllowed (markets stateA1 0) = True \<and>
   (\<exists>win d v cr. getMarketExtendedMeta stateA2 0
       = Inr (win, d, v, cr, earlyResolutionAllowed (markets stateA2 0))) \<and>
   exec (at_time deployer 3000) (setEarly 0 False stateA2) (ResolveMarket 0 0)
     = map_sum id (setEarly 0 False) (exec (at_time deployer 3000) stateA2 (ResolveMarket 0 0))"
proof -
  have c: "createMarketWithToken (at_time deployer 1000) stateA0 ''Will it rain tomorrow?''
     ''Scenario A'' [''Yes'', ''No''] [''It rains'', ''It stays dry''] 86400 OTHER STANDARD
     (1000 * 10 ^ 18) True \<lparr>maxFreeParticipants_p = 0, tokensPerParticipant_p = 0\<rparr> token0
     = Inr (0, stateA1)"
    by (simp add: run_defs eval_defs numeral_2_eq_2 [symmetric])
  have v: "block_timestamp (at_time deployer 3000) < endTime (markets stateA2 0)"
    "0 < marketCount stateA2"
    "roles stateA2 QUESTION_RESOLVE_ROLE (msg_sender (at_time deployer 3000))"
    by (simp_all add: at_time_def stateA2_facts stateA2_market)
  note T = early_resolution_flag_ignored [where e = "at_time deployer 3000" and s = stateA2
      and mid = 0 and w = 0 and b = False and c = "ResolveMarket 0 0"]
  note C = early_resolution_flag_ignored [where e = "at_time deployer 1000" and s = stateA0
      and k = 0 and s' = stateA1 and early = True, THEN conjunct2, THEN conjunct2,
      THEN conjunct1, THEN mp, OF c]
  from T [THEN conjunct1, THEN mp, OF v(1)]
    T [THEN conjunct2, THEN conjunct1, THEN mp, OF conjI [OF v(2) conjI [OF v(3) v(1)]]]
    C
    T [THEN conjunct2, THEN conjunct2, THEN conjunct2, THEN conjunct1, THEN mp, OF v(2)]
    T [THEN conjunct2, THEN conjunct2, THEN conjunct2, THEN conjunct2, THEN mp, OF v(2)]
  show ?thesis by (intro conjI) simp_all
qed

end
